theory Spec2Isabelle
  imports Main
begin

section \<open>C integers and decimal text\<close>

text \<open>
  The filesystem writes every numeric attribute with the \<^verbatim>\<open>%d\<close> conversion of the
  client library and reads it back with \<^verbatim>\<open>atoi\<close>. \<^verbatim>\<open>%d\<close> takes its argument as a
  32-bit signed \<^verbatim>\<open>int\<close>, whatever the C type of the expression passed (\<^verbatim>\<open>size_t\<close>,
  \<^verbatim>\<open>time_t\<close>, \<^verbatim>\<open>mode_t\<close>, \<^verbatim>\<open>uid_t\<close>): the wrap-around is written out.
\<close>

definition to_int32 :: "int \<Rightarrow> int" where
  "to_int32 x = (x + 2 ^ 31) mod 2 ^ 32 - 2 ^ 31"

definition to_uint32 :: "int \<Rightarrow> nat" where
  "to_uint32 x = nat (x mod 2 ^ 32)"

definition to_uint64 :: "int \<Rightarrow> nat" where
  "to_uint64 x = nat (x mod 2 ^ 64)"

definition LLONG_MAX :: int where
  "LLONG_MAX = 2 ^ 63 - 1"

definition LLONG_MIN :: int where
  "LLONG_MIN = - (2 ^ 63)"

definition clamp_long :: "int \<Rightarrow> int" where
  "clamp_long x = max LLONG_MIN (min LLONG_MAX x)"

definition digit_char :: "nat \<Rightarrow> char" where
  "digit_char d = char_of (48 + d)"

definition isdigit :: "char \<Rightarrow> bool" where
  "isdigit c = (48 \<le> (of_char c :: nat) \<and> (of_char c :: nat) \<le> 57)"

definition isspace :: "char \<Rightarrow> bool" where
  "isspace c = ((of_char c :: nat) = 32 \<or> (9 \<le> (of_char c :: nat) \<and> (of_char c :: nat) \<le> 13))"

fun show_nat :: "nat \<Rightarrow> string" where
  "show_nat n = (if n < 10 then [digit_char n] else show_nat (n div 10) @ [digit_char (n mod 10)])"

declare show_nat.simps [simp del]

text \<open>\<^verbatim>\<open>printf("%d", i)\<close> for an int already in range.\<close>

definition show_int :: "int \<Rightarrow> string" where
  "show_int i = (if i < 0 then CHR ''-'' # show_nat (nat (- i)) else show_nat (nat i))"

text \<open>The \<^verbatim>\<open>%d\<close> conversion of \<^verbatim>\<open>redisCommand\<close>/\<^verbatim>\<open>redisAppendCommand\<close>.\<close>

definition fmt_d :: "int \<Rightarrow> string" where
  "fmt_d v = show_int (to_int32 v)"

fun digits_value :: "nat \<Rightarrow> string \<Rightarrow> nat" where
  "digits_value acc [] = acc"
| "digits_value acc (c # cs) =
     (if isdigit c then digits_value (10 * acc + ((of_char c :: nat) - 48)) cs else acc)"

text \<open>
  \<^verbatim>\<open>strtol(s, NULL, 10)\<close> before saturation: leading white space, an optional sign, then
  the longest run of decimal digits; 0 when there is none.
\<close>

definition strtol10 :: "string \<Rightarrow> int" where
  "strtol10 s =
     (case dropWhile isspace s of
        [] \<Rightarrow> 0
      | c # r \<Rightarrow>
          if c = CHR ''-'' then - int (digits_value 0 r)
          else if c = CHR ''+'' then int (digits_value 0 r)
          else int (digits_value 0 (c # r)))"

text \<open>\<^verbatim>\<open>atoi\<close> is \<^verbatim>\<open>(int) strtol(s, NULL, 10)\<close>: saturation to \<^verbatim>\<open>long\<close>, then truncation.\<close>

definition atoi :: "string \<Rightarrow> int" where
  "atoi s = to_int32 (clamp_long (strtol10 s))"

text \<open>
  The store's own reading of a string value as a 64-bit integer (for its increment
  commands): only the canonical decimal text of an integer in range is accepted.
\<close>

definition string2ll :: "string \<Rightarrow> int option" where
  "string2ll s =
     (let n = strtol10 s
      in if s = show_int n \<and> LLONG_MIN \<le> n \<and> n \<le> LLONG_MAX then Some n else None)"

section \<open>Path utilities\<close>

text \<open>
  The two functions of \<^verbatim>\<open>pathutil.c\<close>. A path is a C string, so it holds no zero byte;
  the allocations are taken to succeed. \<open>strrchr\<close> gives the position of the last
  occurrence of a character where the C function gives a pointer to it, and \<open>None\<close>
  where it gives \<^verbatim>\<open>NULL\<close>.
\<close>

fun strrchr :: "string \<Rightarrow> char \<Rightarrow> nat option" where
  "strrchr [] c = None"
| "strrchr (x # xs) c =
     (case strrchr xs c of
        Some k \<Rightarrow> Some (Suc k)
      | None \<Rightarrow> if x = c then Some 0 else None)"

text \<open>
  \<^verbatim>\<open>get_parent\<close> copies the path and writes a zero byte over its last \<^verbatim>\<open>/\<close>; without a
  \<^verbatim>\<open>/\<close> it returns \<^verbatim>\<open>NULL\<close> (\<open>None\<close>). If what is left is empty, it becomes \<^verbatim>\<open>/\<close>.
\<close>

definition get_parent :: "string \<Rightarrow> string option" where
  "get_parent path =
     (case strrchr path CHR ''/'' of
        None \<Rightarrow> None
      | Some k \<Rightarrow>
          (let parent = take k path
           in Some (if parent = [] then ''/'' else parent)))"

text \<open>
  \<^verbatim>\<open>get_basename\<close> copies what follows the last \<^verbatim>\<open>/\<close> of the path, and the whole path
  when it has none.
\<close>

definition get_basename :: "string \<Rightarrow> string" where
  "get_basename path =
     (case strrchr path CHR ''/'' of
        None \<Rightarrow> path
      | Some k \<Rightarrow> drop (k + 1) path)"

section \<open>The backing store\<close>

text \<open>
  The store is seen through the keys of one mount's prefix. An attribute key
  \<^verbatim>\<open>P:INODE:i:A\<close> and the counter key \<^verbatim>\<open>P:GLOBAL:INODE\<close> hold byte strings; a key
  \<^verbatim>\<open>P:DIRENT:i\<close> holds a set, whose members the filesystem always writes as the decimal
  text of an inode number and reads back with \<^verbatim>\<open>atoi\<close>, so a member is kept as the
  number. The list of a set is the order in which \<^verbatim>\<open>SMEMBERS\<close> replies; the store
  promises no particular order, and the model adds a new member at the end. The
  theorems below that depend on a lookup assume that the name looked up is borne by one
  member only, so that they do not depend on that order.
\<close>

datatype attr =
  A_NAME | A_TYPE | A_MODE | A_GID | A_UID | A_ATIME | A_CTIME | A_MTIME
| A_SIZE | A_DATA | A_LINK | A_TARGET

datatype skey = INODE int attr | GLOBAL_INODE

record redis =
  strs :: "skey \<Rightarrow> string option"
  dirent :: "int \<Rightarrow> int list"

definition redis_GET :: "redis \<Rightarrow> skey \<Rightarrow> string option" where
  "redis_GET s k = strs s k"

definition redis_MGET :: "redis \<Rightarrow> skey list \<Rightarrow> string option list" where
  "redis_MGET s ks = map (strs s) ks"

definition redis_SET :: "redis \<Rightarrow> skey \<Rightarrow> string \<Rightarrow> redis" where
  "redis_SET s k v = s\<lparr>strs := (strs s)(k \<mapsto> v)\<rparr>"

fun redis_MSET :: "redis \<Rightarrow> (skey \<times> string) list \<Rightarrow> redis" where
  "redis_MSET s [] = s"
| "redis_MSET s ((k, v) # kvs) = redis_MSET (redis_SET s k v) kvs"

definition redis_DEL :: "redis \<Rightarrow> skey \<Rightarrow> redis" where
  "redis_DEL s k = s\<lparr>strs := (strs s)(k := None)\<rparr>"

definition redis_SMEMBERS :: "redis \<Rightarrow> int \<Rightarrow> int list" where
  "redis_SMEMBERS s d = dirent s d"

definition redis_SADD :: "redis \<Rightarrow> int \<Rightarrow> int \<Rightarrow> redis" where
  "redis_SADD s d m =
     (if m \<in> set (dirent s d) then s else s\<lparr>dirent := (dirent s)(d := dirent s d @ [m])\<rparr>)"

definition redis_SREM :: "redis \<Rightarrow> int \<Rightarrow> int \<Rightarrow> redis" where
  "redis_SREM s d m = s\<lparr>dirent := (dirent s)(d := removeAll m (dirent s d))\<rparr>"

text \<open>
  \<^verbatim>\<open>INCRBY\<close>: an absent key counts as 0; a value that is not an integer, or a sum outside
  64 bits, is an error reply (\<open>None\<close>) and changes nothing.
\<close>

definition redis_INCRBY :: "redis \<Rightarrow> skey \<Rightarrow> int \<Rightarrow> int option \<times> redis" where
  "redis_INCRBY s k n =
     (case (case strs s k of None \<Rightarrow> Some 0 | Some v \<Rightarrow> string2ll v) of
        None \<Rightarrow> (None, s)
      | Some old \<Rightarrow>
          if old + n < LLONG_MIN \<or> LLONG_MAX < old + n then (None, s)
          else (Some (old + n), redis_SET s k (show_int (old + n))))"

definition redis_INCR :: "redis \<Rightarrow> skey \<Rightarrow> int option \<times> redis" where
  "redis_INCR s k = redis_INCRBY s k 1"

definition redis_APPEND :: "redis \<Rightarrow> skey \<Rightarrow> string \<Rightarrow> redis" where
  "redis_APPEND s k v = redis_SET s k ((case strs s k of None \<Rightarrow> [] | Some old \<Rightarrow> old) @ v)"

text \<open>\<^verbatim>\<open>GETRANGE key start end\<close> with both ends inclusive; an absent key reads as empty.\<close>

definition redis_GETRANGE :: "redis \<Rightarrow> skey \<Rightarrow> nat \<Rightarrow> nat \<Rightarrow> string" where
  "redis_GETRANGE s k start stop =
     (case strs s k of None \<Rightarrow> [] | Some v \<Rightarrow> take (stop + 1 - start) (drop start v))"

section \<open>Configuration and calling context\<close>

text \<open>
  The process-wide settings (the two flags and the key prefix \<^verbatim>\<open>_g_prefix\<close>, which is
  taken to hold neither a space nor a \<^verbatim>\<open>%\<close>), and what a handler reads from its
  surroundings during one call: the clock (one value of \<^verbatim>\<open>time(NULL)\<close> per call), the credentials of the
  request (\<^verbatim>\<open>fuse_get_context()\<close>) and those of the filesystem process itself
  (\<^verbatim>\<open>getuid()\<close>, \<^verbatim>\<open>getgid()\<close>). \<open>stray_slot\<close> is what \<^verbatim>\<open>fs_getattr\<close> finds at index 6
  of its six-element reply, one past the end: \<open>None\<close> when it is not a string reply.
  The server is taken to answer every command, so that \<^verbatim>\<open>redis_alive\<close>, which sends a
  \<^verbatim>\<open>PING\<close> and reconnects if need be, leaves the store as it is.
\<close>

record env =
  g_read_only :: bool
  g_fast :: bool
  g_prefix :: string
  now :: int
  ctx_uid :: nat
  ctx_gid :: nat
  proc_uid :: nat
  proc_gid :: nat
  stray_slot :: "string option"

definition EPERM :: int where "EPERM = 1"
definition ENOENT :: int where "ENOENT = 2"
definition EIO :: int where "EIO = 5"
definition ENOTEMPTY :: int where "ENOTEMPTY = 39"

definition S_IFDIR :: nat where "S_IFDIR = 16384"
definition S_IFLNK :: nat where "S_IFLNK = 40960"

record stat =
  st_mode :: nat
  st_nlink :: nat
  st_uid :: nat
  st_gid :: nat
  st_size :: int
  st_atime :: int
  st_mtime :: int
  st_ctime :: int

text \<open>The \<^verbatim>\<open>memset(stbuf, 0, sizeof(struct stat))\<close> at the head of \<^verbatim>\<open>fs_getattr\<close>.\<close>

definition stat_zero :: stat where
  "stat_zero = \<lparr>st_mode = 0, st_nlink = 0, st_uid = 0, st_gid = 0, st_size = 0,
     st_atime = 0, st_mtime = 0, st_ctime = 0\<rparr>"

section \<open>Inode allocation, removal and lookup\<close>

text \<open>
  A handler's result is an \<open>option\<close>: \<open>None\<close> stands for the process faulting inside the
  handler (a \<^verbatim>\<open>NULL\<close> string handed to \<^verbatim>\<open>strcmp\<close>, \<^verbatim>\<open>atoi\<close> or \<^verbatim>\<open>strdup\<close>, or a copy
  that runs past the end of a reply or of a buffer), so that nothing is returned.
\<close>

definition get_next_inode :: "redis \<Rightarrow> int \<times> redis" where
  "get_next_inode s =
     (case redis_INCR s GLOBAL_INODE of
        (Some n, s') \<Rightarrow> (to_int32 n, s')
      | (None, s') \<Rightarrow> (- 1, s'))"

definition inode_attrs :: "attr list" where
  "inode_attrs = [A_NAME, A_TYPE, A_MODE, A_GID, A_UID, A_ATIME, A_CTIME, A_MTIME,
     A_SIZE, A_DATA, A_LINK, A_TARGET]"

definition remove_inode :: "redis \<Rightarrow> int \<Rightarrow> redis" where
  "remove_inode s inode =
     (if inode < 0 then s else foldl redis_DEL s (map (INODE inode) inode_attrs))"

text \<open>
  \<^verbatim>\<open>find_inode\<close> and \<^verbatim>\<open>fs_readdir\<close> build the text of one \<^verbatim>\<open>MGET\<close> command in a buffer
  of 1048576 bytes, with an unchecked \<^verbatim>\<open>sprintf\<close> for each member of the entry set. The
  text and its terminating zero byte must fit; a longer one is written past the end of
  the buffer. The allocation of the buffer is taken to succeed.
\<close>

definition memcommand :: "env \<Rightarrow> int list \<Rightarrow> string" where
  "memcommand e members =
     foldl (\<lambda>cmd m. cmd @ '' '' @ g_prefix e @ '':INODE:'' @ show_int m @ '':NAME'')
       ''MGET'' members"

definition MEMCOMMAND_SIZE :: nat where
  "MEMCOMMAND_SIZE = 1048576"

definition fits_buffer :: "env \<Rightarrow> int list \<Rightarrow> bool" where
  "fits_buffer e members = (length (memcommand e members) + 1 \<le> MEMCOMMAND_SIZE)"

text \<open>
  The second loop of \<^verbatim>\<open>find_inode\<close>: element \<open>i\<close> of the \<^verbatim>\<open>MGET\<close> reply is the NAME of
  member \<open>i\<close>; every match overwrites \<open>val\<close>, so the last one stays. A member without a
  NAME key gives a nil element, whose \<^verbatim>\<open>str\<close> is \<^verbatim>\<open>NULL\<close>.
\<close>

fun scan_names :: "redis \<Rightarrow> string \<Rightarrow> int list \<Rightarrow> int \<Rightarrow> int option" where
  "scan_names s entry [] val = Some val"
| "scan_names s entry (m # ms) val =
     (case redis_GET s (INODE m A_NAME) of
        None \<Rightarrow> None
      | Some n \<Rightarrow> scan_names s entry ms (if n = entry then m else val))"

lemma strrchr_less: "strrchr p c = Some k \<Longrightarrow> k < length p"
  by (induction p arbitrary: k) (auto split: option.splits if_splits)

lemma strrchr_at_0: "strrchr p c = Some 0 \<Longrightarrow> \<exists>r. p = c # r"
  by (cases p) (auto split: option.splits if_splits)

lemma get_parent_shorter: "get_parent p = Some q \<Longrightarrow> p \<noteq> ''/'' \<Longrightarrow> length q < length p"
proof -
  assume gp: "get_parent p = Some q" and ne: "p \<noteq> ''/''"
  from gp obtain k where k: "strrchr p CHR ''/'' = Some k"
    by (auto simp: get_parent_def split: option.splits)
  then have kl: "k < length p" by (rule strrchr_less)
  show ?thesis
  proof (cases "k = 0")
    case False
    with gp k kl show ?thesis by (auto simp: get_parent_def Let_def)
  next
    case True
    with gp k have q: "q = ''/''" by (simp add: get_parent_def)
    from k True obtain r where "p = CHR ''/'' # r" using strrchr_at_0 by blast
    with ne have "1 < length p" by (cases r) auto
    with q show ?thesis by simp
  qed
qed

text \<open>
  A \<^verbatim>\<open>NULL\<close> parent is handed to \<^verbatim>\<open>strcmp\<close> by the recursive call. The lookup goes on under
  a parent that was not found: it reads the entry set of \<open>-1\<close>.
\<close>

function find_inode :: "env \<Rightarrow> redis \<Rightarrow> string \<Rightarrow> int option" where
  "find_inode e s path =
     (if path = ''/'' then Some (- 99)
      else case get_parent path of
             None \<Rightarrow> None
           | Some parent \<Rightarrow>
               (case find_inode e s parent of
                  None \<Rightarrow> None
                | Some parent_inode \<Rightarrow>
                    (let members = redis_SMEMBERS s parent_inode
                     in if fits_buffer e members
                        then scan_names s (get_basename path) members (- 1)
                        else None)))"
  by pat_completeness auto
termination
  by (relation "measure (\<lambda>(e, s, p). length p)") (auto simp: get_parent_shorter)

declare find_inode.simps [simp del]

definition is_directory :: "env \<Rightarrow> redis \<Rightarrow> string \<Rightarrow> int option" where
  "is_directory e s path =
     (case find_inode e s path of
        None \<Rightarrow> None
      | Some inode \<Rightarrow>
          if inode = - 1 then Some (- 1)
          else if redis_GET s (INODE inode A_TYPE) = Some ''DIR'' then Some 1
          else Some 0)"

definition count_directory_entries :: "env \<Rightarrow> redis \<Rightarrow> string \<Rightarrow> int option" where
  "count_directory_entries e s path =
     (case find_inode e s path of
        None \<Rightarrow> None
      | Some inode \<Rightarrow> Some (int (length (redis_SMEMBERS s inode))))"

section \<open>Operation handlers\<close>

subsection \<open>readdir and getattr\<close>

text \<open>
  \<^verbatim>\<open>fs_readdir\<close> returns 0 and the names it handed to the filler, in order. A member
  without a NAME key gives a nil element, whose \<^verbatim>\<open>NULL\<close> string goes to \<^verbatim>\<open>strdup\<close>.
\<close>

fun readdir_names :: "redis \<Rightarrow> int list \<Rightarrow> string list option" where
  "readdir_names s [] = Some []"
| "readdir_names s (m # ms) =
     (case redis_GET s (INODE m A_NAME) of
        None \<Rightarrow> None
      | Some n \<Rightarrow> (case readdir_names s ms of None \<Rightarrow> None | Some ns \<Rightarrow> Some (n # ns)))"

definition fs_readdir :: "env \<Rightarrow> redis \<Rightarrow> string \<Rightarrow> (int \<times> string list) option" where
  "fs_readdir e s path =
     (case find_inode e s path of
        None \<Rightarrow> None
      | Some inode \<Rightarrow>
          if inode = - 1 then Some (0, [''.'', ''..''])
          else
            (let members = redis_SMEMBERS s inode
             in if fits_buffer e members
                then (case readdir_names s members of
                        None \<Rightarrow> None
                      | Some ns \<Rightarrow> Some (0, [''.'', ''..''] @ ns))
                else None))"

definition root_stat :: "env \<Rightarrow> stat" where
  "root_stat e = stat_zero\<lparr>st_atime := now e, st_mtime := now e, st_ctime := now e,
     st_uid := proc_uid e, st_gid := proc_gid e, st_mode := or S_IFDIR 493, st_nlink := 1\<rparr>"

text \<open>
  One guarded assignment of \<^verbatim>\<open>fs_getattr\<close>: when the slot \<open>tested\<close> is a string reply, the
  field is set from \<^verbatim>\<open>atoi\<close> of the slot \<open>taken\<close>; a nil slot there has a \<^verbatim>\<open>NULL\<close> string.
\<close>

definition read_slot ::
  "string option \<Rightarrow> string option \<Rightarrow> (int \<Rightarrow> stat \<Rightarrow> stat) \<Rightarrow> stat \<Rightarrow> stat option" where
  "read_slot tested taken upd st =
     (case tested of
        None \<Rightarrow> Some st
      | Some _ \<Rightarrow> (case taken of None \<Rightarrow> None | Some v \<Rightarrow> Some (upd (atoi v) st)))"

text \<open>
  The first reply of \<^verbatim>\<open>fs_getattr\<close> has six slots, for CTIME, ATIME, MTIME, GID, UID and
  LINK. The source tests slot 4 and reads slot 3 for the uid, tests slot 5 and reads slot
  4 for the link count, and tests slot 6, one past the end of the reply (\<open>stray\<close>), and
  reads slot 5 for a second assignment of the change time.
\<close>

definition getattr_times_owner :: "string option list \<Rightarrow> string option \<Rightarrow> stat \<Rightarrow> stat option" where
  "getattr_times_owner reply stray st0 =
     Option.bind (read_slot (reply ! 0) (reply ! 0) (\<lambda>v st. st\<lparr>st_ctime := v\<rparr>) st0) (\<lambda>st1.
     Option.bind (read_slot (reply ! 1) (reply ! 1) (\<lambda>v st. st\<lparr>st_atime := v\<rparr>) st1) (\<lambda>st2.
     Option.bind (read_slot (reply ! 2) (reply ! 2) (\<lambda>v st. st\<lparr>st_mtime := v\<rparr>) st2) (\<lambda>st3.
     Option.bind (read_slot (reply ! 3) (reply ! 3) (\<lambda>v st. st\<lparr>st_gid := to_uint32 v\<rparr>) st3) (\<lambda>st4.
     Option.bind (read_slot (reply ! 4) (reply ! 3) (\<lambda>v st. st\<lparr>st_uid := to_uint32 v\<rparr>) st4) (\<lambda>st5.
     Option.bind (read_slot (reply ! 5) (reply ! 4) (\<lambda>v st. st\<lparr>st_nlink := to_uint64 v\<rparr>) st5) (\<lambda>st6.
     read_slot stray (reply ! 5) (\<lambda>v st. st\<lparr>st_ctime := v\<rparr>) st6))))))"

text \<open>The second reply has three slots, for TYPE, MODE and SIZE.\<close>

definition getattr_type :: "string option list \<Rightarrow> stat \<Rightarrow> stat" where
  "getattr_type reply st0 =
     (case reply ! 0 of
        None \<Rightarrow> st0
      | Some ty \<Rightarrow>
          (let st1 = (case reply ! 1 of Some v \<Rightarrow> st0\<lparr>st_mode := to_uint32 (atoi v)\<rparr> | None \<Rightarrow> st0)
           in if ty = ''DIR'' then st1\<lparr>st_mode := or (st_mode st1) S_IFDIR\<rparr>
              else if ty = ''LINK''
                then st1\<lparr>st_mode := or (st_mode st1) S_IFLNK, st_nlink := 1, st_size := 0\<rparr>
              else if ty = ''FILE''
                then (case reply ! 2 of Some v \<Rightarrow> st1\<lparr>st_size := atoi v\<rparr> | None \<Rightarrow> st1)
              else st1))"

definition fs_getattr :: "env \<Rightarrow> redis \<Rightarrow> string \<Rightarrow> (int \<times> stat) option" where
  "fs_getattr e s path =
     (if path = ''/'' then Some (0, root_stat e)
      else case find_inode e s path of
             None \<Rightarrow> None
           | Some inode \<Rightarrow>
               if inode = - 1 then Some (- ENOENT, stat_zero)
               else
                 (case getattr_times_owner
                         (redis_MGET s (map (INODE inode)
                            [A_CTIME, A_ATIME, A_MTIME, A_GID, A_UID, A_LINK]))
                         (stray_slot e) stat_zero of
                    None \<Rightarrow> None
                  | Some st \<Rightarrow>
                      Some (0, getattr_type
                                 (redis_MGET s (map (INODE inode) [A_TYPE, A_MODE, A_SIZE])) st)))"

subsection \<open>mkdir, create, symlink\<close>

text \<open>The attribute block that \<^verbatim>\<open>fs_mkdir\<close> and \<^verbatim>\<open>fs_create\<close> write in one \<^verbatim>\<open>MSET\<close>.\<close>

definition new_entry_block :: "env \<Rightarrow> int \<Rightarrow> string \<Rightarrow> string \<Rightarrow> nat \<Rightarrow> (skey \<times> string) list" where
  "new_entry_block e inode entry ty mode =
     [(INODE inode A_NAME, entry), (INODE inode A_TYPE, ty),
      (INODE inode A_MODE, fmt_d (int mode)), (INODE inode A_UID, fmt_d (int (ctx_uid e))),
      (INODE inode A_GID, fmt_d (int (ctx_gid e))), (INODE inode A_SIZE, fmt_d 0),
      (INODE inode A_CTIME, fmt_d (now e)), (INODE inode A_MTIME, fmt_d (now e)),
      (INODE inode A_ATIME, fmt_d (now e)), (INODE inode A_LINK, ''1'')]"

definition fs_mkdir :: "env \<Rightarrow> redis \<Rightarrow> string \<Rightarrow> nat \<Rightarrow> (int \<times> redis) option" where
  "fs_mkdir e s path mode =
     (if g_read_only e then Some (- EPERM, s)
      else
        (let entry = get_basename path;
             (new_inode, s1) = get_next_inode s
         in case get_parent path of
              None \<Rightarrow> None
            | Some parent \<Rightarrow>
                (case find_inode e s1 parent of
                   None \<Rightarrow> None
                 | Some parent_inode \<Rightarrow>
                     (let s2 = redis_SADD s1 parent_inode new_inode;
                          s3 = redis_MSET s2 (new_entry_block e new_inode entry ''DIR'' mode)
                      in Some (0, s3)))))"

definition fs_create :: "env \<Rightarrow> redis \<Rightarrow> string \<Rightarrow> nat \<Rightarrow> (int \<times> redis) option" where
  "fs_create e s path mode =
     (if g_read_only e then Some (- EPERM, s)
      else
        (case get_parent path of
           None \<Rightarrow> None
         | Some parent \<Rightarrow>
             (case find_inode e s parent of
                None \<Rightarrow> None
              | Some parent_inode \<Rightarrow>
                  (let entry = get_basename path;
                       (key, s1) = get_next_inode s;
                       s2 = redis_SADD s1 parent_inode key;
                       s3 = redis_MSET s2 (new_entry_block e key entry ''FILE'' mode)
                   in Some (0, s3)))))"

text \<open>
  \<^verbatim>\<open>fs_symlink\<close> sends \<^verbatim>\<open>SADD\<close> and eleven \<^verbatim>\<open>SET\<close> commands and reads eleven replies. The
  reply that is left is read by the \<^verbatim>\<open>PING\<close> of the next liveness probe, which then opens a
  new connection; the store is not affected.
\<close>

definition fs_symlink :: "env \<Rightarrow> redis \<Rightarrow> string \<Rightarrow> string \<Rightarrow> (int \<times> redis) option" where
  "fs_symlink e s target path =
     (if g_read_only e then Some (- EPERM, s)
      else
        (case get_parent path of
           None \<Rightarrow> None
         | Some parent \<Rightarrow>
             (case find_inode e s parent of
                None \<Rightarrow> None
              | Some parent_inode \<Rightarrow>
                  (let entry = get_basename path;
                       (key, s1) = get_next_inode s;
                       s2 = redis_SADD s1 parent_inode key;
                       s3 = redis_SET s2 (INODE key A_NAME) entry;
                       s4 = redis_SET s3 (INODE key A_TYPE) ''LINK'';
                       s5 = redis_SET s4 (INODE key A_TARGET) target;
                       s6 = redis_SET s5 (INODE key A_MODE) (fmt_d 292);
                       s7 = redis_SET s6 (INODE key A_UID) (fmt_d (int (ctx_uid e)));
                       s8 = redis_SET s7 (INODE key A_GID) (fmt_d (int (ctx_gid e)));
                       s9 = redis_SET s8 (INODE key A_SIZE) (fmt_d 0);
                       s10 = redis_SET s9 (INODE key A_CTIME) (fmt_d (now e));
                       s11 = redis_SET s10 (INODE key A_MTIME) (fmt_d (now e));
                       s12 = redis_SET s11 (INODE key A_ATIME) (fmt_d (now e));
                       s13 = redis_SET s12 (INODE key A_LINK) ''1''
                   in Some (0, s13)))))"

subsection \<open>rmdir and unlink\<close>

definition fs_rmdir :: "env \<Rightarrow> redis \<Rightarrow> string \<Rightarrow> (int \<times> redis) option" where
  "fs_rmdir e s path =
     (if g_read_only e then Some (- EPERM, s)
      else case is_directory e s path of
             None \<Rightarrow> None
           | Some isdir \<Rightarrow>
               if isdir = 0 then Some (- ENOENT, s)
               else
                 (case count_directory_entries e s path of
                    None \<Rightarrow> None
                  | Some cnt \<Rightarrow>
                      if cnt \<noteq> 0 then Some (- ENOTEMPTY, s)
                      else
                        (case get_parent path of
                           None \<Rightarrow> None
                         | Some parent \<Rightarrow>
                             (case find_inode e s parent of
                                None \<Rightarrow> None
                              | Some parent_inode \<Rightarrow>
                                  (case find_inode e s path of
                                     None \<Rightarrow> None
                                   | Some inode \<Rightarrow>
                                       if inode = - 1 then Some (- ENOENT, s)
                                       else
                                         (let s1 = redis_SREM s parent_inode inode
                                          in Some (0, remove_inode s1 inode)))))))"

definition fs_unlink :: "env \<Rightarrow> redis \<Rightarrow> string \<Rightarrow> (int \<times> redis) option" where
  "fs_unlink e s path =
     (if g_read_only e then Some (- EPERM, s)
      else case find_inode e s path of
             None \<Rightarrow> None
           | Some inode \<Rightarrow>
               if inode = - 1 then Some (- ENOENT, s)
               else
                 (case get_parent path of
                    None \<Rightarrow> None
                  | Some parent \<Rightarrow>
                      (case find_inode e s parent of
                         None \<Rightarrow> None
                       | Some parent_inode \<Rightarrow>
                           (let s1 = redis_SREM s parent_inode inode
                            in Some (0, remove_inode s1 inode)))))"

subsection \<open>write and read\<close>

text \<open>
  \<open>buf\<close> and \<open>nbytes\<close> (the source's \<^verbatim>\<open>size\<close>) are the caller's buffer and byte count; the handler copies the
  first \<open>nbytes\<close> bytes. The result is \<^verbatim>\<open>size\<close> converted to the handler's \<^verbatim>\<open>int\<close>.
  The lookup result is not tested: a path that is not found writes under inode \<open>-1\<close>.
\<close>

definition fs_write ::
  "env \<Rightarrow> redis \<Rightarrow> string \<Rightarrow> string \<Rightarrow> nat \<Rightarrow> nat \<Rightarrow> (int \<times> redis) option" where
  "fs_write e s path buf nbytes offset =
     (if g_read_only e then Some (- EPERM, s)
      else case find_inode e s path of
             None \<Rightarrow> None
           | Some inode \<Rightarrow>
               if offset = 0
               then Some (to_int32 (int nbytes),
                      redis_MSET s
                        [(INODE inode A_SIZE, fmt_d (int nbytes)),
                         (INODE inode A_MTIME, fmt_d (now e)),
                         (INODE inode A_DATA, take nbytes buf)])
               else
                 (let s1 = snd (redis_INCRBY s (INODE inode A_SIZE) (to_int32 (int nbytes)));
                      s2 = redis_APPEND s1 (INODE inode A_DATA) (take nbytes buf);
                      s3 = (if \<not> g_fast e then redis_SET s2 (INODE inode A_MTIME) (fmt_d (now e))
                            else s2)
                  in Some (to_int32 (int nbytes), s3)))"

text \<open>
  \<^verbatim>\<open>fs_read\<close> returns the count and the bytes it copied into the caller's buffer. The
  arithmetic on \<^verbatim>\<open>size_t\<close> wraps at 64 bits. A reply holds its bytes and a terminating
  zero byte; a copy of more than that reads outside the reply. Offsets that the store
  does not accept as 64-bit integers are left out of the model (\<open>None\<close>).
\<close>

definition fs_read ::
  "env \<Rightarrow> redis \<Rightarrow> string \<Rightarrow> nat \<Rightarrow> nat \<Rightarrow> (int \<times> string) option" where
  "fs_read e s path nbytes offset =
     (case find_inode e s path of
        None \<Rightarrow> None
      | Some inode \<Rightarrow>
          if inode = - 1 then Some (- ENOENT, [])
          else
            (case redis_GET s (INODE inode A_SIZE) of
               None \<Rightarrow> None
             | Some v \<Rightarrow>
                 (let sz = to_uint64 (atoi v);
                      size1 = (if sz < nbytes then sz else nbytes);
                      size2 = (if (offset + size1) mod 2 ^ 64 > sz
                               then to_uint64 (int sz - int offset) else size1);
                      stop = (size2 + offset) mod 2 ^ 64
                  in if int offset > LLONG_MAX \<or> int stop > LLONG_MAX then None
                     else
                       (let str = redis_GETRANGE s (INODE inode A_DATA) offset stop
                        in if size2 > length str + 1 then None
                           else Some (to_int32 (int size2), take size2 (str @ [CHR 0x00]))))))"

subsection \<open>readlink, open, access\<close>

text \<open>
  \<^verbatim>\<open>fs_readlink\<close> copies the target, up to its first zero byte and with a terminating
  one, into the caller's buffer of \<open>bufsize\<close> bytes (the source's \<^verbatim>\<open>size\<close>) with
  \<^verbatim>\<open>strcpy\<close>, which does not look at the size.
\<close>

definition fs_readlink :: "env \<Rightarrow> redis \<Rightarrow> string \<Rightarrow> nat \<Rightarrow> (int \<times> string) option" where
  "fs_readlink e s path bufsize =
     (case find_inode e s path of
        None \<Rightarrow> None
      | Some inode \<Rightarrow>
          if inode = - 1 then Some (- ENOENT, [])
          else (case redis_GET s (INODE inode A_TARGET) of
                  Some t \<Rightarrow>
                    (let str = takeWhile (\<lambda>c. c \<noteq> CHR 0x00) t
                     in if bufsize < length str + 1 then None else Some (0, str))
                | None \<Rightarrow> Some (- ENOENT, [])))"

definition fs_open :: "env \<Rightarrow> redis \<Rightarrow> string \<Rightarrow> (int \<times> redis) option" where
  "fs_open e s path =
     (if g_fast e then Some (0, s)
      else case find_inode e s path of
             None \<Rightarrow> None
           | Some inode \<Rightarrow>
               if inode = - 1 then Some (0, s)
               else Some (0, redis_SET s (INODE inode A_ATIME) (fmt_d (now e))))"

definition fs_access :: "env \<Rightarrow> redis \<Rightarrow> string \<Rightarrow> (int \<times> redis) option" where
  "fs_access e s path =
     (if g_fast e then Some (0, s)
      else case find_inode e s path of
             None \<Rightarrow> None
           | Some inode \<Rightarrow>
               if inode = - 1 then Some (0, s)
               else Some (0, redis_SET s (INODE inode A_ATIME) (fmt_d (now e))))"

subsection \<open>chown, chmod, utimens\<close>

definition fs_chown :: "env \<Rightarrow> redis \<Rightarrow> string \<Rightarrow> nat \<Rightarrow> nat \<Rightarrow> (int \<times> redis) option" where
  "fs_chown e s path uid gid =
     (if g_read_only e then Some (- EPERM, s)
      else case find_inode e s path of
             None \<Rightarrow> None
           | Some inode \<Rightarrow>
               if inode = - 1 then Some (- ENOENT, s)
               else Some (0, redis_MSET s
                      [(INODE inode A_UID, fmt_d (int uid)), (INODE inode A_GID, fmt_d (int gid)),
                       (INODE inode A_MTIME, fmt_d (now e))]))"

definition fs_chmod :: "env \<Rightarrow> redis \<Rightarrow> string \<Rightarrow> nat \<Rightarrow> (int \<times> redis) option" where
  "fs_chmod e s path mode =
     (if g_read_only e then Some (- EPERM, s)
      else case find_inode e s path of
             None \<Rightarrow> None
           | Some inode \<Rightarrow>
               if inode = - 1 then Some (- ENOENT, s)
               else Some (0, redis_MSET s
                      [(INODE inode A_MODE, fmt_d (int mode)),
                       (INODE inode A_MTIME, fmt_d (now e))]))"

text \<open>\<open>atime_sec\<close> and \<open>mtime_sec\<close> are \<^verbatim>\<open>tv[0].tv_sec\<close> and \<^verbatim>\<open>tv[1].tv_sec\<close>.\<close>

definition fs_utimens :: "env \<Rightarrow> redis \<Rightarrow> string \<Rightarrow> int \<Rightarrow> int \<Rightarrow> (int \<times> redis) option" where
  "fs_utimens e s path atime_sec mtime_sec =
     (if g_read_only e then Some (- EPERM, s)
      else case find_inode e s path of
             None \<Rightarrow> None
           | Some inode \<Rightarrow>
               if inode = - 1 then Some (- ENOENT, s)
               else Some (0, redis_MSET s
                      [(INODE inode A_ATIME, fmt_d atime_sec),
                       (INODE inode A_MTIME, fmt_d mtime_sec)]))"

subsection \<open>rename and truncate\<close>

definition fs_rename :: "env \<Rightarrow> redis \<Rightarrow> string \<Rightarrow> string \<Rightarrow> (int \<times> redis) option" where
  "fs_rename e s old path =
     (if g_read_only e then Some (- EPERM, s)
      else case find_inode e s old of
             None \<Rightarrow> None
           | Some old_inode \<Rightarrow>
               if old_inode = - 1 then Some (- ENOENT, s)
               else
                 (let s1 = redis_SET s (INODE old_inode A_NAME) (get_basename path)
                  in case get_parent old of
                       None \<Rightarrow> None
                     | Some parent \<Rightarrow>
                         (case find_inode e s1 parent of
                            None \<Rightarrow> None
                          | Some parent_inode \<Rightarrow>
                              (let s2 = redis_SREM s1 parent_inode old_inode
                               in case get_parent path of
                                    None \<Rightarrow> None
                                  | Some parent' \<Rightarrow>
                                      (case find_inode e s2 parent' of
                                         None \<Rightarrow> None
                                       | Some parent_inode' \<Rightarrow>
                                           Some (0, redis_SADD s2 parent_inode' old_inode))))))"

text \<open>The requested length is not used: the data is deleted and the size set to 0.\<close>

definition fs_truncate :: "env \<Rightarrow> redis \<Rightarrow> string \<Rightarrow> int \<Rightarrow> (int \<times> redis) option" where
  "fs_truncate e s path newsize =
     (if g_read_only e then Some (- EPERM, s)
      else case is_directory e s path of
             None \<Rightarrow> None
           | Some isdir \<Rightarrow>
               if isdir \<noteq> 0 then Some (- ENOENT, s)
               else
                 (case find_inode e s path of
                    None \<Rightarrow> None
                  | Some inode \<Rightarrow>
                      if inode = - 1 then Some (- ENOENT, s)
                      else
                        (let s1 = redis_DEL s (INODE inode A_DATA)
                         in Some (0, redis_MSET s1
                              [(INODE inode A_SIZE, ''0''),
                               (INODE inode A_MTIME, fmt_d (now e))]))))"

section \<open>The counter, the operations and the size invariant\<close>

text \<open>What the store reads in the counter key: 0 when absent, nothing when not a number.\<close>

definition counter_value :: "redis \<Rightarrow> int option" where
  "counter_value s = (case strs s GLOBAL_INODE of None \<Rightarrow> Some 0 | Some v \<Rightarrow> string2ll v)"

text \<open>
  The handlers that hand back a store, as one type of operations. The other handlers
  (getattr, readdir, read, readlink) issue reading commands only.
\<close>

datatype operation =
    Op_mkdir string nat
  | Op_rmdir string
  | Op_create string nat
  | Op_unlink string
  | Op_write string string nat nat
  | Op_truncate string int
  | Op_symlink string string
  | Op_chmod string nat
  | Op_chown string nat nat
  | Op_utimens string int int
  | Op_rename string string
  | Op_open string
  | Op_access string

fun run_op :: "env \<Rightarrow> redis \<Rightarrow> operation \<Rightarrow> (int \<times> redis) option" where
  "run_op e s (Op_mkdir p m) = fs_mkdir e s p m"
| "run_op e s (Op_rmdir p) = fs_rmdir e s p"
| "run_op e s (Op_create p m) = fs_create e s p m"
| "run_op e s (Op_unlink p) = fs_unlink e s p"
| "run_op e s (Op_write p buf n off) = fs_write e s p buf n off"
| "run_op e s (Op_truncate p n) = fs_truncate e s p n"
| "run_op e s (Op_symlink t p) = fs_symlink e s t p"
| "run_op e s (Op_chmod p m) = fs_chmod e s p m"
| "run_op e s (Op_chown p u g) = fs_chown e s p u g"
| "run_op e s (Op_utimens p a m) = fs_utimens e s p a m"
| "run_op e s (Op_rename old p) = fs_rename e s old p"
| "run_op e s (Op_open p) = fs_open e s p"
| "run_op e s (Op_access p) = fs_access e s p"

text \<open>
  For an inode of type FILE, SIZE holds the decimal text of the byte length of DATA; an
  absent DATA counts as length 0.
\<close>

definition is_file :: "redis \<Rightarrow> int \<Rightarrow> bool" where
  "is_file s i = (strs s (INODE i A_TYPE) = Some ''FILE'')"

definition data_length :: "redis \<Rightarrow> int \<Rightarrow> nat" where
  "data_length s i = (case strs s (INODE i A_DATA) of None \<Rightarrow> 0 | Some d \<Rightarrow> length d)"

definition size_is_data_length :: "redis \<Rightarrow> int \<Rightarrow> bool" where
  "size_is_data_length s i =
     (case strs s (INODE i A_SIZE) of
        None \<Rightarrow> False
      | Some v \<Rightarrow> string2ll v = Some (int (data_length s i)))"

definition size_invariant :: "redis \<Rightarrow> bool" where
  "size_invariant s = (\<forall>i. is_file s i \<longrightarrow> size_is_data_length s i)"

text \<open>
  The counter is ahead of the store: it holds a number \<open>n\<close>, not negative, and no inode
  number above \<open>n\<close> has an attribute key or is a member of an entry set. The empty store
  is so with \<open>n = 0\<close>.
\<close>

definition well_allocated :: "redis \<Rightarrow> int \<Rightarrow> bool" where
  "well_allocated s n =
     (counter_value s = Some n \<and> 0 \<le> n \<and>
      (\<forall>i a. n < i \<longrightarrow> strs s (INODE i a) = None) \<and>
      (\<forall>d. \<forall>m \<in> set (dirent s d). m \<le> n))"

text \<open>
  What \<open>write\<close> is assumed to be given: a buffer that holds the bytes it announces,
  fewer than \<open>2^31\<close> of them, and a file that stays within what the store can count.
\<close>

fun op_ok :: "env \<Rightarrow> redis \<Rightarrow> operation \<Rightarrow> bool" where
  "op_ok e s (Op_write p buf n off) =
     (n \<le> length buf \<and> n < 2 ^ 31 \<and>
      (case find_inode e s p of
         None \<Rightarrow> True
       | Some i \<Rightarrow> int (data_length s i) + int n \<le> LLONG_MAX))"
| "op_ok e s _ = True"

text \<open>The attributes that the size invariant reads.\<close>

definition sized :: "attr \<Rightarrow> bool" where
  "sized a = (a = A_TYPE \<or> a = A_SIZE \<or> a = A_DATA)"

section \<open>Concrete stores and contexts\<close>

definition empty_store :: redis where
  "empty_store = \<lparr>strs = (\<lambda>k. None), dirent = (\<lambda>d. [])\<rparr>"

text \<open>
  A store with a file \<^verbatim>\<open>/f\<close> (inode 1), a directory \<^verbatim>\<open>/d\<close> (inode 2) and a file
  \<^verbatim>\<open>/d/x\<close> (inode 3).
\<close>

definition sample_store :: redis where
  "sample_store = \<lparr>strs = (\<lambda>k. None)(GLOBAL_INODE \<mapsto> ''3'',
       INODE 1 A_NAME \<mapsto> ''f'', INODE 1 A_TYPE \<mapsto> ''FILE'', INODE 1 A_SIZE \<mapsto> ''0'',
       INODE 2 A_NAME \<mapsto> ''d'', INODE 2 A_TYPE \<mapsto> ''DIR'', INODE 2 A_SIZE \<mapsto> ''0'',
       INODE 3 A_NAME \<mapsto> ''x'', INODE 3 A_TYPE \<mapsto> ''FILE'', INODE 3 A_SIZE \<mapsto> ''0''),
     dirent = (\<lambda>d. [])(- 99 := [1, 2], 2 := [3])\<rparr>"

text \<open>
  A store whose counter stands at the largest \<^verbatim>\<open>int\<close>: the next \<^verbatim>\<open>INCR\<close> answers
  2147483648, which \<^verbatim>\<open>get_next_inode\<close> returns as an \<^verbatim>\<open>int\<close>.
\<close>

definition full_counter_store :: redis where
  "full_counter_store = \<lparr>strs = (\<lambda>k. None)(GLOBAL_INODE \<mapsto> ''2147483647''), dirent = (\<lambda>d. [])\<rparr>"

text \<open>A store whose counter key does not hold a number: \<^verbatim>\<open>INCR\<close> answers with an error.\<close>

definition corrupt_counter_store :: redis where
  "corrupt_counter_store = \<lparr>strs = (\<lambda>k. None)(GLOBAL_INODE \<mapsto> ''corrupt''), dirent = (\<lambda>d. [])\<rparr>"

text \<open>
  A request made by user 1000 of group 100 at time 1300000000, on a filesystem process
  that runs as root (\<^verbatim>\<open>main\<close> refuses to start otherwise) with the default key prefix.
\<close>

definition user_env :: env where
  "user_env = \<lparr>g_read_only = False, g_fast = False, g_prefix = ''skx'', now = 1300000000,
     ctx_uid = 1000, ctx_gid = 100, proc_uid = 0, proc_gid = 0, stray_slot = None\<rparr>"

definition read_only_env :: env where
  "read_only_env = user_env\<lparr>g_read_only := True\<rparr>"

section \<open>Decimal text reads back as the number written\<close>

lemma isdigit_digit_char: "d < 10 \<Longrightarrow> isdigit (digit_char d)"
  by (simp add: isdigit_def digit_char_def)

lemma of_char_digit_char: "d < 10 \<Longrightarrow> (of_char (digit_char d) :: nat) = 48 + d"
  by (simp add: digit_char_def)

lemma show_nat_digits: "\<forall>c \<in> set (show_nat n). isdigit c"
proof (induction n rule: show_nat.induct)
  case (1 n)
  show ?case
  proof (cases "n < 10")
    case True
    then show ?thesis by (simp add: show_nat.simps [of n] isdigit_digit_char)
  next
    case False
    with 1 show ?thesis by (simp add: show_nat.simps [of n] isdigit_digit_char)
  qed
qed

lemma show_nat_not_Nil: "show_nat n \<noteq> []"
  by (subst show_nat.simps) simp

lemma digits_value_append:
  "\<forall>c \<in> set xs. isdigit c \<Longrightarrow> digits_value acc (xs @ ys) = digits_value (digits_value acc xs) ys"
  by (induction xs arbitrary: acc) auto

lemma digits_value_show_nat: "digits_value 0 (show_nat n) = n"
proof (induction n rule: show_nat.induct)
  case (1 n)
  show ?case
  proof (cases "n < 10")
    case True
    then show ?thesis
      by (simp add: show_nat.simps [of n] isdigit_digit_char of_char_digit_char)
  next
    case False
    then have "digits_value 0 (show_nat n) =
        digits_value (digits_value 0 (show_nat (n div 10))) [digit_char (n mod 10)]"
      by (simp add: show_nat.simps [of n] digits_value_append show_nat_digits)
    also have "\<dots> = 10 * (n div 10) + n mod 10"
      using 1 False by (simp add: isdigit_digit_char of_char_digit_char)
    finally show ?thesis by simp
  qed
qed

lemma isdigit_not_space: "isdigit c \<Longrightarrow> \<not> isspace c"
  by (auto simp: isdigit_def isspace_def)

lemma isdigit_not_sign: "isdigit c \<Longrightarrow> c \<noteq> CHR ''-'' \<and> c \<noteq> CHR ''+''"
  by (auto simp: isdigit_def)

lemma strtol10_show_nat: "strtol10 (show_nat n) = int n"
proof -
  obtain c r where cr: "show_nat n = c # r"
    using show_nat_not_Nil [of n] by (cases "show_nat n") auto
  have d: "isdigit c"
    using show_nat_digits [of n] cr by simp
  have "digits_value 0 (c # r) = n"
    using digits_value_show_nat [of n] cr by simp
  with d cr show ?thesis
    using isdigit_not_space [OF d] isdigit_not_sign [OF d]
    by (simp add: strtol10_def del: digits_value.simps)
qed

lemma strtol10_show_int: "strtol10 (show_int i) = i"
proof (cases "i < 0")
  case True
  have "\<not> isspace CHR ''-''" by (simp add: isspace_def)
  then show ?thesis
    using True by (simp add: show_int_def strtol10_def digits_value_show_nat)
next
  case False
  then show ?thesis by (simp add: show_int_def strtol10_show_nat)
qed

lemma to_int32_id: "- (2 ^ 31) \<le> x \<Longrightarrow> x < 2 ^ 31 \<Longrightarrow> to_int32 x = x"
  by (simp add: to_int32_def)

lemma atoi_show_int: "- (2 ^ 31) \<le> i \<Longrightarrow> i < 2 ^ 31 \<Longrightarrow> atoi (show_int i) = i"
  by (simp add: atoi_def strtol10_show_int clamp_long_def LLONG_MAX_def LLONG_MIN_def to_int32_id)

lemma string2ll_show_int:
  "LLONG_MIN \<le> i \<Longrightarrow> i \<le> LLONG_MAX \<Longrightarrow> string2ll (show_int i) = Some i"
  unfolding string2ll_def Let_def strtol10_show_int by simp

lemma show_int_inject: "show_int i = show_int j \<Longrightarrow> i = j"
  by (metis strtol10_show_int)

section \<open>Evaluating the model on concrete inputs\<close>

lemma digit_char_table:
  "digit_char 0 = CHR ''0''" "digit_char (Suc 0) = CHR ''1''" "digit_char 2 = CHR ''2''"
  "digit_char 3 = CHR ''3''" "digit_char 4 = CHR ''4''" "digit_char 5 = CHR ''5''"
  "digit_char 6 = CHR ''6''" "digit_char 7 = CHR ''7''" "digit_char 8 = CHR ''8''"
  "digit_char 9 = CHR ''9''"
  by code_simp+

lemmas num_eval = fmt_d_def to_int32_def to_uint32_def to_uint64_def show_int_def show_nat.simps
  digit_char_table atoi_def strtol10_def isspace_def isdigit_def clamp_long_def LLONG_MAX_def
  LLONG_MIN_def string2ll_def

lemmas store_eval = redis_GET_def redis_MGET_def redis_SET_def redis_DEL_def redis_SMEMBERS_def redis_SADD_def
  redis_SREM_def redis_INCRBY_def redis_INCR_def redis_APPEND_def redis_GETRANGE_def
  get_next_inode_def remove_inode_def inode_attrs_def get_parent_def get_basename_def
  find_inode.simps is_directory_def count_directory_entries_def memcommand_def fits_buffer_def
  MEMCOMMAND_SIZE_def

section \<open>Effect of the store commands\<close>

lemma strs_SET: "strs (redis_SET s k v) = (strs s)(k \<mapsto> v)"
  and dirent_SET: "dirent (redis_SET s k v) = dirent s"
  by (simp_all add: redis_SET_def)

lemma strs_DEL: "strs (redis_DEL s k) = (strs s)(k := None)"
  and dirent_DEL: "dirent (redis_DEL s k) = dirent s"
  by (simp_all add: redis_DEL_def)

lemma strs_SADD: "strs (redis_SADD s d m) = strs s"
  and dirent_SADD: "dirent (redis_SADD s d m) =
      (dirent s)(d := if m \<in> set (dirent s d) then dirent s d else dirent s d @ [m])"
  by (auto simp: redis_SADD_def)

lemma strs_SREM: "strs (redis_SREM s d m) = strs s"
  and dirent_SREM: "dirent (redis_SREM s d m) = (dirent s)(d := removeAll m (dirent s d))"
  by (simp_all add: redis_SREM_def)

lemma dirent_MSET: "dirent (redis_MSET s kvs) = dirent s"
  by (induction kvs arbitrary: s) (auto simp: dirent_SET)

lemma strs_APPEND: "strs (redis_APPEND s k v) =
    (strs s)(k \<mapsto> (case strs s k of None \<Rightarrow> [] | Some old \<Rightarrow> old) @ v)"
  and dirent_APPEND: "dirent (redis_APPEND s k v) = dirent s"
  by (simp_all add: redis_APPEND_def strs_SET dirent_SET)

lemma dirent_INCRBY: "dirent (snd (redis_INCRBY s k n)) = dirent s"
  by (simp add: redis_INCRBY_def dirent_SET split: option.splits)

lemma strs_INCRBY_other: "k' \<noteq> k \<Longrightarrow> strs (snd (redis_INCRBY s k n)) k' = strs s k'"
  by (simp add: redis_INCRBY_def strs_SET split: option.splits)

lemma remove_inode_negative: "inode < 0 \<Longrightarrow> remove_inode s inode = s"
  by (simp add: remove_inode_def)

lemma find_inode_root: "find_inode e s ''/'' = Some (- 99)"
  by (simp add: find_inode.simps)

section \<open>Paths\<close>

text \<open>The two path functions give what the cases of \<^verbatim>\<open>pathutil_test.c\<close> expect.\<close>

lemma pathutil_test_cases:
  "get_parent ''fsdfkldsjf'' = None"
  "get_basename ''fsdfkldsjf'' = ''fsdfkldsjf''"
  "get_basename ''/etc/steve'' = ''steve''"
  "get_basename ''/steve'' = ''steve''"
  "get_basename ''/fsfsddddddddddddddddddddd////steve'' = ''steve''"
  "get_basename ''/etc/..//steve/steve'' = ''steve''"
  "get_basename ''./steve'' = ''steve''"
  "get_parent ''/etc/steve'' = Some ''/etc''"
  "get_parent ''/etc/'' = Some ''/etc''"
  "get_parent ''/etc/fdsfsteve'' = Some ''/etc''"
  "get_parent ''/'' = Some ''/''"
  by (simp_all add: get_parent_def get_basename_def)

lemma strrchr_None: "c \<notin> set q \<Longrightarrow> strrchr q c = None"
  by (induction q) auto

lemma strrchr_append: "c \<notin> set q \<Longrightarrow> strrchr (p @ c # q) c = Some (length p)"
  by (induction p) (auto simp: strrchr_None)

lemma get_parent_not_Nil: "get_parent p = Some q \<Longrightarrow> p \<noteq> []"
  by (auto simp: get_parent_def)

lemma get_parent_append:
  assumes "CHR ''/'' \<notin> set q" and "p \<noteq> []"
  shows "get_parent (p @ ''/'' @ q) = Some p"
  using assms by (simp add: get_parent_def strrchr_append)

lemma get_basename_append:
  assumes "CHR ''/'' \<notin> set q"
  shows "get_basename (p @ ''/'' @ q) = q"
  using assms by (simp add: get_basename_def strrchr_append)

section \<open>Lookup\<close>

text \<open>
  A lookup reads the entry sets and the NAME keys only. Filing a new inode \<open>k\<close> under a
  name that no entry of the directory \<open>pi\<close> bears leaves every lookup that found
  something as it was, and makes the new path resolve to \<open>k\<close>, as long as the command for
  the longer entry set fits the buffer.
\<close>

lemma memcommand_snoc:
  "memcommand e (ms @ [k]) =
     memcommand e ms @ '' '' @ g_prefix e @ '':INODE:'' @ show_int k @ '':NAME''"
  by (simp add: memcommand_def)

lemma scan_names_cong:
  "(\<And>m. m \<in> set ms \<Longrightarrow> strs s' (INODE m A_NAME) = strs s (INODE m A_NAME))
   \<Longrightarrow> scan_names s' ent ms v = scan_names s ent ms v"
  by (induction ms arbitrary: v) (auto simp: redis_GET_def split: option.splits)

lemma scan_names_append:
  "scan_names s ent (xs @ ys) v =
     (case scan_names s ent xs v of None \<Rightarrow> None | Some v' \<Rightarrow> scan_names s ent ys v')"
  by (induction xs arbitrary: v) (auto split: option.splits)

lemma scan_names_no_match:
  "(\<And>m. m \<in> set ms \<Longrightarrow> strs s (INODE m A_NAME) \<noteq> Some ent)
   \<Longrightarrow> scan_names s ent ms v = Some v' \<Longrightarrow> v' = v"
  by (induction ms arbitrary: v) (auto simp: redis_GET_def split: option.splits if_splits)

lemma scan_names_all_named:
  "\<forall>m \<in> set ms. \<exists>nm. strs s (INODE m A_NAME) = Some nm \<and> nm \<noteq> ent
   \<Longrightarrow> scan_names s ent ms v = Some v"
  by (induction ms arbitrary: v) (auto simp: redis_GET_def)

lemma find_inode_unfold:
  "p \<noteq> ''/'' \<Longrightarrow> get_parent p = Some par \<Longrightarrow>
   find_inode e s p =
     (case find_inode e s par of
        None \<Rightarrow> None
      | Some parent_inode \<Rightarrow>
          if fits_buffer e (dirent s parent_inode)
          then scan_names s (get_basename p) (dirent s parent_inode) (- 1)
          else None)"
  by (simp add: find_inode.simps [of e s p] redis_SMEMBERS_def Let_def cong: option.case_cong)

lemma find_inode_no_parent: "get_parent p = None \<Longrightarrow> find_inode e s p = None"
  by (auto simp: find_inode.simps [of e s p] get_parent_def)

lemma find_inode_cong:
  assumes d: "dirent s' = dirent s"
    and n: "\<And>m. strs s' (INODE m A_NAME) = strs s (INODE m A_NAME)"
  shows "find_inode e s' p = find_inode e s p"
proof (induction p rule: length_induct)
  case (1 p)
  show ?case
  proof (cases "p = ''/''")
    case True
    then show ?thesis by (simp add: find_inode_root)
  next
    case False
    show ?thesis
    proof (cases "get_parent p")
      case None
      then show ?thesis by (simp add: find_inode_no_parent)
    next
      case (Some par)
      with False have "length par < length p" by (simp add: get_parent_shorter)
      with 1 have ih: "find_inode e s' par = find_inode e s par" by simp
      have sc: "\<And>ms v. scan_names s' (get_basename p) ms v = scan_names s (get_basename p) ms v"
        by (rule scan_names_cong) (rule n)
      show ?thesis
        using False Some ih d sc by (simp add: find_inode_unfold split: option.splits)
    qed
  qed
qed

lemma find_inode_add_entry:
  assumes D: "dirent s' = (dirent s)(pi := dirent s pi @ [k])"
    and N: "\<And>m. m \<noteq> k \<Longrightarrow> strs s' (INODE m A_NAME) = strs s (INODE m A_NAME)"
    and K: "strs s' (INODE k A_NAME) = Some ent"
    and F1: "\<And>d. k \<notin> set (dirent s d)"
    and F2: "\<And>m. m \<in> set (dirent s pi) \<Longrightarrow> strs s (INODE m A_NAME) \<noteq> Some ent"
    and O: "dirent s (- 1) = []"
    and B: "fits_buffer e (dirent s pi @ [k])"
  shows "find_inode e s q = Some r \<Longrightarrow> r \<noteq> - 1 \<Longrightarrow> find_inode e s' q = Some r"
proof (induction q arbitrary: r rule: length_induct)
  case (1 q)
  note fq = \<open>find_inode e s q = Some r\<close> and rn = \<open>r \<noteq> - 1\<close>
  show ?case
  proof (cases "q = ''/''")
    case True
    with fq show ?thesis by (simp add: find_inode_root)
  next
    case False
    from fq obtain par where gp: "get_parent q = Some par"
      by (cases "get_parent q") (auto simp: find_inode_no_parent)
    from fq False gp obtain r' where fp: "find_inode e s par = Some r'"
      and fb: "fits_buffer e (dirent s r')"
      and sc: "scan_names s (get_basename q) (dirent s r') (- 1) = Some r"
      by (auto simp: find_inode_unfold split: option.splits if_splits)
    have r'n: "r' \<noteq> - 1"
    proof
      assume "r' = - 1"
      with sc O rn show False by simp
    qed
    from False gp have "length par < length q" by (simp add: get_parent_shorter)
    with 1 fp r'n have ih: "find_inode e s' par = Some r'" by blast
    have same: "\<And>ms v. set ms \<subseteq> set (dirent s r')
        \<Longrightarrow> scan_names s' (get_basename q) ms v = scan_names s (get_basename q) ms v"
    proof (rule scan_names_cong)
      fix ms :: "int list" and v :: int and m
      assume "set ms \<subseteq> set (dirent s r')" and "m \<in> set ms"
      then have "m \<in> set (dirent s r')" by blast
      with F1 have "m \<noteq> k" by blast
      then show "strs s' (INODE m A_NAME) = strs s (INODE m A_NAME)" by (rule N)
    qed
    have "fits_buffer e (dirent s' r')
        \<and> scan_names s' (get_basename q) (dirent s' r') (- 1) = Some r"
    proof (cases "r' = pi")
      case False
      with D have "dirent s' r' = dirent s r'" by simp
      with same [of "dirent s r'" "- 1"] sc fb show ?thesis by simp
    next
      case True
      have ne: "get_basename q \<noteq> ent"
      proof
        assume eq: "get_basename q = ent"
        from F2 True have "\<And>m. m \<in> set (dirent s r') \<Longrightarrow> strs s (INODE m A_NAME) \<noteq> Some ent"
          by simp
        from scan_names_no_match [OF this] sc eq have "r = - 1" by blast
        with rn show False by simp
      qed
      from True D have "dirent s' r' = dirent s r' @ [k]" by simp
      with same [of "dirent s r'" "- 1"] sc K ne B True show ?thesis
        by (simp add: scan_names_append redis_GET_def)
    qed
    with False gp ih show ?thesis by (simp add: find_inode_unfold)
  qed
qed

lemma find_inode_new_entry:
  assumes D: "dirent s' = (dirent s)(pi := dirent s pi @ [k])"
    and N: "\<And>m. m \<noteq> k \<Longrightarrow> strs s' (INODE m A_NAME) = strs s (INODE m A_NAME)"
    and K: "strs s' (INODE k A_NAME) = Some (get_basename p)"
    and F1: "\<And>d. k \<notin> set (dirent s d)"
    and F2: "\<And>m. m \<in> set (dirent s pi)
               \<Longrightarrow> \<exists>nm. strs s (INODE m A_NAME) = Some nm \<and> nm \<noteq> get_basename p"
    and O: "dirent s (- 1) = []"
    and B: "fits_buffer e (dirent s pi @ [k])"
    and P: "p \<noteq> ''/''" "get_parent p = Some par" "find_inode e s par = Some pi" "pi \<noteq> - 1"
  shows "find_inode e s' par = Some pi \<and> find_inode e s' p = Some k"
proof -
  have F2': "\<And>m. m \<in> set (dirent s pi) \<Longrightarrow> strs s (INODE m A_NAME) \<noteq> Some (get_basename p)"
    using F2 by fastforce
  have fp: "find_inode e s' par = Some pi"
    using find_inode_add_entry [OF D N K F1 F2' O B P(3) P(4)] by simp
  have "\<forall>m \<in> set (dirent s pi).
      \<exists>nm. strs s' (INODE m A_NAME) = Some nm \<and> nm \<noteq> get_basename p"
  proof
    fix m assume m: "m \<in> set (dirent s pi)"
    with F1 have "m \<noteq> k" by blast
    with N F2 [OF m] show "\<exists>nm. strs s' (INODE m A_NAME) = Some nm \<and> nm \<noteq> get_basename p"
      by simp
  qed
  then have "scan_names s' (get_basename p) (dirent s pi) (- 1) = Some (- 1)"
    by (rule scan_names_all_named)
  with D K have "scan_names s' (get_basename p) (dirent s' pi) (- 1) = Some k"
    by (simp add: scan_names_append redis_GET_def)
  with P fp B D show ?thesis by (simp add: find_inode_unfold)
qed

lemma scan_names_range:
  "scan_names s ent ms v = Some r \<Longrightarrow> r = v \<or> r \<in> set ms"
  by (induction ms arbitrary: v) (auto split: option.splits if_splits)

lemma find_inode_range:
  "find_inode e s q = Some r \<Longrightarrow> r = - 99 \<or> r = - 1 \<or> (\<exists>d. r \<in> set (dirent s d))"
proof (cases "q = ''/''")
  case True
  assume "find_inode e s q = Some r"
  with True show ?thesis by (simp add: find_inode_root)
next
  case False
  assume fq: "find_inode e s q = Some r"
  then obtain par where gp: "get_parent q = Some par"
    by (cases "get_parent q") (auto simp: find_inode_no_parent)
  from fq False gp obtain r' where "scan_names s (get_basename q) (dirent s r') (- 1) = Some r"
    by (auto simp: find_inode_unfold split: option.splits if_splits)
  from scan_names_range [OF this] show ?thesis by blast
qed

section \<open>Allocation and removal\<close>

lemma redis_INCR_fails: "fst (redis_INCR s k) = None \<Longrightarrow> redis_INCR s k = (None, s)"
  by (auto simp: redis_INCR_def redis_INCRBY_def split: option.splits if_splits)

lemma get_next_inode_fails:
  "fst (redis_INCR s GLOBAL_INODE) = None \<Longrightarrow> get_next_inode s = (- 1, s)"
  by (simp add: get_next_inode_def redis_INCR_fails)

lemma get_next_inode_ok:
  assumes "counter_value s = Some n" and "0 \<le> n" and "n + 1 < 2 ^ 31"
  shows "get_next_inode s = (n + 1, redis_SET s GLOBAL_INODE (show_int (n + 1)))"
proof -
  have r: "\<not> n + 1 < LLONG_MIN" "\<not> LLONG_MAX < n + 1"
    using assms(2,3) by (simp_all add: LLONG_MIN_def LLONG_MAX_def)
  have t: "to_int32 (n + 1) = n + 1"
    using assms(2,3) by (simp add: to_int32_id)
  have i: "redis_INCR s GLOBAL_INODE = (Some (n + 1), redis_SET s GLOBAL_INODE (show_int (n + 1)))"
    using assms(1) r unfolding redis_INCR_def redis_INCRBY_def counter_value_def by simp
  show ?thesis
    unfolding get_next_inode_def i using t by simp
qed

lemma counter_value_SET:
  "LLONG_MIN \<le> k \<Longrightarrow> k \<le> LLONG_MAX
   \<Longrightarrow> counter_value (redis_SET s GLOBAL_INODE (show_int k)) = Some k"
  by (simp add: counter_value_def strs_SET string2ll_show_int)

lemma strs_foldl_DEL: "strs (foldl redis_DEL s ks) k = (if k \<in> set ks then None else strs s k)"
  by (induction ks arbitrary: s) (auto simp: strs_DEL)

lemma dirent_foldl_DEL: "dirent (foldl redis_DEL s ks) = dirent s"
  by (induction ks arbitrary: s) (auto simp: dirent_DEL)

lemma inode_attrs_all: "a \<in> set inode_attrs"
  by (cases a) (simp_all add: inode_attrs_def)

lemma dirent_remove_inode: "dirent (remove_inode s i) = dirent s"
  by (simp add: remove_inode_def dirent_foldl_DEL)

lemma strs_remove_inode_self: "0 \<le> i \<Longrightarrow> strs (remove_inode s i) (INODE i a) = None"
  by (simp add: remove_inode_def strs_foldl_DEL inode_attrs_all)

lemma strs_remove_inode_other: "j \<noteq> i \<Longrightarrow> strs (remove_inode s i) (INODE j a) = strs s (INODE j a)"
  by (auto simp: remove_inode_def strs_foldl_DEL)

lemma strs_remove_inode_counter: "strs (remove_inode s i) GLOBAL_INODE = strs s GLOBAL_INODE"
  by (auto simp: remove_inode_def strs_foldl_DEL)

lemma redis_INCRBY_ok:
  assumes "strs s k = Some v" and "string2ll v = Some old"
    and "LLONG_MIN \<le> old + n" and "old + n \<le> LLONG_MAX"
  shows "redis_INCRBY s k n = (Some (old + n), redis_SET s k (show_int (old + n)))"
  using assms unfolding redis_INCRBY_def by simp

lemma fmt_d_small: "0 \<le> v \<Longrightarrow> v < 2 ^ 31 \<Longrightarrow> fmt_d v = show_int v"
  by (simp add: fmt_d_def to_int32_id)

lemma to_uint64_id: "0 \<le> x \<Longrightarrow> x < 2 ^ 64 \<Longrightarrow> to_uint64 x = nat x"
  by (simp add: to_uint64_def)

lemma read_whole:
  assumes f: "find_inode e s p = Some i" "i \<noteq> - 1"
    and sz: "strs s (INODE i A_SIZE) = Some (show_int (int (length d)))"
    and dt: "strs s (INODE i A_DATA) = Some d"
    and len: "length d < 2 ^ 31"
  shows "fs_read e s p (length d) 0 = Some (int (length d), d)"
proof -
  have a: "atoi (show_int (int (length d))) = int (length d)"
    using len by (intro atoi_show_int) auto
  have "int (length d) < 2 ^ 64"
    using len by (simp add: order_less_trans [where y = "2 ^ 31"])
  then have u: "to_uint64 (int (length d)) = length d"
    by (simp add: to_uint64_id)
  have m: "length d mod 2 ^ 64 = length d"
    using len by simp
  have t: "to_int32 (int (length d)) = int (length d)"
    using len by (intro to_int32_id) auto
  have l: "\<not> int (length d) > LLONG_MAX"
    using len by (simp add: LLONG_MAX_def)
  have z: "\<not> (0 :: int) > LLONG_MAX" by (simp add: LLONG_MAX_def)
  show ?thesis
    using f sz dt a u m t l z
    by (simp add: fs_read_def redis_GET_def redis_GETRANGE_def Let_def)
qed

lemma show_int_0: "show_int 0 = ''0''"
  by (simp add: show_int_def show_nat.simps digit_char_table)

lemma string2ll_0: "string2ll ''0'' = Some 0"
  using string2ll_show_int [of 0] by (simp add: show_int_0 LLONG_MIN_def LLONG_MAX_def)

lemma fmt_d_0: "fmt_d 0 = ''0''"
  by (simp add: fmt_d_small show_int_0)

lemma strs_get_next_inode:
  "strs (snd (get_next_inode s)) (INODE j a) = strs s (INODE j a)"
  by (auto simp: get_next_inode_def redis_INCR_def redis_INCRBY_def strs_SET
      split: option.splits prod.splits if_splits)

section \<open>Preservation of the size invariant, handler by handler\<close>

lemma size_is_data_length_cong:
  "strs s' (INODE i A_SIZE) = strs s (INODE i A_SIZE)
   \<Longrightarrow> strs s' (INODE i A_DATA) = strs s (INODE i A_DATA)
   \<Longrightarrow> size_is_data_length s' i = size_is_data_length s i"
  by (simp add: size_is_data_length_def data_length_def split: option.splits)

lemma size_invariant_frame:
  assumes "size_invariant s"
    and "\<And>i. i \<noteq> x \<Longrightarrow> is_file s' i \<Longrightarrow>
           is_file s i \<and> strs s' (INODE i A_SIZE) = strs s (INODE i A_SIZE)
           \<and> strs s' (INODE i A_DATA) = strs s (INODE i A_DATA)"
    and "is_file s' x \<Longrightarrow> size_is_data_length s' x"
  shows "size_invariant s'"
  unfolding size_invariant_def
proof (intro allI impI)
  fix i assume f: "is_file s' i"
  show "size_is_data_length s' i"
  proof (cases "i = x")
    case True
    with f assms(3) show ?thesis by simp
  next
    case False
    from assms(2) [OF False f]
    have "is_file s i" and "size_is_data_length s' i = size_is_data_length s i"
      by (simp_all add: size_is_data_length_cong [of s' i s])
    with assms(1) show ?thesis by (simp add: size_invariant_def)
  qed
qed

lemma size_invariant_same:
  assumes "size_invariant s"
    and "\<And>i. strs s' (INODE i A_TYPE) = strs s (INODE i A_TYPE)"
    and "\<And>i. strs s' (INODE i A_SIZE) = strs s (INODE i A_SIZE)"
    and "\<And>i. strs s' (INODE i A_DATA) = strs s (INODE i A_DATA)"
  shows "size_invariant s'"
proof -
  have "\<And>i. size_is_data_length s' i = size_is_data_length s i"
    by (rule size_is_data_length_cong) (rule assms)+
  with assms(1,2) show ?thesis by (simp add: size_invariant_def is_file_def)
qed

lemma size_invariant_sized:
  assumes "size_invariant s" and "\<And>i a. sized a \<Longrightarrow> strs s' (INODE i a) = strs s (INODE i a)"
  shows "size_invariant s'"
  using assms(1) by (rule size_invariant_same) (simp_all add: assms(2) sized_def)

lemma chmod_sized:
  "fs_chmod e s p m = Some (r, s') \<Longrightarrow> sized a \<Longrightarrow> strs s' (INODE i a) = strs s (INODE i a)"
  by (auto simp: fs_chmod_def strs_SET sized_def split: if_splits option.splits)

lemma chown_sized:
  "fs_chown e s p u g = Some (r, s') \<Longrightarrow> sized a \<Longrightarrow> strs s' (INODE i a) = strs s (INODE i a)"
  by (auto simp: fs_chown_def strs_SET sized_def split: if_splits option.splits)

lemma utimens_sized:
  "fs_utimens e s p at mt = Some (r, s') \<Longrightarrow> sized a \<Longrightarrow> strs s' (INODE i a) = strs s (INODE i a)"
  by (auto simp: fs_utimens_def strs_SET sized_def split: if_splits option.splits)

lemma open_sized:
  "fs_open e s p = Some (r, s') \<Longrightarrow> sized a \<Longrightarrow> strs s' (INODE i a) = strs s (INODE i a)"
  by (auto simp: fs_open_def strs_SET sized_def split: if_splits option.splits)

lemma access_sized:
  "fs_access e s p = Some (r, s') \<Longrightarrow> sized a \<Longrightarrow> strs s' (INODE i a) = strs s (INODE i a)"
  by (auto simp: fs_access_def strs_SET sized_def split: if_splits option.splits)

lemma rename_sized:
  "fs_rename e s old p = Some (r, s') \<Longrightarrow> sized a \<Longrightarrow> strs s' (INODE i a) = strs s (INODE i a)"
  by (auto simp: fs_rename_def Let_def strs_SET strs_SADD strs_SREM sized_def
      split: if_splits option.splits)

lemma size_invariant_strs: "strs s' = strs s \<Longrightarrow> size_invariant s \<Longrightarrow> size_invariant s'"
  by (rule size_invariant_same) simp_all

lemma remove_inode_inv:
  assumes "size_invariant s"
  shows "size_invariant (remove_inode s i)"
proof (cases "i < 0")
  case True
  with assms show ?thesis by (simp add: remove_inode_negative)
next
  case False
  show ?thesis
    using assms
  proof (rule size_invariant_frame [where x = i])
    fix j assume "j \<noteq> i" and "is_file (remove_inode s i) j"
    then show "is_file s j
        \<and> strs (remove_inode s i) (INODE j A_SIZE) = strs s (INODE j A_SIZE)
        \<and> strs (remove_inode s i) (INODE j A_DATA) = strs s (INODE j A_DATA)"
      by (simp add: is_file_def strs_remove_inode_other)
  next
    assume "is_file (remove_inode s i) i"
    with False show "size_is_data_length (remove_inode s i) i"
      by (simp add: is_file_def strs_remove_inode_self)
  qed
qed

lemma SREM_inv: "size_invariant s \<Longrightarrow> size_invariant (redis_SREM s d m)"
  by (rule size_invariant_strs [of _ s]) (simp_all add: strs_SREM)

lemma unlink_inv:
  assumes "size_invariant s" and "fs_unlink e s p = Some (r, s')"
  shows "size_invariant s'"
  using assms
  by (auto simp: fs_unlink_def Let_def remove_inode_inv SREM_inv split: if_splits option.splits)

lemma rmdir_inv:
  assumes "size_invariant s" and "fs_rmdir e s p = Some (r, s')"
  shows "size_invariant s'"
  using assms
  by (auto simp: fs_rmdir_def Let_def remove_inode_inv SREM_inv split: if_splits option.splits)

lemma new_entry_inv:
  assumes inv: "size_invariant s"
    and s1: "\<And>j a. strs s1 (INODE j a) = strs s (INODE j a)"
    and ty: "ty = ''FILE'' \<Longrightarrow> strs s (INODE k A_DATA) = None"
  shows "size_invariant (redis_MSET (redis_SADD s1 pi k) (new_entry_block e k entry ty m))"
  using inv
proof (rule size_invariant_frame [where x = k])
  let ?s' = "redis_MSET (redis_SADD s1 pi k) (new_entry_block e k entry ty m)"
  fix j assume "j \<noteq> k" and "is_file ?s' j"
  then show "is_file s j \<and> strs ?s' (INODE j A_SIZE) = strs s (INODE j A_SIZE)
        \<and> strs ?s' (INODE j A_DATA) = strs s (INODE j A_DATA)"
    by (simp add: is_file_def new_entry_block_def strs_SET strs_SADD s1)
next
  let ?s' = "redis_MSET (redis_SADD s1 pi k) (new_entry_block e k entry ty m)"
  assume "is_file ?s' k"
  then have "ty = ''FILE''"
    by (simp add: is_file_def new_entry_block_def strs_SET strs_SADD)
  from ty [OF this] show "size_is_data_length ?s' k"
    by (simp add: size_is_data_length_def data_length_def new_entry_block_def strs_SET strs_SADD
        s1 fmt_d_0 string2ll_0)
qed

lemma mkdir_inv:
  assumes "size_invariant s" and "fs_mkdir e s p m = Some (r, s')"
  shows "size_invariant s'"
proof -
  from assms(2) consider "s' = s"
    | pi where "s' = redis_MSET (redis_SADD (snd (get_next_inode s)) pi (fst (get_next_inode s)))
        (new_entry_block e (fst (get_next_inode s)) (get_basename p) ''DIR'' m)"
    by (auto simp: fs_mkdir_def Let_def split: if_splits option.splits prod.splits)
  then show ?thesis
  proof cases
    case 1
    with assms(1) show ?thesis by simp
  next
    case 2
    show ?thesis unfolding 2
      using assms(1) by (rule new_entry_inv) (simp_all add: strs_get_next_inode)
  qed
qed

lemma create_inv:
  assumes "size_invariant s" and "fs_create e s p m = Some (r, s')"
    and "strs s (INODE (fst (get_next_inode s)) A_DATA) = None"
  shows "size_invariant s'"
proof -
  from assms(2) consider "s' = s"
    | pi where "s' = redis_MSET (redis_SADD (snd (get_next_inode s)) pi (fst (get_next_inode s)))
        (new_entry_block e (fst (get_next_inode s)) (get_basename p) ''FILE'' m)"
    by (auto simp: fs_create_def Let_def split: if_splits option.splits prod.splits)
  then show ?thesis
  proof cases
    case 1
    with assms(1) show ?thesis by simp
  next
    case 2
    show ?thesis unfolding 2
      using assms(1) by (rule new_entry_inv) (simp_all add: strs_get_next_inode assms(3))
  qed
qed

lemma symlink_inv:
  assumes "size_invariant s" and "fs_symlink e s target p = Some (r, s')"
  shows "size_invariant s'"
proof (cases "s' = s")
  case True
  with assms(1) show ?thesis by simp
next
  case False
  let ?k = "fst (get_next_inode s)"
  from assms(2) False
  have others: "\<And>j a. j \<noteq> ?k \<Longrightarrow> strs s' (INODE j a) = strs s (INODE j a)"
    and ty: "strs s' (INODE ?k A_TYPE) = Some ''LINK''"
    by (auto simp: fs_symlink_def Let_def split_beta strs_SET strs_SADD strs_get_next_inode
        split: if_splits option.splits)
  show ?thesis
    using assms(1)
  proof (rule size_invariant_frame [where x = ?k])
    fix j assume "j \<noteq> ?k" and "is_file s' j"
    then show "is_file s j \<and> strs s' (INODE j A_SIZE) = strs s (INODE j A_SIZE)
        \<and> strs s' (INODE j A_DATA) = strs s (INODE j A_DATA)"
      by (simp add: is_file_def others)
  next
    assume "is_file s' ?k"
    with ty show "size_is_data_length s' ?k" by (simp add: is_file_def)
  qed
qed

lemma truncate_inv:
  assumes "size_invariant s" and "fs_truncate e s p n = Some (r, s')"
  shows "size_invariant s'"
proof (cases "s' = s")
  case True
  with assms(1) show ?thesis by simp
next
  case False
  with assms(2) obtain i where s': "s' = redis_MSET (redis_DEL s (INODE i A_DATA))
      [(INODE i A_SIZE, ''0''), (INODE i A_MTIME, fmt_d (now e))]"
    by (auto simp: fs_truncate_def Let_def split: if_splits option.splits)
  show ?thesis
    using assms(1)
  proof (rule size_invariant_frame [where x = i])
    fix j assume "j \<noteq> i" and "is_file s' j"
    then show "is_file s j \<and> strs s' (INODE j A_SIZE) = strs s (INODE j A_SIZE)
        \<and> strs s' (INODE j A_DATA) = strs s (INODE j A_DATA)"
      by (simp add: is_file_def s' strs_SET strs_DEL)
  next
    show "size_is_data_length s' i"
      by (simp add: size_is_data_length_def data_length_def s' strs_SET strs_DEL string2ll_0)
  qed
qed

lemma write_at_zero_inv:
  assumes inv: "size_invariant s" and n: "n \<le> length buf" "n < 2 ^ 31"
  shows "size_invariant (redis_MSET s
      [(INODE i A_SIZE, fmt_d (int n)), (INODE i A_MTIME, fmt_d (now e)),
       (INODE i A_DATA, take n buf)])"
    (is "size_invariant ?s'")
  using inv
proof (rule size_invariant_frame [where x = i])
  fix j assume "j \<noteq> i" and "is_file ?s' j"
  then show "is_file s j \<and> strs ?s' (INODE j A_SIZE) = strs s (INODE j A_SIZE)
      \<and> strs ?s' (INODE j A_DATA) = strs s (INODE j A_DATA)"
    by (simp add: is_file_def strs_SET)
next
  have "string2ll (show_int (int n)) = Some (int n)"
    using n(2) by (intro string2ll_show_int) (simp_all add: LLONG_MIN_def LLONG_MAX_def)
  then show "size_is_data_length ?s' i"
    using n by (simp add: size_is_data_length_def data_length_def strs_SET fmt_d_small min_def)
qed

lemma write_append_inv:
  assumes inv: "size_invariant s" and n: "n \<le> length buf" "n < 2 ^ 31"
    and rng: "int (data_length s i) + int n \<le> LLONG_MAX"
  shows "size_invariant
      (let s1 = snd (redis_INCRBY s (INODE i A_SIZE) (int n));
           s2 = redis_APPEND s1 (INODE i A_DATA) (take n buf)
       in if \<not> g_fast e then redis_SET s2 (INODE i A_MTIME) (fmt_d (now e)) else s2)"
    (is "size_invariant ?s'")
  using inv
proof (rule size_invariant_frame [where x = i])
  fix j assume "j \<noteq> i" and "is_file ?s' j"
  then show "is_file s j \<and> strs ?s' (INODE j A_SIZE) = strs s (INODE j A_SIZE)
      \<and> strs ?s' (INODE j A_DATA) = strs s (INODE j A_DATA)"
    by (auto simp: is_file_def Let_def strs_SET strs_APPEND strs_INCRBY_other split: if_splits)
next
  assume "is_file ?s' i"
  then have "is_file s i"
    by (auto simp: is_file_def Let_def strs_SET strs_APPEND strs_INCRBY_other split: if_splits)
  with inv have "size_is_data_length s i" by (simp add: size_invariant_def)
  then obtain v where v: "strs s (INODE i A_SIZE) = Some v"
    and p: "string2ll v = Some (int (data_length s i))"
    by (auto simp: size_is_data_length_def split: option.splits)
  have lo: "LLONG_MIN \<le> int (data_length s i) + int n" by (simp add: LLONG_MIN_def)
  have inc: "snd (redis_INCRBY s (INODE i A_SIZE) (int n)) =
      redis_SET s (INODE i A_SIZE) (show_int (int (data_length s i) + int n))"
    using redis_INCRBY_ok [OF v p lo rng] by simp
  have q: "string2ll (show_int (int (data_length s i) + int n)) = Some (int (data_length s i) + int n)"
    using lo rng by (rule string2ll_show_int)
  show "size_is_data_length ?s' i"
    using n q
    by (auto simp: size_is_data_length_def data_length_def Let_def inc strs_SET strs_APPEND min_def
        split: option.splits)
qed

lemma write_inv:
  assumes "size_invariant s" and "fs_write e s p buf n off = Some (r, s')"
    and "op_ok e s (Op_write p buf n off)"
  shows "size_invariant s'"
proof (cases "g_read_only e")
  case True
  with assms(1,2) show ?thesis by (simp add: fs_write_def)
next
  case False
  with assms(2) obtain i where f: "find_inode e s p = Some i"
    by (auto simp: fs_write_def split: option.splits)
  from assms(3) f have n: "n \<le> length buf" "n < 2 ^ 31"
    and rng: "int (data_length s i) + int n \<le> LLONG_MAX"
    by simp_all
  have t: "to_int32 (int n) = int n" using n(2) by (intro to_int32_id) auto
  show ?thesis
  proof (cases "off = 0")
    case True
    with assms(2) False f have "s' = redis_MSET s
      [(INODE i A_SIZE, fmt_d (int n)), (INODE i A_MTIME, fmt_d (now e)),
       (INODE i A_DATA, take n buf)]"
      by (auto simp: fs_write_def)
    then show ?thesis using write_at_zero_inv [OF assms(1) n] by simp
  next
    case nz: False
    with assms(2) False f t have "s' =
      (let s1 = snd (redis_INCRBY s (INODE i A_SIZE) (int n));
           s2 = redis_APPEND s1 (INODE i A_DATA) (take n buf)
       in if \<not> g_fast e then redis_SET s2 (INODE i A_MTIME) (fmt_d (now e)) else s2)"
      by (auto simp: fs_write_def Let_def)
    then show ?thesis using write_append_inv [OF assms(1) n rng] by simp
  qed
qed

section \<open>The counter stays ahead of the store\<close>

text \<open>
  Every command on an attribute key or an entry set keeps \<open>well_allocated\<close>, as long as
  the inode number it writes is not above the counter; a lookup finds no inode above the
  counter; so every handler keeps it, the three that allocate moving the counter by one.
\<close>

lemma wa_SET: "well_allocated s n \<Longrightarrow> i \<le> n \<Longrightarrow> well_allocated (redis_SET s (INODE i a) v) n"
  by (auto simp: well_allocated_def counter_value_def strs_SET dirent_SET)

lemma wa_DEL: "well_allocated s n \<Longrightarrow> well_allocated (redis_DEL s (INODE i a)) n"
  by (auto simp: well_allocated_def counter_value_def strs_DEL dirent_DEL)

lemma wa_SADD: "well_allocated s n \<Longrightarrow> m \<le> n \<Longrightarrow> well_allocated (redis_SADD s d m) n"
  by (auto simp: well_allocated_def counter_value_def strs_SADD dirent_SADD split: if_splits)

lemma wa_SREM: "well_allocated s n \<Longrightarrow> well_allocated (redis_SREM s d m) n"
  by (auto simp: well_allocated_def counter_value_def strs_SREM dirent_SREM split: if_splits)

lemma wa_APPEND: "well_allocated s n \<Longrightarrow> i \<le> n \<Longrightarrow> well_allocated (redis_APPEND s (INODE i a) v) n"
  by (simp add: redis_APPEND_def wa_SET)

lemma wa_INCRBY:
  "well_allocated s n \<Longrightarrow> i \<le> n \<Longrightarrow> well_allocated (snd (redis_INCRBY s (INODE i a) k)) n"
  by (simp add: redis_INCRBY_def wa_SET split: option.splits)

lemma wa_foldl_DEL:
  "well_allocated s n \<Longrightarrow> well_allocated (foldl redis_DEL s (map (INODE i) as)) n"
  by (induction as arbitrary: s) (simp_all add: wa_DEL)

lemma wa_remove_inode: "well_allocated s n \<Longrightarrow> well_allocated (remove_inode s i) n"
  by (simp add: remove_inode_def wa_foldl_DEL)

lemma wa_counter:
  assumes "well_allocated s n" and "n + 1 \<le> LLONG_MAX"
  shows "well_allocated (redis_SET s GLOBAL_INODE (show_int (n + 1))) (n + 1)"
proof -
  from assms have lo: "LLONG_MIN \<le> n + 1" by (simp add: well_allocated_def LLONG_MIN_def)
  from assms(1) have m: "\<forall>d. \<forall>m \<in> set (dirent s d). m \<le> n + 1"
    by (fastforce simp: well_allocated_def)
  from assms lo m show ?thesis
    by (simp add: well_allocated_def counter_value_SET strs_SET dirent_SET)
qed

lemma find_inode_below: "well_allocated s n \<Longrightarrow> find_inode e s p = Some i \<Longrightarrow> i \<le> n"
  using find_inode_range [of e s p i] by (auto simp: well_allocated_def)

lemma chmod_wa: "well_allocated s n \<Longrightarrow> fs_chmod e s p m = Some (r, s') \<Longrightarrow> well_allocated s' n"
  by (auto simp: fs_chmod_def intro!: wa_SET wa_DEL wa_SADD wa_SREM wa_APPEND wa_INCRBY wa_remove_inode intro: find_inode_below split: if_splits option.splits)

lemma chown_wa: "well_allocated s n \<Longrightarrow> fs_chown e s p u g = Some (r, s') \<Longrightarrow> well_allocated s' n"
  by (auto simp: fs_chown_def intro!: wa_SET wa_DEL wa_SADD wa_SREM wa_APPEND wa_INCRBY wa_remove_inode intro: find_inode_below split: if_splits option.splits)

lemma utimens_wa:
  "well_allocated s n \<Longrightarrow> fs_utimens e s p at mt = Some (r, s') \<Longrightarrow> well_allocated s' n"
  by (auto simp: fs_utimens_def intro!: wa_SET wa_DEL wa_SADD wa_SREM wa_APPEND wa_INCRBY wa_remove_inode intro: find_inode_below split: if_splits option.splits)

lemma open_wa: "well_allocated s n \<Longrightarrow> fs_open e s p = Some (r, s') \<Longrightarrow> well_allocated s' n"
  by (auto simp: fs_open_def intro!: wa_SET wa_DEL wa_SADD wa_SREM wa_APPEND wa_INCRBY wa_remove_inode intro: find_inode_below split: if_splits option.splits)

lemma access_wa: "well_allocated s n \<Longrightarrow> fs_access e s p = Some (r, s') \<Longrightarrow> well_allocated s' n"
  by (auto simp: fs_access_def intro!: wa_SET wa_DEL wa_SADD wa_SREM wa_APPEND wa_INCRBY wa_remove_inode intro: find_inode_below split: if_splits option.splits)

lemma truncate_wa:
  "well_allocated s n \<Longrightarrow> fs_truncate e s p k = Some (r, s') \<Longrightarrow> well_allocated s' n"
  by (auto simp: fs_truncate_def Let_def intro!: wa_SET wa_DEL wa_SADD wa_SREM wa_APPEND wa_INCRBY wa_remove_inode intro: find_inode_below
      split: if_splits option.splits)

lemma write_wa:
  "well_allocated s n \<Longrightarrow> fs_write e s p buf k off = Some (r, s') \<Longrightarrow> well_allocated s' n"
  by (auto simp: fs_write_def Let_def intro!: wa_SET wa_DEL wa_SADD wa_SREM wa_APPEND wa_INCRBY wa_remove_inode intro: find_inode_below
      split: if_splits option.splits)

lemma unlink_wa: "well_allocated s n \<Longrightarrow> fs_unlink e s p = Some (r, s') \<Longrightarrow> well_allocated s' n"
  by (auto simp: fs_unlink_def Let_def wa_SREM wa_remove_inode split: if_splits option.splits)

lemma rmdir_wa: "well_allocated s n \<Longrightarrow> fs_rmdir e s p = Some (r, s') \<Longrightarrow> well_allocated s' n"
  by (auto simp: fs_rmdir_def Let_def wa_SREM wa_remove_inode split: if_splits option.splits)

lemma rename_wa:
  "well_allocated s n \<Longrightarrow> fs_rename e s old p = Some (r, s') \<Longrightarrow> well_allocated s' n"
  by (auto simp: fs_rename_def Let_def intro!: wa_SET wa_DEL wa_SADD wa_SREM wa_APPEND wa_INCRBY wa_remove_inode intro: find_inode_below
      split: if_splits option.splits)

lemma wa_new_entry:
  assumes "well_allocated s k"
  shows "well_allocated (redis_MSET (redis_SADD s pi k) (new_entry_block e k entry ty m)) k"
  using assms by (simp add: new_entry_block_def wa_SET wa_SADD)

lemma mkdir_wa:
  assumes "well_allocated s n" and "n + 1 < 2 ^ 31" and "fs_mkdir e s p m = Some (r, s')"
  shows "well_allocated s' n \<or> well_allocated s' (n + 1)"
proof -
  from assms(1) have c: "counter_value s = Some n" "0 \<le> n" by (simp_all add: well_allocated_def)
  have g: "get_next_inode s = (n + 1, redis_SET s GLOBAL_INODE (show_int (n + 1)))"
    using c assms(2) by (rule get_next_inode_ok)
  have w: "well_allocated (redis_SET s GLOBAL_INODE (show_int (n + 1))) (n + 1)"
    using assms(1,2) by (intro wa_counter) (simp_all add: LLONG_MAX_def)
  from assms(1,3) g w show ?thesis
    by (auto simp: fs_mkdir_def Let_def wa_new_entry split: if_splits option.splits)
qed

lemma create_wa:
  assumes "well_allocated s n" and "n + 1 < 2 ^ 31" and "fs_create e s p m = Some (r, s')"
  shows "well_allocated s' n \<or> well_allocated s' (n + 1)"
proof -
  from assms(1) have c: "counter_value s = Some n" "0 \<le> n" by (simp_all add: well_allocated_def)
  have g: "get_next_inode s = (n + 1, redis_SET s GLOBAL_INODE (show_int (n + 1)))"
    using c assms(2) by (rule get_next_inode_ok)
  have w: "well_allocated (redis_SET s GLOBAL_INODE (show_int (n + 1))) (n + 1)"
    using assms(1,2) by (intro wa_counter) (simp_all add: LLONG_MAX_def)
  from assms(1,3) g w show ?thesis
    by (auto simp: fs_create_def Let_def wa_new_entry split: if_splits option.splits)
qed

lemma symlink_wa:
  assumes "well_allocated s n" and "n + 1 < 2 ^ 31" and "fs_symlink e s t p = Some (r, s')"
  shows "well_allocated s' n \<or> well_allocated s' (n + 1)"
proof -
  from assms(1) have c: "counter_value s = Some n" "0 \<le> n" by (simp_all add: well_allocated_def)
  have g: "get_next_inode s = (n + 1, redis_SET s GLOBAL_INODE (show_int (n + 1)))"
    using c assms(2) by (rule get_next_inode_ok)
  have w: "well_allocated (redis_SET s GLOBAL_INODE (show_int (n + 1))) (n + 1)"
    using assms(1,2) by (intro wa_counter) (simp_all add: LLONG_MAX_def)
  from assms(1,3) g w show ?thesis
    by (auto simp: fs_symlink_def Let_def wa_SET wa_SADD split: if_splits option.splits)
qed

lemma create_fresh:
  assumes "well_allocated s n" and "n + 1 < 2 ^ 31"
  shows "fst (get_next_inode s) = n + 1" and "strs s (INODE (fst (get_next_inode s)) a) = None"
proof -
  from assms(1) have c: "counter_value s = Some n" "0 \<le> n" by (simp_all add: well_allocated_def)
  have g: "get_next_inode s = (n + 1, redis_SET s GLOBAL_INODE (show_int (n + 1)))"
    using c assms(2) by (rule get_next_inode_ok)
  then show "fst (get_next_inode s) = n + 1" by simp
  with assms(1) show "strs s (INODE (fst (get_next_inode s)) a) = None"
    by (simp add: well_allocated_def)
qed

lemma empty_store_invariants: "size_invariant empty_store" "well_allocated empty_store 0"
  by (simp_all add: size_invariant_def is_file_def well_allocated_def counter_value_def
      empty_store_def)

section \<open>What create, truncate and write leave in SIZE and DATA\<close>

lemma create_effect:
  assumes "fs_create e s p m = Some (0, s')"
  shows "strs s' (INODE (fst (get_next_inode s)) A_TYPE) = Some ''FILE''
       \<and> strs s' (INODE (fst (get_next_inode s)) A_SIZE) = Some ''0''
       \<and> strs s' (INODE (fst (get_next_inode s)) A_DATA) = strs s (INODE (fst (get_next_inode s)) A_DATA)"
  using assms
  by (auto simp: fs_create_def Let_def split_beta new_entry_block_def strs_SET strs_SADD
      strs_get_next_inode fmt_d_0 EPERM_def split: if_splits option.splits)

lemma truncate_effect:
  assumes "fs_truncate e s p n = Some (0, s')" and "find_inode e s p = Some i"
  shows "strs s' (INODE i A_DATA) = None \<and> strs s' (INODE i A_SIZE) = Some ''0''"
  using assms
  by (auto simp: fs_truncate_def Let_def strs_SET strs_DEL EPERM_def ENOENT_def
      split: if_splits option.splits)

lemma write_at_zero_effect:
  assumes "fs_write e s p buf n 0 = Some (r, s')" and "\<not> g_read_only e"
    and "find_inode e s p = Some i" and "n < 2 ^ 31"
  shows "strs s' (INODE i A_SIZE) = Some (show_int (int n))
       \<and> strs s' (INODE i A_DATA) = Some (take n buf)"
  using assms by (auto simp: fs_write_def strs_SET fmt_d_small)

lemma write_append_effect:
  assumes inv: "size_invariant s" and w: "fs_write e s p buf n off = Some (r, s')"
    and ro: "\<not> g_read_only e" and off: "off \<noteq> 0"
    and f: "find_inode e s p = Some i" and fl: "is_file s i"
    and n: "n \<le> length buf" "n < 2 ^ 31"
    and rng: "int (data_length s i) + int n \<le> LLONG_MAX"
  shows "strs s' (INODE i A_SIZE) = Some (show_int (int (data_length s i) + int n))
       \<and> data_length s' i = data_length s i + n"
proof -
  from inv fl have "size_is_data_length s i" by (simp add: size_invariant_def)
  then obtain v where v: "strs s (INODE i A_SIZE) = Some v"
    and p: "string2ll v = Some (int (data_length s i))"
    by (auto simp: size_is_data_length_def split: option.splits)
  have lo: "LLONG_MIN \<le> int (data_length s i) + int n" by (simp add: LLONG_MIN_def)
  have inc: "snd (redis_INCRBY s (INODE i A_SIZE) (int n)) =
      redis_SET s (INODE i A_SIZE) (show_int (int (data_length s i) + int n))"
    using redis_INCRBY_ok [OF v p lo rng] by simp
  have t: "to_int32 (int n) = int n" using n(2) by (intro to_int32_id) auto
  from w ro off f t have s': "s' =
      (let s1 = snd (redis_INCRBY s (INODE i A_SIZE) (int n));
           s2 = redis_APPEND s1 (INODE i A_DATA) (take n buf)
       in if \<not> g_fast e then redis_SET s2 (INODE i A_MTIME) (fmt_d (now e)) else s2)"
    by (auto simp: fs_write_def Let_def)
  show ?thesis
    using n
    by (auto simp: s' data_length_def Let_def inc strs_SET strs_APPEND min_def
        split: option.splits)
qed

section \<open>Attributes of a new file\<close>

text \<open>
  C1. After \<open>create\<close> of \<^verbatim>\<open>/f\<close> with mode \<^verbatim>\<open>0100644\<close> by user 1000 of group 100 on an
  empty store, \<open>getattr\<close> returns 0 with the mode and a size of 0, but with the group
  100 as the uid and the uid 1000 as the link count: \<^verbatim>\<open>fs_getattr\<close> tests slot 4 (UID)
  of its reply and reads slot 3 (GID), tests slot 5 (LINK) and reads slot 4 (UID).
\<close>

theorem create_getattr_misreads_owner:
  "(case fs_create user_env empty_store ''/f'' 33188 of
      None \<Rightarrow> None
    | Some (r, s1) \<Rightarrow> fs_getattr user_env s1 ''/f'')
   = Some (0, \<lparr>st_mode = 33188, st_nlink = 1000, st_uid = 100, st_gid = 100, st_size = 0,
        st_atime = 1300000000, st_mtime = 1300000000, st_ctime = 1300000000\<rparr>)"
  by (simp add: fs_create_def fs_getattr_def new_entry_block_def getattr_times_owner_def
      read_slot_def getattr_type_def stat_zero_def user_env_def empty_store_def num_eval
      store_eval Let_def)

section \<open>Read-only mounts\<close>

text \<open>
  C2. When the filesystem runs read-only, each of mkdir, rmdir, create, unlink, write,
  truncate, symlink, chmod, chown, utimens and rename returns \<open>-EPERM\<close>, and the store
  it hands back is the store it was given: the flag is tested before the liveness probe,
  before any lookup and before any command.
\<close>

theorem read_only_refuses:
  assumes "g_read_only e"
  shows "fs_mkdir e s path mode = Some (- EPERM, s)
       \<and> fs_rmdir e s path = Some (- EPERM, s)
       \<and> fs_create e s path mode = Some (- EPERM, s)
       \<and> fs_unlink e s path = Some (- EPERM, s)
       \<and> fs_write e s path buf nbytes offset = Some (- EPERM, s)
       \<and> fs_truncate e s path newsize = Some (- EPERM, s)
       \<and> fs_symlink e s target path = Some (- EPERM, s)
       \<and> fs_chmod e s path mode = Some (- EPERM, s)
       \<and> fs_chown e s path uid gid = Some (- EPERM, s)
       \<and> fs_utimens e s path atime_sec mtime_sec = Some (- EPERM, s)
       \<and> fs_rename e s old path = Some (- EPERM, s)"
  using assms
  by (simp add: fs_mkdir_def fs_rmdir_def fs_create_def fs_unlink_def fs_write_def
      fs_truncate_def fs_symlink_def fs_chmod_def fs_chown_def fs_utimens_def fs_rename_def)

theorem read_only_refuses_witness:
  "g_read_only read_only_env
   \<and> fs_mkdir read_only_env empty_store ''/d'' 493 = Some (- EPERM, empty_store)
   \<and> fs_rmdir read_only_env empty_store ''/d'' = Some (- EPERM, empty_store)
   \<and> fs_create read_only_env empty_store ''/d'' 493 = Some (- EPERM, empty_store)
   \<and> fs_unlink read_only_env empty_store ''/d'' = Some (- EPERM, empty_store)
   \<and> fs_write read_only_env empty_store ''/d'' ''abc'' 3 0 = Some (- EPERM, empty_store)
   \<and> fs_truncate read_only_env empty_store ''/d'' 0 = Some (- EPERM, empty_store)
   \<and> fs_symlink read_only_env empty_store ''/t'' ''/d'' = Some (- EPERM, empty_store)
   \<and> fs_chmod read_only_env empty_store ''/d'' 493 = Some (- EPERM, empty_store)
   \<and> fs_chown read_only_env empty_store ''/d'' 1 2 = Some (- EPERM, empty_store)
   \<and> fs_utimens read_only_env empty_store ''/d'' 5 6 = Some (- EPERM, empty_store)
   \<and> fs_rename read_only_env empty_store ''/o'' ''/d'' = Some (- EPERM, empty_store)"
proof -
  have ro: "g_read_only read_only_env"
    by (simp add: read_only_env_def user_env_def)
  show ?thesis
    using ro read_only_refuses [OF ro, of empty_store "''/d''" 493 "''abc''" 3 0 0 "''/t''" 1 2 5 6 "''/o''"]
    by simp
qed

section \<open>Create, then unlink\<close>

text \<open>
  C3, as the spec has it: after \<open>create\<close> of a path and \<open>unlink\<close> of it, path and parent
  resolving, no attribute key of the inode that \<open>create\<close> allocated exists. It fails
  where the counter stands at 2147483647: the store answers 2147483648, which
  \<^verbatim>\<open>get_next_inode\<close> returns as the \<^verbatim>\<open>int\<close> \<open>-2147483648\<close>; the path resolves to that inode,
  \<open>unlink\<close> returns 0, and \<^verbatim>\<open>remove_inode\<close>, which returns at once for a negative inode,
  leaves the keys where they are.
\<close>

theorem create_unlink_counterexample:
  "\<exists>s1 s2. fs_create user_env full_counter_store ''/f'' 33188 = Some (0, s1)
     \<and> find_inode user_env s1 ''/'' = Some (- 99)
     \<and> find_inode user_env s1 ''/f'' = Some (- 2147483648)
     \<and> fs_unlink user_env s1 ''/f'' = Some (0, s2)
     \<and> strs s2 (INODE (- 2147483648) A_NAME) = Some ''f''
     \<and> strs s2 (INODE (- 2147483648) A_TYPE) = Some ''FILE''"
  by (simp add: fs_create_def fs_unlink_def new_entry_block_def full_counter_store_def
      user_env_def num_eval store_eval Let_def)

text \<open>
  C3, amended. On a writable mount, let \<open>p\<close> be a path other than the root whose parent
  resolves to a directory \<open>pi\<close>, every entry of which has a name, none of them the name
  of \<open>p\<close>; let the lookup command for the entries of \<open>pi\<close> and the new one fit the buffer
  of \<^verbatim>\<open>find_inode\<close>; let nothing be filed under the not-found value \<open>-1\<close>; and let the
  counter hold a number \<open>n\<close> with \<open>0 \<le> n\<close> and \<open>n + 1 < 2^31\<close>, so that the inode
  allocated is \<open>n + 1\<close>, not negative, with \<open>n + 1\<close> not yet a member of any entry set.
  Then \<open>create\<close> of \<open>p\<close> returns 0 and \<open>p\<close> resolves to the new inode \<open>n + 1\<close>; \<open>unlink\<close> of
  \<open>p\<close> returns 0, and afterwards none of the twelve attribute keys of inode \<open>n + 1\<close>
  exists and the entry set of \<open>pi\<close> does not contain it.
\<close>

theorem create_unlink_erases:
  assumes ro: "\<not> g_read_only e"
    and P: "p \<noteq> ''/''" "get_parent p = Some par" "find_inode e s par = Some pi" "pi \<noteq> - 1"
    and O: "dirent s (- 1) = []"
    and C: "counter_value s = Some n" "0 \<le> n" "n + 1 < 2 ^ 31"
    and F1: "\<forall>d. n + 1 \<notin> set (dirent s d)"
    and F2: "\<forall>m \<in> set (dirent s pi).
               \<exists>nm. strs s (INODE m A_NAME) = Some nm \<and> nm \<noteq> get_basename p"
    and B: "fits_buffer e (dirent s pi @ [n + 1])"
  shows "\<exists>s1 s2. fs_create e s p mode = Some (0, s1) \<and> find_inode e s1 p = Some (n + 1)
       \<and> fs_unlink e s1 p = Some (0, s2)
       \<and> (\<forall>a. strs s2 (INODE (n + 1) a) = None)
       \<and> n + 1 \<notin> set (dirent s2 pi)"
proof -
  define s1 where "s1 = redis_MSET (redis_SADD (redis_SET s GLOBAL_INODE (show_int (n + 1))) pi (n + 1))
      (new_entry_block e (n + 1) (get_basename p) ''FILE'' mode)"
  have g: "get_next_inode s = (n + 1, redis_SET s GLOBAL_INODE (show_int (n + 1)))"
    using C by (rule get_next_inode_ok)
  have cr: "fs_create e s p mode = Some (0, s1)"
    using ro P g by (simp add: fs_create_def s1_def)
  have D: "dirent s1 = (dirent s)(pi := dirent s pi @ [n + 1])"
    using F1 by (simp add: s1_def dirent_MSET dirent_SADD dirent_SET)
  have N: "\<And>m. m \<noteq> n + 1 \<Longrightarrow> strs s1 (INODE m A_NAME) = strs s (INODE m A_NAME)"
    by (simp add: s1_def new_entry_block_def strs_SET strs_SADD)
  have K: "strs s1 (INODE (n + 1) A_NAME) = Some (get_basename p)"
    by (simp add: s1_def new_entry_block_def strs_SET strs_SADD)
  have fi: "find_inode e s1 par = Some pi \<and> find_inode e s1 p = Some (n + 1)"
    using F1 F2 by (intro find_inode_new_entry [OF D N K _ _ O B P]) auto
  define s2 where "s2 = remove_inode (redis_SREM s1 pi (n + 1)) (n + 1)"
  have ul: "fs_unlink e s1 p = Some (0, s2)"
    using ro fi P C by (simp add: fs_unlink_def s2_def)
  have gone: "\<forall>a. strs s2 (INODE (n + 1) a) = None"
    using C by (simp add: s2_def strs_remove_inode_self)
  have nm: "n + 1 \<notin> set (dirent s2 pi)"
    by (simp add: s2_def dirent_remove_inode dirent_SREM)
  from cr fi ul gone nm show ?thesis by blast
qed

theorem create_unlink_erases_witness:
  "\<not> g_read_only user_env
   \<and> ''/g'' \<noteq> ''/''
   \<and> get_parent ''/g'' = Some ''/''
   \<and> find_inode user_env sample_store ''/'' = Some (- 99 :: int)
   \<and> (- 99 :: int) \<noteq> - 1
   \<and> dirent sample_store (- 1) = []
   \<and> counter_value sample_store = Some (3 :: int)
   \<and> 0 \<le> (3 :: int)
   \<and> (3 :: int) + 1 < 2 ^ 31
   \<and> (\<forall>d. (3 :: int) + 1 \<notin> set (dirent sample_store d))
   \<and> dirent sample_store (- 99) = [1, 2]
   \<and> strs sample_store (INODE 1 A_NAME) = Some ''f''
   \<and> strs sample_store (INODE 2 A_NAME) = Some ''d''
   \<and> get_basename ''/g'' = ''g''
   \<and> fits_buffer user_env (dirent sample_store (- 99) @ [(3 :: int) + 1])
   \<and> (\<exists>s1 s2. fs_create user_env sample_store ''/g'' 33188 = Some (0, s1)
       \<and> find_inode user_env s1 ''/g'' = Some ((3 :: int) + 1)
       \<and> fs_unlink user_env s1 ''/g'' = Some (0, s2)
       \<and> (\<forall>a. strs s2 (INODE ((3 :: int) + 1) a) = None)
       \<and> (3 :: int) + 1 \<notin> set (dirent s2 (- 99 :: int)))"
proof -
  have h1: "\<not> g_read_only user_env"
    by (simp add: user_env_def)
  have h2: "''/g'' \<noteq> ''/''"
    by simp
  have h3: "get_parent ''/g'' = Some ''/''"
    by (simp add: get_parent_def)
  have h4: "find_inode user_env sample_store ''/'' = Some (- 99 :: int)"
    by (rule find_inode_root)
  have h5: "(- 99 :: int) \<noteq> - 1"
    by simp
  have h6: "dirent sample_store (- 1) = []"
    by (simp add: sample_store_def)
  have h7: "counter_value sample_store = Some (3 :: int)"
    by (simp add: counter_value_def sample_store_def num_eval)
  have h8: "0 \<le> (3 :: int)"
    by simp
  have h9: "(3 :: int) + 1 < 2 ^ 31"
    by simp
  have h10: "\<forall>d. (3 :: int) + 1 \<notin> set (dirent sample_store d)"
    by (simp add: sample_store_def)
  have h11: "\<forall>m \<in> set (dirent sample_store (- 99 :: int)).
      \<exists>nm. strs sample_store (INODE m A_NAME) = Some nm \<and> nm \<noteq> get_basename ''/g''"
    by (simp add: sample_store_def get_basename_def)
  have h12: "fits_buffer user_env (dirent sample_store (- 99) @ [(3 :: int) + 1])"
    by (simp add: sample_store_def user_env_def memcommand_def fits_buffer_def
        MEMCOMMAND_SIZE_def num_eval)
  have f1: "dirent sample_store (- 99) = [1, 2]"
    by (simp add: sample_store_def)
  have f2: "strs sample_store (INODE 1 A_NAME) = Some ''f''"
    by (simp add: sample_store_def)
  have f3: "strs sample_store (INODE 2 A_NAME) = Some ''d''"
    by (simp add: sample_store_def)
  have f4: "get_basename ''/g'' = ''g''"
    by (simp add: get_basename_def)
  have c: "\<exists>s1 s2. fs_create user_env sample_store ''/g'' 33188 = Some (0, s1)
       \<and> find_inode user_env s1 ''/g'' = Some ((3 :: int) + 1)
       \<and> fs_unlink user_env s1 ''/g'' = Some (0, s2)
       \<and> (\<forall>a. strs s2 (INODE ((3 :: int) + 1) a) = None)
       \<and> (3 :: int) + 1 \<notin> set (dirent s2 (- 99 :: int))"
    by (rule create_unlink_erases [OF h1 h2 h3 h4 h5 h6 h7 h8 h9 h10 h11 h12])
  from h1 h2 h3 h4 h5 h6 h7 h8 h9 h10 f1 f2 f3 f4 h12 c show ?thesis by (intro conjI)
qed

section \<open>A failed inode allocation\<close>

text \<open>
  C4, as the spec has it: when the allocator gets no integer reply, the calling
  operation aborts with \<open>-EIO\<close> and writes nothing under the sentinel. On a store whose
  counter key does not hold a number, \<open>create\<close> returns 0, files \<open>-1\<close> in the root's
  entry set and writes the name under inode \<open>-1\<close>.
\<close>

theorem alloc_failure_counterexample:
  "fst (redis_INCR corrupt_counter_store GLOBAL_INODE) = None
   \<and> fst (the (fs_create user_env corrupt_counter_store ''/f'' 33188)) = 0
   \<and> fst (the (fs_create user_env corrupt_counter_store ''/f'' 33188)) \<noteq> - EIO
   \<and> strs (snd (the (fs_create user_env corrupt_counter_store ''/f'' 33188))) (INODE (- 1) A_NAME) = Some ''f''
   \<and> dirent (snd (the (fs_create user_env corrupt_counter_store ''/f'' 33188))) (- 99) = [- 1]"
  by (simp add: fs_create_def new_entry_block_def corrupt_counter_store_def user_env_def
      store_eval num_eval EIO_def Let_def)

text \<open>
  C4, amended: when the allocator gets no integer reply it returns the sentinel \<open>-1\<close> and
  leaves the store as it was; mkdir, create and symlink do not test for it: with a parent
  that resolves they return 0, having added \<open>-1\<close> to the parent's entry set and written
  every attribute of the new entry under inode \<open>-1\<close> (name, type, mode, owner, group,
  size 0, the three times, link count 1, and the target of a symlink), and nothing else.
\<close>

theorem alloc_failure_not_checked:
  assumes "fst (redis_INCR s GLOBAL_INODE) = None" and "\<not> g_read_only e"
    and "get_parent path = Some parent" and "find_inode e s parent = Some pi"
  shows "get_next_inode s = (- 1, s)
    \<and> (\<exists>s'. fs_mkdir e s path mode = Some (0, s')
          \<and> dirent s' = dirent (redis_SADD s pi (- 1))
          \<and> - 1 \<in> set (dirent s' pi)
          \<and> redis_MGET s' (map (INODE (- 1))
               [A_NAME, A_TYPE, A_MODE, A_UID, A_GID, A_SIZE, A_CTIME, A_MTIME, A_ATIME, A_LINK])
             = [Some (get_basename path), Some ''DIR'', Some (fmt_d (int mode)),
                Some (fmt_d (int (ctx_uid e))), Some (fmt_d (int (ctx_gid e))), Some (fmt_d 0),
                Some (fmt_d (now e)), Some (fmt_d (now e)), Some (fmt_d (now e)), Some ''1'']
          \<and> redis_MGET s' (map (INODE (- 1)) [A_DATA, A_TARGET])
             = redis_MGET s (map (INODE (- 1)) [A_DATA, A_TARGET])
          \<and> strs s' GLOBAL_INODE = strs s GLOBAL_INODE
          \<and> (\<forall>i a. i \<noteq> - 1 \<longrightarrow> strs s' (INODE i a) = strs s (INODE i a)))
    \<and> (\<exists>s'. fs_create e s path mode = Some (0, s')
          \<and> dirent s' = dirent (redis_SADD s pi (- 1))
          \<and> - 1 \<in> set (dirent s' pi)
          \<and> redis_MGET s' (map (INODE (- 1))
               [A_NAME, A_TYPE, A_MODE, A_UID, A_GID, A_SIZE, A_CTIME, A_MTIME, A_ATIME, A_LINK])
             = [Some (get_basename path), Some ''FILE'', Some (fmt_d (int mode)),
                Some (fmt_d (int (ctx_uid e))), Some (fmt_d (int (ctx_gid e))), Some (fmt_d 0),
                Some (fmt_d (now e)), Some (fmt_d (now e)), Some (fmt_d (now e)), Some ''1'']
          \<and> redis_MGET s' (map (INODE (- 1)) [A_DATA, A_TARGET])
             = redis_MGET s (map (INODE (- 1)) [A_DATA, A_TARGET])
          \<and> strs s' GLOBAL_INODE = strs s GLOBAL_INODE
          \<and> (\<forall>i a. i \<noteq> - 1 \<longrightarrow> strs s' (INODE i a) = strs s (INODE i a)))
    \<and> (\<exists>s'. fs_symlink e s target path = Some (0, s')
          \<and> dirent s' = dirent (redis_SADD s pi (- 1))
          \<and> - 1 \<in> set (dirent s' pi)
          \<and> redis_MGET s' (map (INODE (- 1))
               [A_NAME, A_TYPE, A_TARGET, A_MODE, A_UID, A_GID, A_SIZE, A_CTIME, A_MTIME,
                A_ATIME, A_LINK])
             = [Some (get_basename path), Some ''LINK'', Some target, Some (fmt_d 292),
                Some (fmt_d (int (ctx_uid e))), Some (fmt_d (int (ctx_gid e))), Some (fmt_d 0),
                Some (fmt_d (now e)), Some (fmt_d (now e)), Some (fmt_d (now e)), Some ''1'']
          \<and> redis_MGET s' (map (INODE (- 1)) [A_DATA]) = redis_MGET s (map (INODE (- 1)) [A_DATA])
          \<and> strs s' GLOBAL_INODE = strs s GLOBAL_INODE
          \<and> (\<forall>i a. i \<noteq> - 1 \<longrightarrow> strs s' (INODE i a) = strs s (INODE i a)))"
proof -
  have g: "get_next_inode s = (- 1, s)"
    using assms(1) by (rule get_next_inode_fails)
  have mk: "\<exists>s'. fs_mkdir e s path mode = Some (0, s')
          \<and> dirent s' = dirent (redis_SADD s pi (- 1))
          \<and> - 1 \<in> set (dirent s' pi)
          \<and> redis_MGET s' (map (INODE (- 1))
               [A_NAME, A_TYPE, A_MODE, A_UID, A_GID, A_SIZE, A_CTIME, A_MTIME, A_ATIME, A_LINK])
             = [Some (get_basename path), Some ''DIR'', Some (fmt_d (int mode)),
                Some (fmt_d (int (ctx_uid e))), Some (fmt_d (int (ctx_gid e))), Some (fmt_d 0),
                Some (fmt_d (now e)), Some (fmt_d (now e)), Some (fmt_d (now e)), Some ''1'']
          \<and> redis_MGET s' (map (INODE (- 1)) [A_DATA, A_TARGET])
             = redis_MGET s (map (INODE (- 1)) [A_DATA, A_TARGET])
          \<and> strs s' GLOBAL_INODE = strs s GLOBAL_INODE
          \<and> (\<forall>i a. i \<noteq> - 1 \<longrightarrow> strs s' (INODE i a) = strs s (INODE i a))"
    using assms g
    by (auto simp: fs_mkdir_def new_entry_block_def redis_MGET_def strs_SET dirent_SET strs_SADD
        dirent_SADD)
  have cr: "\<exists>s'. fs_create e s path mode = Some (0, s')
          \<and> dirent s' = dirent (redis_SADD s pi (- 1))
          \<and> - 1 \<in> set (dirent s' pi)
          \<and> redis_MGET s' (map (INODE (- 1))
               [A_NAME, A_TYPE, A_MODE, A_UID, A_GID, A_SIZE, A_CTIME, A_MTIME, A_ATIME, A_LINK])
             = [Some (get_basename path), Some ''FILE'', Some (fmt_d (int mode)),
                Some (fmt_d (int (ctx_uid e))), Some (fmt_d (int (ctx_gid e))), Some (fmt_d 0),
                Some (fmt_d (now e)), Some (fmt_d (now e)), Some (fmt_d (now e)), Some ''1'']
          \<and> redis_MGET s' (map (INODE (- 1)) [A_DATA, A_TARGET])
             = redis_MGET s (map (INODE (- 1)) [A_DATA, A_TARGET])
          \<and> strs s' GLOBAL_INODE = strs s GLOBAL_INODE
          \<and> (\<forall>i a. i \<noteq> - 1 \<longrightarrow> strs s' (INODE i a) = strs s (INODE i a))"
    using assms g
    by (auto simp: fs_create_def new_entry_block_def redis_MGET_def strs_SET dirent_SET strs_SADD
        dirent_SADD)
  have sy: "\<exists>s'. fs_symlink e s target path = Some (0, s')
          \<and> dirent s' = dirent (redis_SADD s pi (- 1))
          \<and> - 1 \<in> set (dirent s' pi)
          \<and> redis_MGET s' (map (INODE (- 1))
               [A_NAME, A_TYPE, A_TARGET, A_MODE, A_UID, A_GID, A_SIZE, A_CTIME, A_MTIME,
                A_ATIME, A_LINK])
             = [Some (get_basename path), Some ''LINK'', Some target, Some (fmt_d 292),
                Some (fmt_d (int (ctx_uid e))), Some (fmt_d (int (ctx_gid e))), Some (fmt_d 0),
                Some (fmt_d (now e)), Some (fmt_d (now e)), Some (fmt_d (now e)), Some ''1'']
          \<and> redis_MGET s' (map (INODE (- 1)) [A_DATA]) = redis_MGET s (map (INODE (- 1)) [A_DATA])
          \<and> strs s' GLOBAL_INODE = strs s GLOBAL_INODE
          \<and> (\<forall>i a. i \<noteq> - 1 \<longrightarrow> strs s' (INODE i a) = strs s (INODE i a))"
    using assms g
    by (auto simp: fs_symlink_def Let_def redis_MGET_def strs_SET dirent_SET strs_SADD dirent_SADD)
  from g mk cr sy show ?thesis by (intro conjI)
qed

theorem alloc_failure_not_checked_witness:
  "fst (redis_INCR corrupt_counter_store GLOBAL_INODE) = None \<and> \<not> g_read_only user_env
   \<and> get_parent ''/f'' = Some ''/'' \<and> find_inode user_env corrupt_counter_store ''/'' = Some (- 99)
   \<and> get_next_inode corrupt_counter_store = (- 1, corrupt_counter_store)
   \<and> (\<exists>s'. fs_mkdir user_env corrupt_counter_store ''/f'' 493 = Some (0, s')
          \<and> dirent s' (- 99) = [- 1]
          \<and> redis_MGET s' (map (INODE (- 1))
               [A_NAME, A_TYPE, A_MODE, A_UID, A_GID, A_SIZE, A_CTIME, A_MTIME, A_ATIME, A_LINK])
             = [Some ''f'', Some ''DIR'', Some ''493'', Some ''1000'', Some ''100'', Some ''0'',
                Some ''1300000000'', Some ''1300000000'', Some ''1300000000'', Some ''1''])
   \<and> (\<exists>s'. fs_create user_env corrupt_counter_store ''/f'' 493 = Some (0, s')
          \<and> dirent s' (- 99) = [- 1]
          \<and> redis_MGET s' (map (INODE (- 1))
               [A_NAME, A_TYPE, A_MODE, A_UID, A_GID, A_SIZE, A_CTIME, A_MTIME, A_ATIME, A_LINK])
             = [Some ''f'', Some ''FILE'', Some ''493'', Some ''1000'', Some ''100'', Some ''0'',
                Some ''1300000000'', Some ''1300000000'', Some ''1300000000'', Some ''1''])
   \<and> (\<exists>s'. fs_symlink user_env corrupt_counter_store ''/t'' ''/f'' = Some (0, s')
          \<and> dirent s' (- 99) = [- 1]
          \<and> redis_MGET s' (map (INODE (- 1))
               [A_NAME, A_TYPE, A_TARGET, A_MODE, A_UID, A_GID, A_SIZE, A_CTIME, A_MTIME,
                A_ATIME, A_LINK])
             = [Some ''f'', Some ''LINK'', Some ''/t'', Some ''292'', Some ''1000'', Some ''100'',
                Some ''0'', Some ''1300000000'', Some ''1300000000'', Some ''1300000000'',
                Some ''1''])"
proof -
  have h1: "fst (redis_INCR corrupt_counter_store GLOBAL_INODE) = None"
    by (simp add: corrupt_counter_store_def store_eval num_eval)
  have h2: "\<not> g_read_only user_env" by (simp add: user_env_def)
  have h3: "get_parent ''/f'' = Some ''/''" by (simp add: get_parent_def)
  have h4: "find_inode user_env corrupt_counter_store ''/'' = Some (- 99)" by (rule find_inode_root)
  have d: "dirent (redis_SADD corrupt_counter_store (- 99) (- 1)) (- 99) = [- 1]"
    by (simp add: dirent_SADD corrupt_counter_store_def)
  have b: "get_basename ''/f'' = ''f''" by (simp add: get_basename_def)
  have v: "fmt_d 493 = ''493''" "fmt_d (int (ctx_uid user_env)) = ''1000''"
    "fmt_d (int (ctx_gid user_env)) = ''100''" "fmt_d 0 = ''0''"
    "fmt_d (now user_env) = ''1300000000''" "fmt_d 292 = ''292''"
    by (simp_all add: user_env_def num_eval)
  note t = alloc_failure_not_checked [OF h1 h2 h3 h4, of 493 "''/t''"]
  from t have g: "get_next_inode corrupt_counter_store = (- 1, corrupt_counter_store)"
    by (rule conjunct1)
  from t [THEN conjunct2, THEN conjunct1]
  obtain sm where fsm: "fs_mkdir user_env corrupt_counter_store ''/f'' 493 = Some (0, sm)
          \<and> dirent sm = dirent (redis_SADD corrupt_counter_store (- 99) (- 1))
          \<and> - 1 \<in> set (dirent sm (- 99))
          \<and> redis_MGET sm (map (INODE (- 1))
               [A_NAME, A_TYPE, A_MODE, A_UID, A_GID, A_SIZE, A_CTIME, A_MTIME, A_ATIME, A_LINK])
             = [Some (get_basename ''/f''), Some ''DIR'', Some (fmt_d (int 493)),
                Some (fmt_d (int (ctx_uid user_env))), Some (fmt_d (int (ctx_gid user_env))), Some (fmt_d 0),
                Some (fmt_d (now user_env)), Some (fmt_d (now user_env)), Some (fmt_d (now user_env)), Some ''1'']
          \<and> redis_MGET sm (map (INODE (- 1)) [A_DATA, A_TARGET])
             = redis_MGET corrupt_counter_store (map (INODE (- 1)) [A_DATA, A_TARGET])
          \<and> strs sm GLOBAL_INODE = strs corrupt_counter_store GLOBAL_INODE
          \<and> (\<forall>i a. i \<noteq> - 1 \<longrightarrow> strs sm (INODE i a) = strs corrupt_counter_store (INODE i a))" ..
  have sm1: "fs_mkdir user_env corrupt_counter_store ''/f'' 493 = Some (0, sm)
          \<and> dirent sm (- 99) = [- 1]
          \<and> redis_MGET sm (map (INODE (- 1))
               [A_NAME, A_TYPE, A_MODE, A_UID, A_GID, A_SIZE, A_CTIME, A_MTIME, A_ATIME, A_LINK])
             = [Some ''f'', Some ''DIR'', Some ''493'', Some ''1000'', Some ''100'', Some ''0'',
                Some ''1300000000'', Some ''1300000000'', Some ''1300000000'', Some ''1'']"
    using fsm [THEN conjunct1] fsm [THEN conjunct2, THEN conjunct1]
      fsm [THEN conjunct2, THEN conjunct2, THEN conjunct2, THEN conjunct1]
    by (simp add: d b v)
  then have sm2: "\<exists>s'. fs_mkdir user_env corrupt_counter_store ''/f'' 493 = Some (0, s')
          \<and> dirent s' (- 99) = [- 1]
          \<and> redis_MGET s' (map (INODE (- 1))
               [A_NAME, A_TYPE, A_MODE, A_UID, A_GID, A_SIZE, A_CTIME, A_MTIME, A_ATIME, A_LINK])
             = [Some ''f'', Some ''DIR'', Some ''493'', Some ''1000'', Some ''100'', Some ''0'',
                Some ''1300000000'', Some ''1300000000'', Some ''1300000000'', Some ''1'']"
    by blast
  from t [THEN conjunct2, THEN conjunct2, THEN conjunct1]
  obtain sc where fsc: "fs_create user_env corrupt_counter_store ''/f'' 493 = Some (0, sc)
          \<and> dirent sc = dirent (redis_SADD corrupt_counter_store (- 99) (- 1))
          \<and> - 1 \<in> set (dirent sc (- 99))
          \<and> redis_MGET sc (map (INODE (- 1))
               [A_NAME, A_TYPE, A_MODE, A_UID, A_GID, A_SIZE, A_CTIME, A_MTIME, A_ATIME, A_LINK])
             = [Some (get_basename ''/f''), Some ''FILE'', Some (fmt_d (int 493)),
                Some (fmt_d (int (ctx_uid user_env))), Some (fmt_d (int (ctx_gid user_env))), Some (fmt_d 0),
                Some (fmt_d (now user_env)), Some (fmt_d (now user_env)), Some (fmt_d (now user_env)), Some ''1'']
          \<and> redis_MGET sc (map (INODE (- 1)) [A_DATA, A_TARGET])
             = redis_MGET corrupt_counter_store (map (INODE (- 1)) [A_DATA, A_TARGET])
          \<and> strs sc GLOBAL_INODE = strs corrupt_counter_store GLOBAL_INODE
          \<and> (\<forall>i a. i \<noteq> - 1 \<longrightarrow> strs sc (INODE i a) = strs corrupt_counter_store (INODE i a))" ..
  have sc1: "fs_create user_env corrupt_counter_store ''/f'' 493 = Some (0, sc)
          \<and> dirent sc (- 99) = [- 1]
          \<and> redis_MGET sc (map (INODE (- 1))
               [A_NAME, A_TYPE, A_MODE, A_UID, A_GID, A_SIZE, A_CTIME, A_MTIME, A_ATIME, A_LINK])
             = [Some ''f'', Some ''FILE'', Some ''493'', Some ''1000'', Some ''100'', Some ''0'',
                Some ''1300000000'', Some ''1300000000'', Some ''1300000000'', Some ''1'']"
    using fsc [THEN conjunct1] fsc [THEN conjunct2, THEN conjunct1]
      fsc [THEN conjunct2, THEN conjunct2, THEN conjunct2, THEN conjunct1]
    by (simp add: d b v)
  then have sc2: "\<exists>s'. fs_create user_env corrupt_counter_store ''/f'' 493 = Some (0, s')
          \<and> dirent s' (- 99) = [- 1]
          \<and> redis_MGET s' (map (INODE (- 1))
               [A_NAME, A_TYPE, A_MODE, A_UID, A_GID, A_SIZE, A_CTIME, A_MTIME, A_ATIME, A_LINK])
             = [Some ''f'', Some ''FILE'', Some ''493'', Some ''1000'', Some ''100'', Some ''0'',
                Some ''1300000000'', Some ''1300000000'', Some ''1300000000'', Some ''1'']"
    by blast
  from t [THEN conjunct2, THEN conjunct2, THEN conjunct2]
  obtain sl where fsl: "fs_symlink user_env corrupt_counter_store ''/t'' ''/f'' = Some (0, sl)
          \<and> dirent sl = dirent (redis_SADD corrupt_counter_store (- 99) (- 1))
          \<and> - 1 \<in> set (dirent sl (- 99))
          \<and> redis_MGET sl (map (INODE (- 1))
               [A_NAME, A_TYPE, A_TARGET, A_MODE, A_UID, A_GID, A_SIZE, A_CTIME, A_MTIME,
                A_ATIME, A_LINK])
             = [Some (get_basename ''/f''), Some ''LINK'', Some ''/t'', Some (fmt_d 292),
                Some (fmt_d (int (ctx_uid user_env))), Some (fmt_d (int (ctx_gid user_env))), Some (fmt_d 0),
                Some (fmt_d (now user_env)), Some (fmt_d (now user_env)), Some (fmt_d (now user_env)), Some ''1'']
          \<and> redis_MGET sl (map (INODE (- 1)) [A_DATA]) = redis_MGET corrupt_counter_store (map (INODE (- 1)) [A_DATA])
          \<and> strs sl GLOBAL_INODE = strs corrupt_counter_store GLOBAL_INODE
          \<and> (\<forall>i a. i \<noteq> - 1 \<longrightarrow> strs sl (INODE i a) = strs corrupt_counter_store (INODE i a))" ..
  have sl1: "fs_symlink user_env corrupt_counter_store ''/t'' ''/f'' = Some (0, sl)
          \<and> dirent sl (- 99) = [- 1]
          \<and> redis_MGET sl (map (INODE (- 1))
               [A_NAME, A_TYPE, A_TARGET, A_MODE, A_UID, A_GID, A_SIZE, A_CTIME, A_MTIME,
                A_ATIME, A_LINK])
             = [Some ''f'', Some ''LINK'', Some ''/t'', Some ''292'', Some ''1000'', Some ''100'',
                Some ''0'', Some ''1300000000'', Some ''1300000000'', Some ''1300000000'',
                Some ''1'']"
    using fsl [THEN conjunct1] fsl [THEN conjunct2, THEN conjunct1]
      fsl [THEN conjunct2, THEN conjunct2, THEN conjunct2, THEN conjunct1]
    by (simp add: d b v)
  then have sl2: "\<exists>s'. fs_symlink user_env corrupt_counter_store ''/t'' ''/f'' = Some (0, s')
          \<and> dirent s' (- 99) = [- 1]
          \<and> redis_MGET s' (map (INODE (- 1))
               [A_NAME, A_TYPE, A_TARGET, A_MODE, A_UID, A_GID, A_SIZE, A_CTIME, A_MTIME,
                A_ATIME, A_LINK])
             = [Some ''f'', Some ''LINK'', Some ''/t'', Some ''292'', Some ''1000'', Some ''100'',
                Some ''0'', Some ''1300000000'', Some ''1300000000'', Some ''1300000000'',
                Some ''1'']"
    by blast
  from h1 h2 h3 h4 g sm2 sc2 sl2 show ?thesis by (intro conjI)
qed

section \<open>Write, append, read back\<close>

text \<open>
  C5. On a writable mount, for a path that resolves and byte strings \<open>b1\<close>, \<open>b2\<close> of
  fewer than \<open>2^31\<close> bytes together: a write of \<open>b1\<close> at offset 0 and a write of \<open>b2\<close>
  at offset \<open>|b1|\<close> return their byte counts, and a read of \<open>|b1| + |b2|\<close> bytes at offset
  0 then returns that count and copies \<open>b1\<close> followed by \<open>b2\<close>.
\<close>

theorem write_write_read:
  assumes ro: "\<not> g_read_only e"
    and f: "find_inode e s p = Some i" "i \<noteq> - 1"
    and len: "length b1 + length b2 < 2 ^ 31"
  shows "\<exists>s1 s2. fs_write e s p b1 (length b1) 0 = Some (int (length b1), s1)
     \<and> fs_write e s1 p b2 (length b2) (length b1) = Some (int (length b2), s2)
     \<and> fs_read e s2 p (length b1 + length b2) 0 = Some (int (length b1 + length b2), b1 @ b2)"
proof -
  have l1: "length b1 < 2 ^ 31" and l2: "length b2 < 2 ^ 31" using len by simp_all
  have t1: "to_int32 (int (length b1)) = int (length b1)" using l1 by (intro to_int32_id) auto
  have t2: "to_int32 (int (length b2)) = int (length b2)" using l2 by (intro to_int32_id) auto
  define s1 where "s1 = redis_MSET s
      [(INODE i A_SIZE, fmt_d (int (length b1))), (INODE i A_MTIME, fmt_d (now e)),
       (INODE i A_DATA, take (length b1) b1)]"
  have w1: "fs_write e s p b1 (length b1) 0 = Some (int (length b1), s1)"
    using ro f t1 by (simp add: fs_write_def s1_def)
  have f1: "find_inode e s1 p = Some i"
    using f(1) find_inode_cong [of s1 s e p] by (simp add: s1_def strs_SET dirent_SET)
  have sz1: "strs s1 (INODE i A_SIZE) = Some (show_int (int (length b1)))"
    using l1 by (simp add: s1_def strs_SET fmt_d_small)
  have dt1: "strs s1 (INODE i A_DATA) = Some b1"
    by (simp add: s1_def strs_SET)
  obtain s2 where w2: "fs_write e s1 p b2 (length b2) (length b1) = Some (int (length b2), s2)"
    and d2: "dirent s2 = dirent s1"
    and n2: "\<And>m. strs s2 (INODE m A_NAME) = strs s1 (INODE m A_NAME)"
    and sz2: "strs s2 (INODE i A_SIZE) = Some (show_int (int (length (b1 @ b2))))"
    and dt2: "strs s2 (INODE i A_DATA) = Some (b1 @ b2)"
  proof (cases "length b1 = 0")
    case True
    define t where "t = redis_MSET s1
      [(INODE i A_SIZE, fmt_d (int (length b2))), (INODE i A_MTIME, fmt_d (now e)),
       (INODE i A_DATA, take (length b2) b2)]"
    have "fs_write e s1 p b2 (length b2) (length b1) = Some (int (length b2), t)"
      using ro f1 t2 True by (simp add: fs_write_def t_def)
    moreover have "dirent t = dirent s1" by (simp add: t_def dirent_SET)
    moreover have "\<And>m. strs t (INODE m A_NAME) = strs s1 (INODE m A_NAME)"
      by (simp add: t_def strs_SET)
    moreover have "strs t (INODE i A_SIZE) = Some (show_int (int (length (b1 @ b2))))"
      using l2 True by (simp add: t_def strs_SET fmt_d_small)
    moreover have "strs t (INODE i A_DATA) = Some (b1 @ b2)"
      using True by (simp add: t_def strs_SET)
    ultimately show ?thesis by (rule that)
  next
    case False
    have rng: "LLONG_MIN \<le> int (length b1) + int (length b2)"
        "int (length b1) + int (length b2) \<le> LLONG_MAX"
      using len by (simp_all add: LLONG_MIN_def LLONG_MAX_def)
    have p1: "string2ll (show_int (int (length b1))) = Some (int (length b1))"
      using l1 by (intro string2ll_show_int) (simp_all add: LLONG_MIN_def LLONG_MAX_def)
    define u where "u = redis_SET s1 (INODE i A_SIZE) (show_int (int (length b1) + int (length b2)))"
    have inc: "redis_INCRBY s1 (INODE i A_SIZE) (int (length b2)) =
        (Some (int (length b1) + int (length b2)), u)"
      unfolding u_def using sz1 p1 rng by (rule redis_INCRBY_ok)
    define t where "t = (let s2 = redis_APPEND u (INODE i A_DATA) (take (length b2) b2)
        in if \<not> g_fast e then redis_SET s2 (INODE i A_MTIME) (fmt_d (now e)) else s2)"
    have "fs_write e s1 p b2 (length b2) (length b1) = Some (int (length b2), t)"
      using ro f1 t2 False inc by (simp add: fs_write_def t_def Let_def)
    moreover have "dirent t = dirent s1"
      by (simp add: t_def u_def Let_def dirent_SET dirent_APPEND)
    moreover have "\<And>m. strs t (INODE m A_NAME) = strs s1 (INODE m A_NAME)"
      by (simp add: t_def u_def Let_def strs_SET strs_APPEND)
    moreover have "strs t (INODE i A_SIZE) = Some (show_int (int (length (b1 @ b2))))"
      by (simp add: t_def u_def Let_def strs_SET strs_APPEND)
    moreover have "strs t (INODE i A_DATA) = Some (b1 @ b2)"
      using dt1 by (simp add: t_def u_def Let_def strs_SET strs_APPEND)
    ultimately show ?thesis by (rule that)
  qed
  have f2: "find_inode e s2 p = Some i"
    using f1 find_inode_cong [OF d2 n2, of e p] by simp
  have "fs_read e s2 p (length (b1 @ b2)) 0 = Some (int (length (b1 @ b2)), b1 @ b2)"
    using f2 f(2) sz2 dt2 len by (intro read_whole) auto
  with w1 w2 show ?thesis by auto
qed

theorem write_write_read_witness:
  "(\<not> g_read_only user_env) \<and> (find_inode user_env sample_store ''/f'' = Some (1 :: int)) \<and> ((1 :: int) \<noteq> - 1) \<and> (length ''ab'' + length ''cd'' < 2 ^ 31)
   \<and> (\<exists>s1 s2. fs_write user_env sample_store ''/f'' ''ab'' (length ''ab'') 0 = Some (int (length ''ab''), s1)
     \<and> fs_write user_env s1 ''/f'' ''cd'' (length ''cd'') (length ''ab'') = Some (int (length ''cd''), s2)
     \<and> fs_read user_env s2 ''/f'' (length ''ab'' + length ''cd'') 0 = Some (int (length ''ab'' + length ''cd''), ''ab'' @ ''cd''))"
proof -
  have h1: "\<not> g_read_only user_env"
    by (simp add: user_env_def)
  have h2: "find_inode user_env sample_store ''/f'' = Some (1 :: int)"
    by (simp add: store_eval sample_store_def user_env_def num_eval)
  have h3: "(1 :: int) \<noteq> - 1"
    by simp
  have h4: "length ''ab'' + length ''cd'' < 2 ^ 31"
    by simp
  have c: "\<exists>s1 s2. fs_write user_env sample_store ''/f'' ''ab'' (length ''ab'') 0 = Some (int (length ''ab''), s1)
     \<and> fs_write user_env s1 ''/f'' ''cd'' (length ''cd'') (length ''ab'') = Some (int (length ''cd''), s2)
     \<and> fs_read user_env s2 ''/f'' (length ''ab'' + length ''cd'') 0 = Some (int (length ''ab'' + length ''cd''), ''ab'' @ ''cd'')"
    by (rule write_write_read [OF h1 h2 h3 h4])
  from h1 h2 h3 h4 c show ?thesis by (intro conjI)
qed

section \<open>The size of a file\<close>

text \<open>
  C6, as the spec has it: for every inode of type FILE, SIZE is the length of DATA (an
  absent DATA counting as 0), and every operation keeps it so, \<open>create\<close> leaving SIZE 0
  and no DATA. It fails where \<open>create\<close> is handed an inode number that already has DATA.
  On a store whose counter key does not hold a number, every allocation gives \<open>-1\<close>:
  \<open>create\<close> of \<^verbatim>\<open>/f\<close> makes \<open>-1\<close> a file, a write of three bytes to \<^verbatim>\<open>/f\<close> stores them
  under \<open>-1\<close>, all of which keeps the invariant; \<open>create\<close> of \<^verbatim>\<open>/g\<close> then writes SIZE 0
  under \<open>-1\<close> again and leaves the three bytes of DATA.
\<close>

theorem size_invariant_counterexample:
  "\<exists>s1 s2 s3. size_invariant corrupt_counter_store
     \<and> fs_create user_env corrupt_counter_store ''/f'' 33188 = Some (0, s1)
     \<and> size_invariant s1
     \<and> fs_write user_env s1 ''/f'' ''abc'' 3 0 = Some (3, s2)
     \<and> size_invariant s2
     \<and> fs_create user_env s2 ''/g'' 33188 = Some (0, s3)
     \<and> strs s3 (INODE (- 1) A_TYPE) = Some ''FILE''
     \<and> strs s3 (INODE (- 1) A_SIZE) = Some ''0''
     \<and> strs s3 (INODE (- 1) A_DATA) = Some ''abc''
     \<and> \<not> size_invariant s3"
proof -
  define s1 where "s1 = redis_MSET (redis_SADD corrupt_counter_store (- 99) (- 1))
      (new_entry_block user_env (- 1) ''f'' ''FILE'' 33188)"
  define s2 where "s2 = redis_MSET s1
      [(INODE (- 1) A_SIZE, fmt_d (int 3)), (INODE (- 1) A_MTIME, fmt_d (now user_env)),
       (INODE (- 1) A_DATA, take 3 ''abc'')]"
  define s3 where "s3 = redis_MSET (redis_SADD s2 (- 99) (- 1))
      (new_entry_block user_env (- 1) ''g'' ''FILE'' 33188)"
  have ro: "\<not> g_read_only user_env" by (simp add: user_env_def)
  have g: "fst (redis_INCR corrupt_counter_store GLOBAL_INODE) = None"
    by (simp add: corrupt_counter_store_def store_eval num_eval)
  have c1: "strs s1 GLOBAL_INODE = Some ''corrupt''"
    by (simp add: s1_def new_entry_block_def strs_SET strs_SADD corrupt_counter_store_def)
  have c2: "strs s2 GLOBAL_INODE = Some ''corrupt''"
    by (simp add: s2_def strs_SET c1)
  have g2: "fst (redis_INCR s2 GLOBAL_INODE) = None"
    by (simp add: redis_INCR_def redis_INCRBY_def c2 num_eval)
  have i0: "size_invariant corrupt_counter_store"
    by (simp add: size_invariant_def is_file_def corrupt_counter_store_def)
  have cr1: "fs_create user_env corrupt_counter_store ''/f'' 33188 = Some (0, s1)"
    using ro get_next_inode_fails [OF g]
    by (simp add: fs_create_def s1_def get_parent_def get_basename_def find_inode_root)
  have t1: "\<And>i. is_file s1 i \<Longrightarrow> i = - 1"
    by (simp add: is_file_def s1_def new_entry_block_def strs_SET strs_SADD
        corrupt_counter_store_def split: if_splits)
  have i1: "size_invariant s1"
    unfolding size_invariant_def
  proof (intro allI impI)
    fix i assume "is_file s1 i"
    then have "i = - 1" by (rule t1)
    then show "size_is_data_length s1 i"
      by (simp add: size_is_data_length_def data_length_def s1_def new_entry_block_def strs_SET
          strs_SADD corrupt_counter_store_def fmt_d_0 string2ll_0)
  qed
  have d1: "dirent s1 (- 99) = [- 1]"
    by (simp add: s1_def dirent_MSET dirent_SADD corrupt_counter_store_def)
  have n1: "strs s1 (INODE (- 1) A_NAME) = Some ''f''"
    by (simp add: s1_def new_entry_block_def strs_SET strs_SADD)
  have fb: "fits_buffer user_env [- 1]"
    by (simp add: user_env_def memcommand_def fits_buffer_def MEMCOMMAND_SIZE_def num_eval)
  have f1: "find_inode user_env s1 ''/f'' = Some (- 1)"
    by (simp add: find_inode.simps [of _ _ "''/f''"] get_parent_def get_basename_def
        find_inode_root redis_SMEMBERS_def redis_GET_def d1 n1 fb)
  have w: "fs_write user_env s1 ''/f'' ''abc'' 3 0 = Some (3, s2)"
    using ro f1 by (simp add: fs_write_def s2_def to_int32_def)
  have three: "fmt_d 3 = show_int 3"
    by (simp add: fmt_d_small)
  have i2: "size_invariant s2"
    unfolding size_invariant_def
  proof (intro allI impI)
    fix i assume "is_file s2 i"
    then have "is_file s1 i" by (simp add: is_file_def s2_def strs_SET split: if_splits)
    then have "i = - 1" by (rule t1)
    then show "size_is_data_length s2 i"
      using string2ll_show_int [of 3]
      by (simp add: size_is_data_length_def data_length_def s2_def strs_SET three
          LLONG_MIN_def LLONG_MAX_def)
  qed
  have cr2: "fs_create user_env s2 ''/g'' 33188 = Some (0, s3)"
    using ro get_next_inode_fails [OF g2]
    by (simp add: fs_create_def s3_def get_parent_def get_basename_def find_inode_root)
  have ty: "strs s3 (INODE (- 1) A_TYPE) = Some ''FILE''"
    by (simp add: s3_def new_entry_block_def strs_SET strs_SADD)
  have sz: "strs s3 (INODE (- 1) A_SIZE) = Some ''0''"
    by (simp add: s3_def new_entry_block_def strs_SET strs_SADD fmt_d_0)
  have dt: "strs s3 (INODE (- 1) A_DATA) = Some ''abc''"
    by (simp add: s3_def s2_def new_entry_block_def strs_SET strs_SADD)
  have "\<not> size_is_data_length s3 (- 1)"
    by (simp add: size_is_data_length_def data_length_def sz dt string2ll_0)
  with ty have i3: "\<not> size_invariant s3"
    by (auto simp: size_invariant_def is_file_def)
  from i0 cr1 i1 w i2 cr2 ty sz dt i3 show ?thesis by blast
qed

text \<open>
  C6, amended. Let the counter be ahead of the store: it holds a number \<open>n\<close> with
  \<open>0 \<le> n\<close> and \<open>n + 1 < 2^31\<close>, and no inode number above \<open>n\<close> has an attribute key or is a
  member of an entry set, as in the empty store. Then every operation that returns keeps
  the invariant that, for every inode of type FILE, SIZE is the decimal text of the byte
  length of DATA (an absent DATA counting as 0), and leaves the counter ahead of the
  store, at \<open>n\<close> or at \<open>n + 1\<close>. The four operations that write SIZE or DATA of a file do it
  as follows: a successful create allocates inode \<open>n + 1\<close> and leaves it a FILE with SIZE
  \<^verbatim>\<open>0\<close> and no DATA; write at offset 0 sets SIZE to the byte count and DATA to the bytes
  it was given; write at another offset to a file sets SIZE to the former length plus the
  byte count and makes DATA longer by the byte count; a successful truncate deletes DATA
  and sets SIZE to \<^verbatim>\<open>0\<close>. A write is given a buffer that holds the bytes it announces,
  fewer than \<open>2^31\<close>, and the file stays below \<open>2^63\<close> bytes.
\<close>

theorem size_invariant_preserved:
  assumes "size_invariant s" and "well_allocated s n" and "n + 1 < 2 ^ 31"
    and "op_ok e s opn" and "run_op e s opn = Some (r, s')"
  shows "size_invariant s' \<and> (well_allocated s' n \<or> well_allocated s' (n + 1)) \<and>
    (case opn of
       Op_create p m \<Rightarrow>
         r = 0 \<longrightarrow>
           fst (get_next_inode s) = n + 1 \<and>
           strs s' (INODE (n + 1) A_TYPE) = Some ''FILE'' \<and>
           strs s' (INODE (n + 1) A_SIZE) = Some ''0'' \<and>
           strs s' (INODE (n + 1) A_DATA) = None
     | Op_write p buf k off \<Rightarrow>
         \<not> g_read_only e \<longrightarrow>
           (\<forall>i. find_inode e s p = Some i \<longrightarrow>
              (if off = 0
               then strs s' (INODE i A_SIZE) = Some (show_int (int k)) \<and>
                    strs s' (INODE i A_DATA) = Some (take k buf)
               else is_file s i \<longrightarrow>
                    strs s' (INODE i A_SIZE) = Some (show_int (int (data_length s i) + int k)) \<and>
                    data_length s' i = data_length s i + k))
     | Op_truncate p k \<Rightarrow>
         r = 0 \<longrightarrow>
           (\<forall>i. find_inode e s p = Some i \<longrightarrow>
              strs s' (INODE i A_DATA) = None \<and> strs s' (INODE i A_SIZE) = Some ''0'')
     | _ \<Rightarrow> True)"
proof (cases opn)
  case (Op_mkdir p m)
  with assms show ?thesis by (auto intro: mkdir_inv dest: mkdir_wa)
next
  case (Op_rmdir p)
  with assms show ?thesis by (auto intro: rmdir_inv rmdir_wa)
next
  case (Op_create p m)
  note fresh = create_fresh [OF assms(2,3)]
  from Op_create assms have i: "size_invariant s'"
    using create_inv [of s e p m r s'] fresh(2) by simp
  from Op_create assms have w: "well_allocated s' n \<or> well_allocated s' (n + 1)"
    using create_wa [of s n e p m r s'] by simp
  from Op_create assms(5) have "r = 0 \<Longrightarrow>
      strs s' (INODE (n + 1) A_TYPE) = Some ''FILE'' \<and>
      strs s' (INODE (n + 1) A_SIZE) = Some ''0'' \<and>
      strs s' (INODE (n + 1) A_DATA) = None"
    using create_effect [of e s p m s'] fresh by simp
  with i w fresh(1) Op_create show ?thesis by simp
next
  case (Op_unlink p)
  with assms show ?thesis by (auto intro: unlink_inv unlink_wa)
next
  case (Op_write p buf k off)
  with assms have i: "size_invariant s'" using write_inv [of s e p buf k off r s'] by simp
  from Op_write assms have w: "well_allocated s' n" using write_wa [of s n e p buf k off r s'] by simp
  have "strs s' (INODE i A_SIZE) = Some (show_int (int k)) \<and>
        strs s' (INODE i A_DATA) = Some (take k buf)"
    if "\<not> g_read_only e" "find_inode e s p = Some i" "off = 0" for i
    using that Op_write assms(4,5) write_at_zero_effect [of e s p buf k r s' i] by simp
  moreover have "strs s' (INODE i A_SIZE) = Some (show_int (int (data_length s i) + int k)) \<and>
        data_length s' i = data_length s i + k"
    if "\<not> g_read_only e" "find_inode e s p = Some i" "off \<noteq> 0" "is_file s i" for i
    using that Op_write assms(1,4,5) write_append_effect [of s e p buf k off r s' i] by simp
  ultimately show ?thesis using Op_write i w by simp
next
  case (Op_truncate p k)
  with assms have i: "size_invariant s'" by (auto intro: truncate_inv)
  from Op_truncate assms have w: "well_allocated s' n" by (auto intro: truncate_wa)
  have "strs s' (INODE i A_DATA) = None \<and> strs s' (INODE i A_SIZE) = Some ''0''"
    if "r = 0" "find_inode e s p = Some i" for i
    using that Op_truncate assms(5) truncate_effect [of e s p k s' i] by simp
  with i w show ?thesis using Op_truncate by simp
next
  case (Op_symlink t p)
  with assms show ?thesis by (auto intro: symlink_inv dest: symlink_wa)
next
  case (Op_chmod p m)
  with assms show ?thesis by (auto intro: size_invariant_sized chmod_sized chmod_wa)
next
  case (Op_chown p u g)
  with assms show ?thesis by (auto intro: size_invariant_sized chown_sized chown_wa)
next
  case (Op_utimens p a m)
  with assms show ?thesis by (auto intro: size_invariant_sized utimens_sized utimens_wa)
next
  case (Op_rename old p)
  with assms show ?thesis by (auto intro: size_invariant_sized rename_sized rename_wa)
next
  case (Op_open p)
  with assms show ?thesis by (auto intro: size_invariant_sized open_sized open_wa)
next
  case (Op_access p)
  with assms show ?thesis by (auto intro: size_invariant_sized access_sized access_wa)
qed

theorem size_invariant_preserved_witness:
  "size_invariant sample_store
   \<and> well_allocated sample_store 3
   \<and> (3 :: int) + 1 < 2 ^ 31
   \<and> op_ok user_env sample_store (Op_write ''/f'' ''abc'' 3 0)
   \<and> run_op user_env sample_store (Op_write ''/f'' ''abc'' 3 0) =
       Some (3, redis_MSET sample_store
         [(INODE 1 A_SIZE, fmt_d (int 3)), (INODE 1 A_MTIME, fmt_d (now user_env)),
          (INODE 1 A_DATA, take 3 ''abc'')])
   \<and> size_invariant (redis_MSET sample_store
         [(INODE 1 A_SIZE, fmt_d (int 3)), (INODE 1 A_MTIME, fmt_d (now user_env)),
          (INODE 1 A_DATA, take 3 ''abc'')])
   \<and> well_allocated (redis_MSET sample_store
         [(INODE 1 A_SIZE, fmt_d (int 3)), (INODE 1 A_MTIME, fmt_d (now user_env)),
          (INODE 1 A_DATA, take 3 ''abc'')]) 3
   \<and> strs (redis_MSET sample_store
         [(INODE 1 A_SIZE, fmt_d (int 3)), (INODE 1 A_MTIME, fmt_d (now user_env)),
          (INODE 1 A_DATA, take 3 ''abc'')]) (INODE 1 A_SIZE) = Some ''3''
   \<and> strs (redis_MSET sample_store
         [(INODE 1 A_SIZE, fmt_d (int 3)), (INODE 1 A_MTIME, fmt_d (now user_env)),
          (INODE 1 A_DATA, take 3 ''abc'')]) (INODE 1 A_DATA) = Some ''abc''
   \<and> op_ok user_env sample_store (Op_write ''/f'' ''abc'' 3 5)
   \<and> is_file sample_store 1
   \<and> run_op user_env sample_store (Op_write ''/f'' ''abc'' 3 5) =
       Some (3, redis_SET (redis_APPEND (snd (redis_INCRBY sample_store (INODE 1 A_SIZE) 3))
           (INODE 1 A_DATA) ''abc'') (INODE 1 A_MTIME) (fmt_d (now user_env)))
   \<and> size_invariant (redis_SET (redis_APPEND (snd (redis_INCRBY sample_store (INODE 1 A_SIZE) 3))
           (INODE 1 A_DATA) ''abc'') (INODE 1 A_MTIME) (fmt_d (now user_env)))
   \<and> strs (redis_SET (redis_APPEND (snd (redis_INCRBY sample_store (INODE 1 A_SIZE) 3))
           (INODE 1 A_DATA) ''abc'') (INODE 1 A_MTIME) (fmt_d (now user_env))) (INODE 1 A_SIZE)
       = Some ''3''
   \<and> data_length (redis_SET (redis_APPEND (snd (redis_INCRBY sample_store (INODE 1 A_SIZE) 3))
           (INODE 1 A_DATA) ''abc'') (INODE 1 A_MTIME) (fmt_d (now user_env))) 1 = 3
   \<and> op_ok user_env sample_store (Op_create ''/g'' 420)
   \<and> run_op user_env sample_store (Op_create ''/g'' 420) =
       Some (0, redis_MSET (redis_SADD (snd (get_next_inode sample_store)) (- 99) 4)
         (new_entry_block user_env 4 ''g'' ''FILE'' 420))
   \<and> size_invariant (redis_MSET (redis_SADD (snd (get_next_inode sample_store)) (- 99) 4)
         (new_entry_block user_env 4 ''g'' ''FILE'' 420))
   \<and> well_allocated (redis_MSET (redis_SADD (snd (get_next_inode sample_store)) (- 99) 4)
         (new_entry_block user_env 4 ''g'' ''FILE'' 420)) 4
   \<and> fst (get_next_inode sample_store) = 4
   \<and> strs (redis_MSET (redis_SADD (snd (get_next_inode sample_store)) (- 99) 4)
         (new_entry_block user_env 4 ''g'' ''FILE'' 420)) (INODE 4 A_TYPE) = Some ''FILE''
   \<and> strs (redis_MSET (redis_SADD (snd (get_next_inode sample_store)) (- 99) 4)
         (new_entry_block user_env 4 ''g'' ''FILE'' 420)) (INODE 4 A_SIZE) = Some ''0''
   \<and> strs (redis_MSET (redis_SADD (snd (get_next_inode sample_store)) (- 99) 4)
         (new_entry_block user_env 4 ''g'' ''FILE'' 420)) (INODE 4 A_DATA) = None
   \<and> op_ok user_env sample_store (Op_truncate ''/f'' 0)
   \<and> run_op user_env sample_store (Op_truncate ''/f'' 0) =
       Some (0, redis_MSET (redis_DEL sample_store (INODE 1 A_DATA))
         [(INODE 1 A_SIZE, ''0''), (INODE 1 A_MTIME, fmt_d (now user_env))])
   \<and> size_invariant (redis_MSET (redis_DEL sample_store (INODE 1 A_DATA))
         [(INODE 1 A_SIZE, ''0''), (INODE 1 A_MTIME, fmt_d (now user_env))])
   \<and> strs (redis_MSET (redis_DEL sample_store (INODE 1 A_DATA))
         [(INODE 1 A_SIZE, ''0''), (INODE 1 A_MTIME, fmt_d (now user_env))]) (INODE 1 A_DATA) = None
   \<and> strs (redis_MSET (redis_DEL sample_store (INODE 1 A_DATA))
         [(INODE 1 A_SIZE, ''0''), (INODE 1 A_MTIME, fmt_d (now user_env))]) (INODE 1 A_SIZE)
       = Some ''0''"
proof -
  have ro: "\<not> g_read_only user_env" by (simp add: user_env_def)
  have f: "find_inode user_env sample_store ''/f'' = Some 1"
    by (simp add: store_eval num_eval sample_store_def user_env_def)
  have k: "fst (get_next_inode sample_store) = 4"
    by (simp add: store_eval num_eval sample_store_def)
  have dl: "data_length sample_store 1 = 0"
    by (simp add: data_length_def sample_store_def)
  have s3: "show_int 3 = ''3''" by (simp add: num_eval)
  have h1: "size_invariant sample_store"
    by (auto simp: size_invariant_def is_file_def size_is_data_length_def data_length_def
        sample_store_def string2ll_0 split: if_splits)
  have cv: "counter_value sample_store = Some 3"
    by (simp add: counter_value_def sample_store_def num_eval)
  have h2: "well_allocated sample_store 3"
    unfolding well_allocated_def
  proof (intro conjI allI impI ballI)
    show "counter_value sample_store = Some 3" by (rule cv)
    show "(0 :: int) \<le> 3" by simp
  next
    fix i :: int and a assume "3 < i"
    then show "strs sample_store (INODE i a) = None" by (simp add: sample_store_def)
  next
    fix d m assume "m \<in> set (dirent sample_store d)"
    then show "m \<le> 3" by (auto simp: sample_store_def split: if_splits)
  qed
  have h3: "(3 :: int) + 1 < 2 ^ 31" by simp
  have w0: "op_ok user_env sample_store (Op_write ''/f'' ''abc'' 3 0)"
    by (simp add: f dl LLONG_MAX_def)
  have w0r: "run_op user_env sample_store (Op_write ''/f'' ''abc'' 3 0) =
       Some (3, redis_MSET sample_store
         [(INODE 1 A_SIZE, fmt_d (int 3)), (INODE 1 A_MTIME, fmt_d (now user_env)),
          (INODE 1 A_DATA, take 3 ''abc'')])"
    by (simp add: fs_write_def ro f to_int32_def)
  have w5: "op_ok user_env sample_store (Op_write ''/f'' ''abc'' 3 5)"
    by (simp add: f dl LLONG_MAX_def)
  have fl: "is_file sample_store 1" by (simp add: is_file_def sample_store_def)
  have nf: "\<not> g_fast user_env" by (simp add: user_env_def)
  have w5r: "run_op user_env sample_store (Op_write ''/f'' ''abc'' 3 5) =
       Some (3, redis_SET (redis_APPEND (snd (redis_INCRBY sample_store (INODE 1 A_SIZE) 3))
           (INODE 1 A_DATA) ''abc'') (INODE 1 A_MTIME) (fmt_d (now user_env)))"
    using nf by (simp add: fs_write_def ro f to_int32_def Let_def)
  have cr: "op_ok user_env sample_store (Op_create ''/g'' 420)" by simp
  have crr: "run_op user_env sample_store (Op_create ''/g'' 420) =
       Some (0, redis_MSET (redis_SADD (snd (get_next_inode sample_store)) (- 99) 4)
         (new_entry_block user_env 4 ''g'' ''FILE'' 420))"
    by (simp add: fs_create_def ro split_beta Let_def k get_parent_def get_basename_def
        find_inode_root)
  have tr: "op_ok user_env sample_store (Op_truncate ''/f'' 0)" by simp
  have isd: "is_directory user_env sample_store ''/f'' = Some 0"
    using fl by (simp add: is_directory_def f redis_GET_def is_file_def)
  have trr: "run_op user_env sample_store (Op_truncate ''/f'' 0) =
       Some (0, redis_MSET (redis_DEL sample_store (INODE 1 A_DATA))
         [(INODE 1 A_SIZE, ''0''), (INODE 1 A_MTIME, fmt_d (now user_env))])"
    by (simp add: fs_truncate_def ro f Let_def isd)
  have nw: "\<not> well_allocated t 3" if "counter_value t = Some 4" for t
    using that by (simp add: well_allocated_def)
  have c0: "size_invariant (redis_MSET sample_store
         [(INODE 1 A_SIZE, fmt_d (int 3)), (INODE 1 A_MTIME, fmt_d (now user_env)),
          (INODE 1 A_DATA, take 3 ''abc'')])
     \<and> well_allocated (redis_MSET sample_store
         [(INODE 1 A_SIZE, fmt_d (int 3)), (INODE 1 A_MTIME, fmt_d (now user_env)),
          (INODE 1 A_DATA, take 3 ''abc'')]) 3
     \<and> strs (redis_MSET sample_store
         [(INODE 1 A_SIZE, fmt_d (int 3)), (INODE 1 A_MTIME, fmt_d (now user_env)),
          (INODE 1 A_DATA, take 3 ''abc'')]) (INODE 1 A_SIZE) = Some ''3''
     \<and> strs (redis_MSET sample_store
         [(INODE 1 A_SIZE, fmt_d (int 3)), (INODE 1 A_MTIME, fmt_d (now user_env)),
          (INODE 1 A_DATA, take 3 ''abc'')]) (INODE 1 A_DATA) = Some ''abc''"
  proof -
    have "counter_value (redis_MSET sample_store
         [(INODE 1 A_SIZE, fmt_d (int 3)), (INODE 1 A_MTIME, fmt_d (now user_env)),
          (INODE 1 A_DATA, take 3 ''abc'')]) = Some 3"
      using cv by (simp add: counter_value_def strs_SET)
    then have "\<not> well_allocated (redis_MSET sample_store
         [(INODE 1 A_SIZE, fmt_d (int 3)), (INODE 1 A_MTIME, fmt_d (now user_env)),
          (INODE 1 A_DATA, take 3 ''abc'')]) (3 + 1)"
      by (simp add: well_allocated_def)
    with size_invariant_preserved [OF h1 h2 h3 w0 w0r] ro f s3 show ?thesis by simp
  qed
  have c5: "size_invariant (redis_SET (redis_APPEND (snd (redis_INCRBY sample_store (INODE 1 A_SIZE) 3))
           (INODE 1 A_DATA) ''abc'') (INODE 1 A_MTIME) (fmt_d (now user_env)))
     \<and> strs (redis_SET (redis_APPEND (snd (redis_INCRBY sample_store (INODE 1 A_SIZE) 3))
           (INODE 1 A_DATA) ''abc'') (INODE 1 A_MTIME) (fmt_d (now user_env))) (INODE 1 A_SIZE)
         = Some ''3''
     \<and> data_length (redis_SET (redis_APPEND (snd (redis_INCRBY sample_store (INODE 1 A_SIZE) 3))
           (INODE 1 A_DATA) ''abc'') (INODE 1 A_MTIME) (fmt_d (now user_env))) 1 = 3"
    using size_invariant_preserved [OF h1 h2 h3 w5 w5r] ro f fl dl s3 by simp
  have cc: "size_invariant (redis_MSET (redis_SADD (snd (get_next_inode sample_store)) (- 99) 4)
         (new_entry_block user_env 4 ''g'' ''FILE'' 420))
     \<and> well_allocated (redis_MSET (redis_SADD (snd (get_next_inode sample_store)) (- 99) 4)
         (new_entry_block user_env 4 ''g'' ''FILE'' 420)) 4
     \<and> fst (get_next_inode sample_store) = 4
     \<and> strs (redis_MSET (redis_SADD (snd (get_next_inode sample_store)) (- 99) 4)
         (new_entry_block user_env 4 ''g'' ''FILE'' 420)) (INODE 4 A_TYPE) = Some ''FILE''
     \<and> strs (redis_MSET (redis_SADD (snd (get_next_inode sample_store)) (- 99) 4)
         (new_entry_block user_env 4 ''g'' ''FILE'' 420)) (INODE 4 A_SIZE) = Some ''0''
     \<and> strs (redis_MSET (redis_SADD (snd (get_next_inode sample_store)) (- 99) 4)
         (new_entry_block user_env 4 ''g'' ''FILE'' 420)) (INODE 4 A_DATA) = None"
  proof -
    have "snd (get_next_inode sample_store) = redis_SET sample_store GLOBAL_INODE (show_int (3 + 1))"
      using get_next_inode_ok [OF cv] by simp
    then have "counter_value (redis_MSET (redis_SADD (snd (get_next_inode sample_store)) (- 99) 4)
         (new_entry_block user_env 4 ''g'' ''FILE'' 420)) = Some 4"
      using string2ll_show_int [of 4]
      by (simp add: counter_value_def new_entry_block_def strs_SET strs_SADD LLONG_MIN_def
          LLONG_MAX_def)
    then have "\<not> well_allocated (redis_MSET (redis_SADD (snd (get_next_inode sample_store)) (- 99) 4)
         (new_entry_block user_env 4 ''g'' ''FILE'' 420)) 3"
      by (rule nw)
    with size_invariant_preserved [OF h1 h2 h3 cr crr] k show ?thesis by simp
  qed
  have ct: "size_invariant (redis_MSET (redis_DEL sample_store (INODE 1 A_DATA))
         [(INODE 1 A_SIZE, ''0''), (INODE 1 A_MTIME, fmt_d (now user_env))])
     \<and> strs (redis_MSET (redis_DEL sample_store (INODE 1 A_DATA))
         [(INODE 1 A_SIZE, ''0''), (INODE 1 A_MTIME, fmt_d (now user_env))]) (INODE 1 A_DATA) = None
     \<and> strs (redis_MSET (redis_DEL sample_store (INODE 1 A_DATA))
         [(INODE 1 A_SIZE, ''0''), (INODE 1 A_MTIME, fmt_d (now user_env))]) (INODE 1 A_SIZE)
         = Some ''0''"
    using size_invariant_preserved [OF h1 h2 h3 tr trr] f by simp
  from h1 h2 h3 w0 w0r c0 w5 fl w5r c5 cr crr cc tr trr ct show ?thesis by blast
qed

section \<open>Removing a directory that has entries\<close>

text \<open>
  C7, as the spec has it: after \<open>mkdir\<close> of \<open>p\<close>, \<open>create\<close> of \<open>p/q\<close> and \<open>rmdir\<close> of \<open>p\<close>,
  the call returns \<open>-ENOTEMPTY\<close> and both the directory and the file still resolve. The
  second part fails where the allocator fails: on a store whose counter key does not hold
  a number, \<open>mkdir\<close> of \<^verbatim>\<open>/d\<close> files \<open>-1\<close> in the root's entry set, \<open>create\<close> of
  \<^verbatim>\<open>/d/f\<close> files \<open>-1\<close> under \<open>-1\<close> and writes its attributes over those of the
  directory, and \<open>rmdir\<close> of \<^verbatim>\<open>/d\<close> returns \<open>-ENOTEMPTY\<close>; but neither path resolves, and
  of the two entries there is one, a file. Nor is every directory with entries refused:
  the root has no TYPE key, and \<open>rmdir\<close> of the root with two entries returns \<open>-ENOENT\<close>.
\<close>

theorem rmdir_scenario_counterexample:
  "\<exists>s1 s2. fs_mkdir user_env corrupt_counter_store ''/d'' 493 = Some (0, s1)
     \<and> fs_create user_env s1 ''/d/f'' 33188 = Some (0, s2)
     \<and> fs_rmdir user_env s2 ''/d'' = Some (- ENOTEMPTY, s2)
     \<and> find_inode user_env s2 ''/d'' = Some (- 1)
     \<and> find_inode user_env s2 ''/d/f'' = Some (- 1)
     \<and> fs_getattr user_env s2 ''/d'' = Some (- ENOENT, stat_zero)
     \<and> fs_getattr user_env s2 ''/d/f'' = Some (- ENOENT, stat_zero)
     \<and> strs s2 (INODE (- 1) A_NAME) = Some ''f''
     \<and> strs s2 (INODE (- 1) A_TYPE) = Some ''FILE''
     \<and> dirent sample_store (- 99) = [1, 2]
     \<and> fs_rmdir user_env sample_store ''/'' = Some (- ENOENT, sample_store)"
  by (simp add: fs_mkdir_def fs_create_def fs_rmdir_def fs_getattr_def new_entry_block_def
      corrupt_counter_store_def sample_store_def user_env_def store_eval num_eval Let_def)

text \<open>
  C7, amended. On a writable mount, \<open>rmdir\<close> of a path that resolves to an inode of type
  DIR whose entry set has a member returns \<open>-ENOTEMPTY\<close> and hands back the store as it
  was. In particular, let \<open>p\<close> be a path other than the root whose parent resolves to a
  directory \<open>pi\<close>, every entry of which has a name, none of them the name of \<open>p\<close>; let \<open>q\<close> be a
  name without \<^verbatim>\<open>/\<close>; let nothing be filed under the not-found value \<open>-1\<close>; let the
  counter hold a number \<open>n\<close> with \<open>0 \<le> n\<close> and \<open>n + 2 < 2^31\<close>, with \<open>n + 1\<close> and \<open>n + 2\<close>
  not yet members of any entry set and no entry set yet under \<open>n + 1\<close>; and let the lookup
  commands for the entries of \<open>pi\<close> with the new one, and for the new directory's one
  entry, fit the buffer of \<^verbatim>\<open>find_inode\<close>. Then \<open>mkdir\<close> of \<open>p\<close> and \<open>create\<close> of \<open>p/q\<close>
  return 0, and \<open>rmdir\<close> of \<open>p\<close> returns \<open>-ENOTEMPTY\<close> with the store unchanged, in which
  \<open>p\<close> resolves to the directory \<open>n + 1\<close>, a member of the entry set of \<open>pi\<close>, and \<open>p/q\<close>
  to the file \<open>n + 2\<close>, a member of the entry set of \<open>n + 1\<close>.
\<close>

theorem rmdir_nonempty_refused:
  assumes ro: "\<not> g_read_only e"
    and P: "p \<noteq> ''/''" "get_parent p = Some par" "find_inode e s par = Some pi" "pi \<noteq> - 1"
    and Q: "CHR ''/'' \<notin> set q"
    and O: "dirent s (- 1) = []"
    and C: "counter_value s = Some n" "0 \<le> n" "n + 2 < 2 ^ 31"
    and F1: "\<forall>d. n + 1 \<notin> set (dirent s d) \<and> n + 2 \<notin> set (dirent s d)"
    and E: "dirent s (n + 1) = []"
    and F2: "\<forall>m \<in> set (dirent s pi).
               \<exists>nm. strs s (INODE m A_NAME) = Some nm \<and> nm \<noteq> get_basename p"
    and B1: "fits_buffer e (dirent s pi @ [n + 1])"
    and B2: "fits_buffer e [n + 2]"
  shows "(find_inode e t dp = Some i \<and> i \<noteq> - 1 \<and> strs t (INODE i A_TYPE) = Some ''DIR''
          \<and> dirent t i \<noteq> [] \<longrightarrow> fs_rmdir e t dp = Some (- ENOTEMPTY, t))
       \<and> (\<exists>s1 s2. fs_mkdir e s p mode = Some (0, s1)
       \<and> fs_create e s1 (p @ ''/'' @ q) mode' = Some (0, s2)
       \<and> fs_rmdir e s2 p = Some (- ENOTEMPTY, s2)
       \<and> find_inode e s2 p = Some (n + 1)
       \<and> find_inode e s2 (p @ ''/'' @ q) = Some (n + 2)
       \<and> strs s2 (INODE (n + 1) A_TYPE) = Some ''DIR''
       \<and> strs s2 (INODE (n + 2) A_TYPE) = Some ''FILE''
       \<and> n + 1 \<in> set (dirent s2 pi)
       \<and> dirent s2 (n + 1) = [n + 2])"
proof -
  have gen: "find_inode e t dp = Some i \<and> i \<noteq> - 1 \<and> strs t (INODE i A_TYPE) = Some ''DIR''
      \<and> dirent t i \<noteq> [] \<longrightarrow> fs_rmdir e t dp = Some (- ENOTEMPTY, t)"
    using ro
    by (simp add: fs_rmdir_def is_directory_def count_directory_entries_def redis_GET_def
        redis_SMEMBERS_def)
  define s0 where "s0 = redis_SET s GLOBAL_INODE (show_int (n + 1))"
  define s1 where "s1 = redis_MSET (redis_SADD s0 pi (n + 1))
      (new_entry_block e (n + 1) (get_basename p) ''DIR'' mode)"
  define s1' where "s1' = redis_SET s1 GLOBAL_INODE (show_int (n + 1 + 1))"
  define s2 where "s2 = redis_MSET (redis_SADD s1' (n + 1) (n + 1 + 1))
      (new_entry_block e (n + 1 + 1) (get_basename (p @ ''/'' @ q)) ''FILE'' mode')"
  from P(2) have pne: "p \<noteq> []" by (rule get_parent_not_Nil)
  have pq: "p @ ''/'' @ q \<noteq> ''/''" using pne by (cases p) auto
  have gpq: "get_parent (p @ ''/'' @ q) = Some p" using Q pne by (rule get_parent_append)
  have bq: "get_basename (p @ ''/'' @ q) = q" using Q by (rule get_basename_append)
  have pik: "pi \<noteq> n + 1"
    using find_inode_range [OF P(3)] P(4) F1 C(2) by auto
  \<comment> \<open>mkdir\<close>
  have g: "get_next_inode s = (n + 1, s0)"
    unfolding s0_def using C by (intro get_next_inode_ok) auto
  have f0: "find_inode e s0 par = Some pi"
    using P(3) find_inode_cong [of s0 s e par] by (simp add: s0_def strs_SET dirent_SET)
  have mk: "fs_mkdir e s p mode = Some (0, s1)"
    using ro P g f0 by (simp add: fs_mkdir_def s1_def)
  have D1: "dirent s1 = (dirent s)(pi := dirent s pi @ [n + 1])"
    using F1 by (simp add: s1_def s0_def dirent_MSET dirent_SADD dirent_SET)
  have N1: "\<And>m. m \<noteq> n + 1 \<Longrightarrow> strs s1 (INODE m A_NAME) = strs s (INODE m A_NAME)"
    by (simp add: s1_def s0_def new_entry_block_def strs_SET strs_SADD)
  have K1: "strs s1 (INODE (n + 1) A_NAME) = Some (get_basename p)"
    by (simp add: s1_def s0_def new_entry_block_def strs_SET strs_SADD)
  have T1: "strs s1 (INODE (n + 1) A_TYPE) = Some ''DIR''"
    by (simp add: s1_def s0_def new_entry_block_def strs_SET strs_SADD)
  have fi1: "find_inode e s1 par = Some pi \<and> find_inode e s1 p = Some (n + 1)"
    using F1 F2 by (intro find_inode_new_entry [OF D1 N1 K1 _ _ O B1 P]) auto
  \<comment> \<open>create\<close>
  have c1: "counter_value s1 = Some (n + 1)"
    using C(2,3)
    by (simp add: counter_value_def s1_def s0_def new_entry_block_def strs_SET strs_SADD
        string2ll_show_int LLONG_MIN_def LLONG_MAX_def)
  have g1: "get_next_inode s1 = (n + 1 + 1, s1')"
    unfolding s1'_def using c1 C by (intro get_next_inode_ok) auto
  have cr: "fs_create e s1 (p @ ''/'' @ q) mode' = Some (0, s2)"
    using ro gpq fi1 g1 by (simp add: fs_create_def s2_def)
  have E1: "dirent s1 (n + 1) = []" using D1 pik E by simp
  have D2: "dirent s2 = (dirent s1)(n + 1 := dirent s1 (n + 1) @ [n + 1 + 1])"
    using E1 by (simp add: s2_def s1'_def dirent_MSET dirent_SADD dirent_SET)
  have N2: "\<And>m. m \<noteq> n + 1 + 1 \<Longrightarrow> strs s2 (INODE m A_NAME) = strs s1 (INODE m A_NAME)"
    by (simp add: s2_def s1'_def new_entry_block_def strs_SET strs_SADD)
  have K2: "strs s2 (INODE (n + 1 + 1) A_NAME) = Some (get_basename (p @ ''/'' @ q))"
    by (simp add: s2_def s1'_def new_entry_block_def strs_SET strs_SADD)
  have T2: "strs s2 (INODE (n + 1) A_TYPE) = Some ''DIR''"
    using T1 by (simp add: s2_def s1'_def new_entry_block_def strs_SET strs_SADD)
  have O1: "dirent s1 (- 1) = []" using D1 P(4) O by simp
  have e2: "n + 1 + 1 = n + 2" by simp
  have F1': "\<And>d. n + 1 + 1 \<notin> set (dirent s1 d)"
  proof -
    fix d
    from F1 have a: "n + 2 \<notin> set (dirent s d)" "n + 2 \<notin> set (dirent s pi)" by blast+
    show "n + 1 + 1 \<notin> set (dirent s1 d)"
      unfolding e2 using a D1 by (cases "d = pi") simp_all
  qed
  have k1: "n + 1 \<noteq> - 1" using C(2) by simp
  have B2': "fits_buffer e (dirent s1 (n + 1) @ [n + 1 + 1])"
    using B2 E1 by (simp add: e2)
  have fi2: "find_inode e s2 p = Some (n + 1) \<and> find_inode e s2 (p @ ''/'' @ q) = Some (n + 1 + 1)"
    using E1 by (intro find_inode_new_entry [OF D2 N2 K2 F1' _ O1 B2' pq gpq _ k1]) (auto simp: fi1)
  \<comment> \<open>rmdir\<close>
  have isd: "is_directory e s2 p = Some 1"
    using fi2 T2 k1 by (simp add: is_directory_def redis_GET_def)
  have cnt: "count_directory_entries e s2 p = Some 1"
    using fi2 D2 E1 by (simp add: count_directory_entries_def redis_SMEMBERS_def)
  have rm: "fs_rmdir e s2 p = Some (- ENOTEMPTY, s2)"
    using ro isd cnt by (simp add: fs_rmdir_def)
  from fi2 have fi2': "find_inode e s2 p = Some (n + 1)" "find_inode e s2 (p @ ''/'' @ q) = Some (n + 2)"
    by (simp_all add: add.assoc)
  have T3: "strs s2 (INODE (n + 2) A_TYPE) = Some ''FILE''"
    by (simp add: s2_def s1'_def new_entry_block_def strs_SET strs_SADD e2)
  have M1: "n + 1 \<in> set (dirent s2 pi)"
    using D2 D1 pik by simp
  have M2: "dirent s2 (n + 1) = [n + 2]"
    using D2 E1 by (simp add: e2)
  from mk cr rm fi2' T2 T3 M1 M2
  have "\<exists>s1 s2. fs_mkdir e s p mode = Some (0, s1)
       \<and> fs_create e s1 (p @ ''/'' @ q) mode' = Some (0, s2)
       \<and> fs_rmdir e s2 p = Some (- ENOTEMPTY, s2)
       \<and> find_inode e s2 p = Some (n + 1)
       \<and> find_inode e s2 (p @ ''/'' @ q) = Some (n + 2)
       \<and> strs s2 (INODE (n + 1) A_TYPE) = Some ''DIR''
       \<and> strs s2 (INODE (n + 2) A_TYPE) = Some ''FILE''
       \<and> n + 1 \<in> set (dirent s2 pi)
       \<and> dirent s2 (n + 1) = [n + 2]"
    by blast
  with gen show ?thesis by (rule conjI)
qed

theorem rmdir_nonempty_refused_witness:
  "\<not> g_read_only user_env
   \<and> ''/e'' \<noteq> ''/''
   \<and> get_parent ''/e'' = Some ''/''
   \<and> find_inode user_env sample_store ''/'' = Some (- 99 :: int)
   \<and> (- 99 :: int) \<noteq> - 1
   \<and> CHR ''/'' \<notin> set ''h''
   \<and> dirent sample_store (- 1) = []
   \<and> counter_value sample_store = Some (3 :: int)
   \<and> 0 \<le> (3 :: int)
   \<and> (3 :: int) + 2 < 2 ^ 31
   \<and> (\<forall>d. (3 :: int) + 1 \<notin> set (dirent sample_store d) \<and> (3 :: int) + 2 \<notin> set (dirent sample_store d))
   \<and> dirent sample_store ((3 :: int) + 1) = []
   \<and> fits_buffer user_env (dirent sample_store (- 99) @ [(3 :: int) + 1])
   \<and> fits_buffer user_env [(3 :: int) + 2]
   \<and> dirent sample_store (- 99) = [1, 2]
   \<and> strs sample_store (INODE 1 A_NAME) = Some ''f''
   \<and> strs sample_store (INODE 2 A_NAME) = Some ''d''
   \<and> get_basename ''/e'' = ''e''
   \<and> find_inode user_env sample_store ''/d'' = Some 2
   \<and> strs sample_store (INODE 2 A_TYPE) = Some ''DIR''
   \<and> dirent sample_store 2 = [3]
   \<and> fs_rmdir user_env sample_store ''/d'' = Some (- ENOTEMPTY, sample_store)
   \<and> (\<exists>s1 s2. fs_mkdir user_env sample_store ''/e'' 493 = Some (0, s1)
       \<and> fs_create user_env s1 (''/e'' @ ''/'' @ ''h'') 33188 = Some (0, s2)
       \<and> fs_rmdir user_env s2 ''/e'' = Some (- ENOTEMPTY, s2)
       \<and> find_inode user_env s2 ''/e'' = Some ((3 :: int) + 1)
       \<and> find_inode user_env s2 (''/e'' @ ''/'' @ ''h'') = Some ((3 :: int) + 2)
       \<and> strs s2 (INODE ((3 :: int) + 1) A_TYPE) = Some ''DIR''
       \<and> strs s2 (INODE ((3 :: int) + 2) A_TYPE) = Some ''FILE''
       \<and> (3 :: int) + 1 \<in> set (dirent s2 (- 99 :: int))
       \<and> dirent s2 ((3 :: int) + 1) = [(3 :: int) + 2])"
proof -
  have h1: "\<not> g_read_only user_env"
    by (simp add: user_env_def)
  have h2: "''/e'' \<noteq> ''/''"
    by simp
  have h3: "get_parent ''/e'' = Some ''/''"
    by (simp add: get_parent_def)
  have h4: "find_inode user_env sample_store ''/'' = Some (- 99 :: int)"
    by (rule find_inode_root)
  have h5: "(- 99 :: int) \<noteq> - 1"
    by simp
  have h6: "CHR ''/'' \<notin> set ''h''"
    by simp
  have h7: "dirent sample_store (- 1) = []"
    by (simp add: sample_store_def)
  have h8: "counter_value sample_store = Some (3 :: int)"
    by (simp add: counter_value_def sample_store_def num_eval)
  have h9: "0 \<le> (3 :: int)"
    by simp
  have h10: "(3 :: int) + 2 < 2 ^ 31"
    by simp
  have h11: "\<forall>d. (3 :: int) + 1 \<notin> set (dirent sample_store d) \<and> (3 :: int) + 2 \<notin> set (dirent sample_store d)"
    by (simp add: sample_store_def)
  have h12: "dirent sample_store ((3 :: int) + 1) = []"
    by (simp add: sample_store_def)
  have h13: "\<forall>m \<in> set (dirent sample_store (- 99 :: int)). \<exists>nm. strs sample_store (INODE m A_NAME) = Some nm \<and> nm \<noteq> get_basename ''/e''"
    by (simp add: sample_store_def get_basename_def)
  have h14: "fits_buffer user_env (dirent sample_store (- 99) @ [(3 :: int) + 1])"
    by (simp add: sample_store_def user_env_def memcommand_def fits_buffer_def
        MEMCOMMAND_SIZE_def num_eval)
  have h15: "fits_buffer user_env [(3 :: int) + 2]"
    by (simp add: user_env_def memcommand_def fits_buffer_def MEMCOMMAND_SIZE_def num_eval)
  have f1: "dirent sample_store (- 99) = [1, 2]"
    by (simp add: sample_store_def)
  have f2: "strs sample_store (INODE 1 A_NAME) = Some ''f''"
    by (simp add: sample_store_def)
  have f3: "strs sample_store (INODE 2 A_NAME) = Some ''d''"
    by (simp add: sample_store_def)
  have f4: "get_basename ''/e'' = ''e''"
    by (simp add: get_basename_def)
  have f5: "find_inode user_env sample_store ''/d'' = Some 2"
    by (simp add: store_eval sample_store_def user_env_def num_eval)
  have f6: "strs sample_store (INODE 2 A_TYPE) = Some ''DIR''"
    by (simp add: sample_store_def)
  have f7: "dirent sample_store 2 = [3]"
    by (simp add: sample_store_def)
  have c: "(find_inode user_env sample_store ''/d'' = Some (2 :: int) \<and> (2 :: int) \<noteq> - 1 \<and> strs sample_store (INODE (2 :: int) A_TYPE) = Some ''DIR''
          \<and> dirent sample_store (2 :: int) \<noteq> [] \<longrightarrow> fs_rmdir user_env sample_store ''/d'' = Some (- ENOTEMPTY, sample_store))
       \<and> (\<exists>s1 s2. fs_mkdir user_env sample_store ''/e'' 493 = Some (0, s1)
       \<and> fs_create user_env s1 (''/e'' @ ''/'' @ ''h'') 33188 = Some (0, s2)
       \<and> fs_rmdir user_env s2 ''/e'' = Some (- ENOTEMPTY, s2)
       \<and> find_inode user_env s2 ''/e'' = Some ((3 :: int) + 1)
       \<and> find_inode user_env s2 (''/e'' @ ''/'' @ ''h'') = Some ((3 :: int) + 2)
       \<and> strs s2 (INODE ((3 :: int) + 1) A_TYPE) = Some ''DIR''
       \<and> strs s2 (INODE ((3 :: int) + 2) A_TYPE) = Some ''FILE''
       \<and> (3 :: int) + 1 \<in> set (dirent s2 (- 99 :: int))
       \<and> dirent s2 ((3 :: int) + 1) = [(3 :: int) + 2])"
    by (rule rmdir_nonempty_refused [OF h1 h2 h3 h4 h5 h6 h7 h8 h9 h10 h11 h12 h13 h14 h15])
  have n2: "dirent sample_store 2 \<noteq> []" "(2 :: int) \<noteq> - 1"
    using f7 by simp_all
  have c1: "fs_rmdir user_env sample_store ''/d'' = Some (- ENOTEMPTY, sample_store)"
    using c n2 f1 f2 f3 f4 f5 f6 f7 by blast
  have c2: "\<exists>s1 s2. fs_mkdir user_env sample_store ''/e'' 493 = Some (0, s1)
       \<and> fs_create user_env s1 (''/e'' @ ''/'' @ ''h'') 33188 = Some (0, s2)
       \<and> fs_rmdir user_env s2 ''/e'' = Some (- ENOTEMPTY, s2)
       \<and> find_inode user_env s2 ''/e'' = Some ((3 :: int) + 1)
       \<and> find_inode user_env s2 (''/e'' @ ''/'' @ ''h'') = Some ((3 :: int) + 2)
       \<and> strs s2 (INODE ((3 :: int) + 1) A_TYPE) = Some ''DIR''
       \<and> strs s2 (INODE ((3 :: int) + 2) A_TYPE) = Some ''FILE''
       \<and> (3 :: int) + 1 \<in> set (dirent s2 (- 99 :: int))
       \<and> dirent s2 ((3 :: int) + 1) = [(3 :: int) + 2]"
    using c f1 f2 f3 f4 f5 f6 f7 by blast
  from h1 h2 h3 h4 h5 h6 h7 h8 h9 h10 h11 h12 h14 h15 f1 f2 f3 f4 f5 f6 f7 c1 c2 show ?thesis
    by (intro conjI)
qed

section \<open>The root directory\<close>

text \<open>
  C8, as the spec has it: \<open>getattr\<close> of the root reports the uid and gid of the calling
  context. It fails where the request comes from another user than the one the
  filesystem process runs as: for a request of user 1000, the code reports uid 0.
\<close>

theorem getattr_root_uid_counterexample:
  "st_uid (snd (the (fs_getattr user_env empty_store ''/''))) \<noteq> ctx_uid user_env"
  by (simp add: fs_getattr_def root_stat_def user_env_def stat_zero_def)

text \<open>
  C8, amended: \<open>getattr\<close> of the root returns 0 without consulting the store, with mode
  \<open>S_IFDIR | 0755\<close>, link count 1, the three times equal to the current time, and the
  uid and gid of the filesystem process itself (\<^verbatim>\<open>getuid()\<close>, \<^verbatim>\<open>getgid()\<close>).
\<close>

theorem getattr_root:
  "\<exists>st. fs_getattr e s ''/'' = Some (0, st)
     \<and> st_mode st = or S_IFDIR 493 \<and> st_nlink st = 1
     \<and> st_atime st = now e \<and> st_mtime st = now e \<and> st_ctime st = now e
     \<and> st_uid st = proc_uid e \<and> st_gid st = proc_gid e"
  by (simp add: fs_getattr_def root_stat_def)

section \<open>Writing to a path that is not found\<close>

text \<open>
  C9, as the spec has it: a write to a path that does not resolve goes to the keys of
  inode \<open>-1\<close>, which no directory reaches. It fails where \<open>-1\<close> is a member of an entry
  set, as it is after an allocation that failed: on a store whose counter key does not
  hold a number, \<open>create\<close> of \<^verbatim>\<open>/f\<close> files \<open>-1\<close> in the root's entry set under the name
  \<^verbatim>\<open>f\<close>; a write to \<^verbatim>\<open>/nofile\<close>, which does not resolve, then stores its bytes under
  \<open>-1\<close>, an inode that the root's entry set holds and \<open>readdir\<close> of the root lists.
\<close>

theorem write_unresolved_counterexample:
  "\<exists>s0 s'. fs_create user_env corrupt_counter_store ''/f'' 33188 = Some (0, s0)
     \<and> find_inode user_env s0 ''/nofile'' = Some (- 1)
     \<and> fs_write user_env s0 ''/nofile'' ''abc'' 3 0 = Some (3, s')
     \<and> strs s' (INODE (- 1) A_DATA) = Some ''abc''
     \<and> dirent s' (- 99) = [- 1]
     \<and> strs s' (INODE (- 1) A_NAME) = Some ''f''
     \<and> fs_readdir user_env s' ''/'' = Some (0, [''.'', ''..'', ''f''])"
  by (simp add: fs_create_def fs_write_def fs_readdir_def new_entry_block_def
      corrupt_counter_store_def user_env_def store_eval num_eval Let_def)

text \<open>
  C9, amended. On a writable mount, a write to a path whose lookup gives the not-found
  value \<open>-1\<close> does not return \<open>-ENOENT\<close>: it returns the byte count, and what it changes
  in the store are the SIZE, MTIME and DATA keys of inode \<open>-1\<close>. It changes no entry set:
  the keys are out of reach of every directory if \<open>-1\<close> was a member of no entry set
  before the write, and only then. The byte count is below \<open>2^31\<close>, so that it fits the
  \<^verbatim>\<open>int\<close> result.
\<close>

theorem write_unresolved_goes_to_sentinel:
  assumes "\<not> g_read_only e" and "find_inode e s path = Some (- 1)" and "nbytes < 2 ^ 31"
  shows "\<exists>s'. fs_write e s path buf nbytes offset = Some (int nbytes, s')
     \<and> int nbytes \<noteq> - ENOENT
     \<and> dirent s' = dirent s
     \<and> ((\<forall>d. - 1 \<notin> set (dirent s' d)) \<longleftrightarrow> (\<forall>d. - 1 \<notin> set (dirent s d)))
     \<and> (\<forall>k. k \<noteq> INODE (- 1) A_SIZE \<and> k \<noteq> INODE (- 1) A_MTIME \<and> k \<noteq> INODE (- 1) A_DATA
            \<longrightarrow> strs s' k = strs s k)
     \<and> strs s' (INODE (- 1) A_DATA) =
         Some ((if offset = 0 then []
                else (case strs s (INODE (- 1) A_DATA) of None \<Rightarrow> [] | Some d \<Rightarrow> d)) @ take nbytes buf)
     \<and> (offset = 0 \<or> strs s (INODE (- 1) A_SIZE) = None
          \<longrightarrow> strs s' (INODE (- 1) A_SIZE) = Some (show_int (int nbytes)))
     \<and> (offset = 0 \<or> \<not> g_fast e \<longrightarrow> strs s' (INODE (- 1) A_MTIME) = Some (fmt_d (now e)))"
proof -
  have n32: "to_int32 (int nbytes) = int nbytes"
    using assms(3) by (simp add: to_int32_id)
  have rng: "\<not> int nbytes < LLONG_MIN" "\<not> LLONG_MAX < int nbytes"
    using assms(3) by (simp_all add: LLONG_MIN_def LLONG_MAX_def)
  show ?thesis
  proof (cases "offset = 0")
    case True
    with assms n32 show ?thesis
      by (simp add: fs_write_def fmt_d_def strs_SET dirent_SET ENOENT_def)
  next
    case False
    define s1 where "s1 = snd (redis_INCRBY s (INODE (- 1) A_SIZE) (int nbytes))"
    define s2 where "s2 = redis_APPEND s1 (INODE (- 1) A_DATA) (take nbytes buf)"
    define s3 where "s3 = (if \<not> g_fast e then redis_SET s2 (INODE (- 1) A_MTIME) (fmt_d (now e)) else s2)"
    have w: "fs_write e s path buf nbytes offset = Some (int nbytes, s3)"
      using assms False n32 by (simp add: fs_write_def Let_def s1_def s2_def s3_def)
    have d: "dirent s3 = dirent s"
      by (simp add: s3_def s2_def s1_def dirent_SET dirent_APPEND dirent_INCRBY)
    have o: "\<forall>k. k \<noteq> INODE (- 1) A_SIZE \<and> k \<noteq> INODE (- 1) A_MTIME \<and> k \<noteq> INODE (- 1) A_DATA
            \<longrightarrow> strs s3 k = strs s k"
      by (simp add: s3_def s2_def s1_def strs_SET strs_APPEND strs_INCRBY_other)
    have dat: "strs s3 (INODE (- 1) A_DATA) =
        Some ((case strs s (INODE (- 1) A_DATA) of None \<Rightarrow> [] | Some d \<Rightarrow> d) @ take nbytes buf)"
      by (simp add: s3_def s2_def s1_def strs_SET strs_APPEND strs_INCRBY_other)
    have sz: "strs s (INODE (- 1) A_SIZE) = None
        \<longrightarrow> strs s3 (INODE (- 1) A_SIZE) = Some (show_int (int nbytes))"
      using rng by (simp add: s3_def s2_def s1_def strs_SET strs_APPEND redis_INCRBY_def)
    have mt: "\<not> g_fast e \<longrightarrow> strs s3 (INODE (- 1) A_MTIME) = Some (fmt_d (now e))"
      by (simp add: s3_def strs_SET)
    from w d o dat sz mt False show ?thesis
      by (intro exI [of _ s3]) (simp add: ENOENT_def)
  qed
qed

theorem write_unresolved_goes_to_sentinel_witness:
  "\<not> g_read_only user_env \<and> find_inode user_env empty_store ''/nofile'' = Some (- 1)
   \<and> (3 :: nat) < 2 ^ 31
   \<and> (\<exists>s'. fs_write user_env empty_store ''/nofile'' ''abc'' 3 0 = Some (int 3, s')
     \<and> int 3 \<noteq> - ENOENT
     \<and> dirent s' = dirent empty_store
     \<and> (\<forall>d. - 1 \<notin> set (dirent s' d))
     \<and> strs s' (INODE (- 1) A_DATA) = Some ''abc''
     \<and> strs s' (INODE (- 1) A_SIZE) = Some ''3''
     \<and> strs s' (INODE (- 1) A_MTIME) = Some ''1300000000'')"
proof -
  have h1: "\<not> g_read_only user_env" by (simp add: user_env_def)
  have h2: "find_inode user_env empty_store ''/nofile'' = Some (- 1)"
    by (simp add: store_eval empty_store_def user_env_def num_eval)
  have h3: "(3 :: nat) < 2 ^ 31" by simp
  have e0: "\<forall>d. - 1 \<notin> set (dirent empty_store d)" by (simp add: empty_store_def)
  have v: "show_int 3 = ''3''" "fmt_d (now user_env) = ''1300000000''"
    by (simp_all add: user_env_def num_eval)
  from write_unresolved_goes_to_sentinel [OF h1 h2 h3, of "''abc''" 0]
  obtain s' where c: "fs_write user_env empty_store ''/nofile'' ''abc'' 3 0 = Some (int 3, s')
     \<and> int 3 \<noteq> - ENOENT
     \<and> dirent s' = dirent empty_store
     \<and> ((\<forall>d. - 1 \<notin> set (dirent s' d)) \<longleftrightarrow> (\<forall>d. - 1 \<notin> set (dirent empty_store d)))
     \<and> (\<forall>k. k \<noteq> INODE (- 1) A_SIZE \<and> k \<noteq> INODE (- 1) A_MTIME \<and> k \<noteq> INODE (- 1) A_DATA
            \<longrightarrow> strs s' k = strs empty_store k)
     \<and> strs s' (INODE (- 1) A_DATA) =
         Some ((if (0 :: nat) = 0 then []
                else (case strs empty_store (INODE (- 1) A_DATA) of None \<Rightarrow> [] | Some d \<Rightarrow> d))
               @ take 3 ''abc'')
     \<and> ((0 :: nat) = 0 \<or> strs empty_store (INODE (- 1) A_SIZE) = None
          \<longrightarrow> strs s' (INODE (- 1) A_SIZE) = Some (show_int (int 3)))
     \<and> ((0 :: nat) = 0 \<or> \<not> g_fast user_env
          \<longrightarrow> strs s' (INODE (- 1) A_MTIME) = Some (fmt_d (now user_env)))" ..
  note w1 = c [THEN conjunct1]
  note w2 = c [THEN conjunct2, THEN conjunct1]
  note w3 = c [THEN conjunct2, THEN conjunct2, THEN conjunct1]
  note w4 = c [THEN conjunct2, THEN conjunct2, THEN conjunct2, THEN conjunct1]
  note w6 = c [THEN conjunct2, THEN conjunct2, THEN conjunct2, THEN conjunct2, THEN conjunct2,
      THEN conjunct1]
  note w7 = c [THEN conjunct2, THEN conjunct2, THEN conjunct2, THEN conjunct2, THEN conjunct2,
      THEN conjunct2, THEN conjunct1]
  note w8 = c [THEN conjunct2, THEN conjunct2, THEN conjunct2, THEN conjunct2, THEN conjunct2,
      THEN conjunct2, THEN conjunct2]
  from w4 e0 have r: "\<forall>d. - 1 \<notin> set (dirent s' d)" by (rule iffD2)
  from w6 have dt: "strs s' (INODE (- 1) A_DATA) = Some ''abc''" by simp
  from w7 have sz: "strs s' (INODE (- 1) A_SIZE) = Some ''3''" by (simp add: v)
  from w8 have mt: "strs s' (INODE (- 1) A_MTIME) = Some ''1300000000''" by (simp add: v)
  from w1 w2 w3 r dt sz mt
  have "fs_write user_env empty_store ''/nofile'' ''abc'' 3 0 = Some (int 3, s')
     \<and> int 3 \<noteq> - ENOENT
     \<and> dirent s' = dirent empty_store
     \<and> (\<forall>d. - 1 \<notin> set (dirent s' d))
     \<and> strs s' (INODE (- 1) A_DATA) = Some ''abc''
     \<and> strs s' (INODE (- 1) A_SIZE) = Some ''3''
     \<and> strs s' (INODE (- 1) A_MTIME) = Some ''1300000000''"
    by (intro conjI)
  then have "\<exists>s'. fs_write user_env empty_store ''/nofile'' ''abc'' 3 0 = Some (int 3, s')
     \<and> int 3 \<noteq> - ENOENT
     \<and> dirent s' = dirent empty_store
     \<and> (\<forall>d. - 1 \<notin> set (dirent s' d))
     \<and> strs s' (INODE (- 1) A_DATA) = Some ''abc''
     \<and> strs s' (INODE (- 1) A_SIZE) = Some ''3''
     \<and> strs s' (INODE (- 1) A_MTIME) = Some ''1300000000''"
    by blast
  with h1 h2 h3 show ?thesis by (intro conjI)
qed

section \<open>Unlinking the root\<close>

text \<open>
  C10, as the spec has it: \<open>unlink\<close> of the root returns 0 and leaves every attribute key
  and every member of every entry set as it was. It fails where the root is a member of
  its own entry set, which \<open>rename\<close> of the root brings about: on the empty store,
  \<open>rename\<close> of \<^verbatim>\<open>/\<close> to \<^verbatim>\<open>/x\<close> returns 0 and adds \<open>-99\<close> to the entry set of \<open>-99\<close>, and
  \<open>unlink\<close> of the root then returns 0 and removes it again.
\<close>

theorem unlink_root_counterexample:
  "\<exists>s1 s2. fs_rename user_env empty_store ''/'' ''/x'' = Some (0, s1)
     \<and> dirent s1 (- 99) = [- 99]
     \<and> fs_unlink user_env s1 ''/'' = Some (0, s2)
     \<and> dirent s2 (- 99) = []
     \<and> dirent s2 (- 99) \<noteq> dirent s1 (- 99)"
  by (simp add: fs_rename_def fs_unlink_def empty_store_def user_env_def store_eval Let_def)

text \<open>
  C10, amended. \<^verbatim>\<open>remove_inode\<close> deletes nothing for a negative inode. The root resolves
  to \<open>-99\<close>, which is not the not-found value, so on a writable mount \<open>unlink\<close> of the
  root goes on to remove \<open>-99\<close> from the root's own entry set and to call
  \<^verbatim>\<open>remove_inode (-99)\<close>: it returns 0, leaves every attribute key and the counter as
  they were, leaves every other entry set as it was, and takes \<open>-99\<close>, and nothing else,
  out of the entry set of the root. The store is handed back unchanged if and only if the
  root was not a member of its own entry set.
\<close>

theorem unlink_root_removes_self:
  assumes "\<not> g_read_only e"
  shows "(inode < 0 \<longrightarrow> remove_inode t inode = t)
       \<and> find_inode e s ''/'' = Some (- 99)
       \<and> fs_unlink e s ''/'' = Some (0, redis_SREM s (- 99) (- 99))
       \<and> strs (redis_SREM s (- 99) (- 99)) = strs s
       \<and> dirent (redis_SREM s (- 99) (- 99)) =
           (dirent s)(- 99 := removeAll (- 99) (dirent s (- 99)))
       \<and> (redis_SREM s (- 99) (- 99) = s \<longleftrightarrow> - 99 \<notin> set (dirent s (- 99)))"
proof -
  have a: "inode < 0 \<longrightarrow> remove_inode t inode = t"
    by (simp add: remove_inode_negative)
  have b: "find_inode e s ''/'' = Some (- 99)" by (rule find_inode_root)
  have c: "fs_unlink e s ''/'' = Some (0, redis_SREM s (- 99) (- 99))"
    using assms by (simp add: fs_unlink_def find_inode_root remove_inode_negative get_parent_def)
  have d: "strs (redis_SREM s (- 99) (- 99)) = strs s" by (rule strs_SREM)
  have f: "dirent (redis_SREM s (- 99) (- 99)) =
      (dirent s)(- 99 := removeAll (- 99) (dirent s (- 99)))" by (rule dirent_SREM)
  have g: "redis_SREM s (- 99) (- 99) = s \<longleftrightarrow> - 99 \<notin> set (dirent s (- 99))"
  proof
    assume "redis_SREM s (- 99) (- 99) = s"
    then have "dirent (redis_SREM s (- 99) (- 99)) (- 99) = dirent s (- 99)" by simp
    then have "removeAll (- 99) (dirent s (- 99)) = dirent s (- 99)" by (simp add: dirent_SREM)
    then have "set (dirent s (- 99)) = set (dirent s (- 99)) - {- 99}" by (metis set_removeAll)
    then show "- 99 \<notin> set (dirent s (- 99))" by blast
  next
    assume "- 99 \<notin> set (dirent s (- 99))"
    then show "redis_SREM s (- 99) (- 99) = s" by (simp add: redis_SREM_def)
  qed
  from a b c d f g show ?thesis by (intro conjI)
qed

theorem unlink_root_removes_self_witness:
  "\<not> g_read_only user_env
   \<and> (- 5 :: int) < 0
   \<and> remove_inode sample_store (- 5) = sample_store
   \<and> find_inode user_env sample_store ''/'' = Some (- 99)
   \<and> fs_unlink user_env sample_store ''/'' = Some (0, redis_SREM sample_store (- 99) (- 99))
   \<and> strs (redis_SREM sample_store (- 99) (- 99)) = strs sample_store
   \<and> dirent (redis_SREM sample_store (- 99) (- 99)) =
       (dirent sample_store)(- 99 := removeAll (- 99) (dirent sample_store (- 99)))
   \<and> - 99 \<notin> set (dirent sample_store (- 99))
   \<and> redis_SREM sample_store (- 99) (- 99) = sample_store"
proof -
  have h1: "\<not> g_read_only user_env"
    by (simp add: user_env_def)
  have h2: "(- 5 :: int) < 0" by simp
  have h3: "- 99 \<notin> set (dirent sample_store (- 99))"
    by (simp add: sample_store_def)
  have c: "((- 5 :: int) < 0 \<longrightarrow> remove_inode sample_store (- 5) = sample_store)
       \<and> find_inode user_env sample_store ''/'' = Some (- 99)
       \<and> fs_unlink user_env sample_store ''/'' = Some (0, redis_SREM sample_store (- 99) (- 99))
       \<and> strs (redis_SREM sample_store (- 99) (- 99)) = strs sample_store
       \<and> dirent (redis_SREM sample_store (- 99) (- 99)) =
           (dirent sample_store)(- 99 := removeAll (- 99) (dirent sample_store (- 99)))
       \<and> (redis_SREM sample_store (- 99) (- 99) = sample_store
            \<longleftrightarrow> - 99 \<notin> set (dirent sample_store (- 99)))"
    by (rule unlink_root_removes_self [OF h1])
  have c1: "remove_inode sample_store (- 5) = sample_store"
    using c h2 by blast
  have c2: "find_inode user_env sample_store ''/'' = Some (- 99)"
    using c by blast
  have c3: "fs_unlink user_env sample_store ''/'' = Some (0, redis_SREM sample_store (- 99) (- 99))"
    using c by blast
  have c4: "strs (redis_SREM sample_store (- 99) (- 99)) = strs sample_store"
    using c by blast
  have c5: "dirent (redis_SREM sample_store (- 99) (- 99)) =
       (dirent sample_store)(- 99 := removeAll (- 99) (dirent sample_store (- 99)))"
    using c by blast
  have c6: "redis_SREM sample_store (- 99) (- 99) = sample_store"
    using c h3 by blast
  from h1 h2 c1 c2 c3 c4 c5 h3 c6 show ?thesis by (intro conjI)
qed

end
